theory Spec2Isabelle
  imports Complex_Main
begin

section \<open>Floating-point values\<close>

text \<open>
  The evaluators of \<^verbatim>\<open>polyTEOS10.py\<close> compute on IEEE double-precision numbers (Python
  \<^verbatim>\<open>float\<close> and \<^verbatim>\<open>numpy.float64\<close>).  A value is a finite number, one of the two
  infinities, or not-a-number.  Finite results are kept as exact reals: rounding to 53 bits
  is not part of the model, and neither is the sign of zero.  What is kept of the format is
  its range (a finite result beyond the largest double becomes an infinity) and the
  propagation of infinities and NaN through every operation, which is what the code relies
  on at the edge of its domain.
\<close>

datatype fl = Fin real | PInf | NInf | NaN

definition fl_max :: real where
  "fl_max = 2 ^ 1024 - 2 ^ 971"

definition overflow :: "real \<Rightarrow> fl" where
  "overflow x = (if fl_max < x then PInf else if x < - fl_max then NInf else Fin x)"

fun fl_add :: "fl \<Rightarrow> fl \<Rightarrow> fl" where
  "fl_add (Fin x) (Fin y) = overflow (x + y)"
| "fl_add NaN _ = NaN"
| "fl_add _ NaN = NaN"
| "fl_add PInf NInf = NaN"
| "fl_add NInf PInf = NaN"
| "fl_add PInf _ = PInf"
| "fl_add _ PInf = PInf"
| "fl_add NInf _ = NInf"
| "fl_add _ NInf = NInf"

fun fl_neg :: "fl \<Rightarrow> fl" where
  "fl_neg (Fin x) = Fin (- x)"
| "fl_neg PInf = NInf"
| "fl_neg NInf = PInf"
| "fl_neg NaN = NaN"

fun fl_inf_times :: "fl \<Rightarrow> real \<Rightarrow> fl" where
  "fl_inf_times i x = (if x = 0 then NaN else if 0 < x then i else fl_neg i)"

fun fl_mul :: "fl \<Rightarrow> fl \<Rightarrow> fl" where
  "fl_mul (Fin x) (Fin y) = overflow (x * y)"
| "fl_mul NaN _ = NaN"
| "fl_mul _ NaN = NaN"
| "fl_mul (Fin x) i = fl_inf_times i x"
| "fl_mul i (Fin y) = fl_inf_times i y"
| "fl_mul PInf PInf = PInf"
| "fl_mul NInf NInf = PInf"
| "fl_mul PInf NInf = NInf"
| "fl_mul NInf PInf = NInf"

text \<open>
  Division as numpy does it: a zero divisor gives an infinity (NaN for \<open>0 / 0\<close>) and a
  warning, never an exception.  The zero divisor is taken as \<open>+0\<close>.
\<close>

fun fl_div :: "fl \<Rightarrow> fl \<Rightarrow> fl" where
  "fl_div (Fin x) (Fin y) =
     (if y = 0 then (if x = 0 then NaN else if 0 < x then PInf else NInf)
      else overflow (x / y))"
| "fl_div NaN _ = NaN"
| "fl_div _ NaN = NaN"
| "fl_div (Fin x) PInf = Fin 0"
| "fl_div (Fin x) NInf = Fin 0"
| "fl_div PInf (Fin y) = (if 0 \<le> y then PInf else NInf)"
| "fl_div NInf (Fin y) = (if 0 \<le> y then NInf else PInf)"
| "fl_div PInf PInf = NaN"
| "fl_div PInf NInf = NaN"
| "fl_div NInf PInf = NaN"
| "fl_div NInf NInf = NaN"

instantiation fl :: "{plus, times, inverse}"
begin

definition plus_fl :: "fl \<Rightarrow> fl \<Rightarrow> fl" where
  "plus_fl = fl_add"

definition times_fl :: "fl \<Rightarrow> fl \<Rightarrow> fl" where
  "times_fl = fl_mul"

definition divide_fl :: "fl \<Rightarrow> fl \<Rightarrow> fl" where
  "divide_fl = fl_div"

definition inverse_fl :: "fl \<Rightarrow> fl" where
  "inverse_fl = fl_div (Fin 1)"

instance ..

end

text \<open>\<^verbatim>\<open>numpy.sqrt\<close>: NaN (and a warning) on a negative argument.\<close>

fun np_sqrt :: "fl \<Rightarrow> fl" where
  "np_sqrt (Fin x) = (if x < 0 then NaN else Fin (sqrt x))"
| "np_sqrt PInf = PInf"
| "np_sqrt NInf = NaN"
| "np_sqrt NaN = NaN"

fun finite_fl :: "fl \<Rightarrow> bool" where
  "finite_fl (Fin x) = True"
| "finite_fl _ = False"

subsection \<open>Python's scalar division\<close>

text \<open>
  The reduced variables are obtained with Python's \<^verbatim>\<open>/\<close>, which on two Python floats
  raises \<^verbatim>\<open>ZeroDivisionError\<close> for a zero divisor.  An evaluator therefore returns either
  an error or its five outputs.
\<close>

datatype py_error = ZeroDivisionError

definition py_truediv :: "fl \<Rightarrow> fl \<Rightarrow> py_error + fl" where
  "py_truediv x y = (if y = Fin 0 then Inl ZeroDivisionError else Inr (x / y))"

definition bind_err :: "'e + 'a \<Rightarrow> ('a \<Rightarrow> 'e + 'b) \<Rightarrow> 'e + 'b" where
  "bind_err m f = (case m of Inl e \<Rightarrow> Inl e | Inr x \<Rightarrow> f x)"

named_theorems coef \<open>defining equations of the literal coefficients\<close>

section \<open>The four evaluators\<close>

subsection \<open>\<^verbatim>\<open>polyTEOS10_bsq\<close>: coefficient tables\<close>

definition bsq_R00 :: fl where [coef]: "bsq_R00 = Fin (4.6494977072 * 10 ^ 1)"
definition bsq_R01 :: fl where [coef]: "bsq_R01 = Fin (- 5.2099962525)"
definition bsq_R02 :: fl where [coef]: "bsq_R02 = Fin (2.2601900708 / 10 ^ 1)"
definition bsq_R03 :: fl where [coef]: "bsq_R03 = Fin (6.4326772569 / 10 ^ 2)"
definition bsq_R04 :: fl where [coef]: "bsq_R04 = Fin (1.5616995503 / 10 ^ 2)"
definition bsq_R05 :: fl where [coef]: "bsq_R05 = Fin (- 1.7243708991 / 10 ^ 3)"
definition bsq_R000 :: fl where [coef]: "bsq_R000 = Fin (8.0189615746 * 10 ^ 2)"
definition bsq_R100 :: fl where [coef]: "bsq_R100 = Fin (8.6672408165 * 10 ^ 2)"
definition bsq_R200 :: fl where [coef]: "bsq_R200 = Fin (- 1.7864682637 * 10 ^ 3)"
definition bsq_R300 :: fl where [coef]: "bsq_R300 = Fin (2.0375295546 * 10 ^ 3)"
definition bsq_R400 :: fl where [coef]: "bsq_R400 = Fin (- 1.2849161071 * 10 ^ 3)"
definition bsq_R500 :: fl where [coef]: "bsq_R500 = Fin (4.3227585684 * 10 ^ 2)"
definition bsq_R600 :: fl where [coef]: "bsq_R600 = Fin (- 6.0579916612 * 10 ^ 1)"
definition bsq_R010 :: fl where [coef]: "bsq_R010 = Fin (2.6010145068 * 10 ^ 1)"
definition bsq_R110 :: fl where [coef]: "bsq_R110 = Fin (- 6.5281885265 * 10 ^ 1)"
definition bsq_R210 :: fl where [coef]: "bsq_R210 = Fin (8.1770425108 * 10 ^ 1)"
definition bsq_R310 :: fl where [coef]: "bsq_R310 = Fin (- 5.6888046321 * 10 ^ 1)"
definition bsq_R410 :: fl where [coef]: "bsq_R410 = Fin (1.7681814114 * 10 ^ 1)"
definition bsq_R510 :: fl where [coef]: "bsq_R510 = Fin (- 1.9193502195)"
definition bsq_R020 :: fl where [coef]: "bsq_R020 = Fin (- 3.7074170417 * 10 ^ 1)"
definition bsq_R120 :: fl where [coef]: "bsq_R120 = Fin (6.1548258127 * 10 ^ 1)"
definition bsq_R220 :: fl where [coef]: "bsq_R220 = Fin (- 6.0362551501 * 10 ^ 1)"
definition bsq_R320 :: fl where [coef]: "bsq_R320 = Fin (2.9130021253 * 10 ^ 1)"
definition bsq_R420 :: fl where [coef]: "bsq_R420 = Fin (- 5.4723692739)"
definition bsq_R030 :: fl where [coef]: "bsq_R030 = Fin (2.1661789529 * 10 ^ 1)"
definition bsq_R130 :: fl where [coef]: "bsq_R130 = Fin (- 3.3449108469 * 10 ^ 1)"
definition bsq_R230 :: fl where [coef]: "bsq_R230 = Fin (1.9717078466 * 10 ^ 1)"
definition bsq_R330 :: fl where [coef]: "bsq_R330 = Fin (- 3.1742946532)"
definition bsq_R040 :: fl where [coef]: "bsq_R040 = Fin (- 8.3627885467)"
definition bsq_R140 :: fl where [coef]: "bsq_R140 = Fin (1.1311538584 * 10 ^ 1)"
definition bsq_R240 :: fl where [coef]: "bsq_R240 = Fin (- 5.3563304045)"
definition bsq_R050 :: fl where [coef]: "bsq_R050 = Fin (5.4048723791 / 10 ^ 1)"
definition bsq_R150 :: fl where [coef]: "bsq_R150 = Fin (4.8169980163 / 10 ^ 1)"
definition bsq_R060 :: fl where [coef]: "bsq_R060 = Fin (- 1.9083568888 / 10 ^ 1)"
definition bsq_R001 :: fl where [coef]: "bsq_R001 = Fin (1.9681925209 * 10 ^ 1)"
definition bsq_R101 :: fl where [coef]: "bsq_R101 = Fin (- 4.2549998214 * 10 ^ 1)"
definition bsq_R201 :: fl where [coef]: "bsq_R201 = Fin (5.0774768218 * 10 ^ 1)"
definition bsq_R301 :: fl where [coef]: "bsq_R301 = Fin (- 3.0938076334 * 10 ^ 1)"
definition bsq_R401 :: fl where [coef]: "bsq_R401 = Fin (6.6051753097)"
definition bsq_R011 :: fl where [coef]: "bsq_R011 = Fin (- 1.3336301113 * 10 ^ 1)"
definition bsq_R111 :: fl where [coef]: "bsq_R111 = Fin (- 4.4870114575)"
definition bsq_R211 :: fl where [coef]: "bsq_R211 = Fin (5.0042598061)"
definition bsq_R311 :: fl where [coef]: "bsq_R311 = Fin (- 6.5399043664 / 10 ^ 1)"
definition bsq_R021 :: fl where [coef]: "bsq_R021 = Fin (6.7080479603)"
definition bsq_R121 :: fl where [coef]: "bsq_R121 = Fin (3.5063081279)"
definition bsq_R221 :: fl where [coef]: "bsq_R221 = Fin (- 1.8795372996)"
definition bsq_R031 :: fl where [coef]: "bsq_R031 = Fin (- 2.4649669534)"
definition bsq_R131 :: fl where [coef]: "bsq_R131 = Fin (- 5.5077101279 / 10 ^ 1)"
definition bsq_R041 :: fl where [coef]: "bsq_R041 = Fin (5.5927935970 / 10 ^ 1)"
definition bsq_R002 :: fl where [coef]: "bsq_R002 = Fin (2.0660924175)"
definition bsq_R102 :: fl where [coef]: "bsq_R102 = Fin (- 4.9527603989)"
definition bsq_R202 :: fl where [coef]: "bsq_R202 = Fin (2.5019633244)"
definition bsq_R012 :: fl where [coef]: "bsq_R012 = Fin (2.0564311499)"
definition bsq_R112 :: fl where [coef]: "bsq_R112 = Fin (- 2.1311365518 / 10 ^ 1)"
definition bsq_R022 :: fl where [coef]: "bsq_R022 = Fin (- 1.2419983026)"
definition bsq_R003 :: fl where [coef]: "bsq_R003 = Fin (- 2.3342758797 / 10 ^ 2)"
definition bsq_R103 :: fl where [coef]: "bsq_R103 = Fin (- 1.8507636718 / 10 ^ 2)"
definition bsq_R013 :: fl where [coef]: "bsq_R013 = Fin (3.7969820455 / 10 ^ 1)"
definition bsq_ALP000 :: fl where [coef]: "bsq_ALP000 = Fin (- 6.5025362670 / 10 ^ 1)"
definition bsq_ALP100 :: fl where [coef]: "bsq_ALP100 = Fin (1.6320471316)"
definition bsq_ALP200 :: fl where [coef]: "bsq_ALP200 = Fin (- 2.0442606277)"
definition bsq_ALP300 :: fl where [coef]: "bsq_ALP300 = Fin (1.4222011580)"
definition bsq_ALP400 :: fl where [coef]: "bsq_ALP400 = Fin (- 4.4204535284 / 10 ^ 1)"
definition bsq_ALP500 :: fl where [coef]: "bsq_ALP500 = Fin (4.7983755487 / 10 ^ 2)"
definition bsq_ALP010 :: fl where [coef]: "bsq_ALP010 = Fin (1.8537085209)"
definition bsq_ALP110 :: fl where [coef]: "bsq_ALP110 = Fin (- 3.0774129064)"
definition bsq_ALP210 :: fl where [coef]: "bsq_ALP210 = Fin (3.0181275751)"
definition bsq_ALP310 :: fl where [coef]: "bsq_ALP310 = Fin (- 1.4565010626)"
definition bsq_ALP410 :: fl where [coef]: "bsq_ALP410 = Fin (2.7361846370 / 10 ^ 1)"
definition bsq_ALP020 :: fl where [coef]: "bsq_ALP020 = Fin (- 1.6246342147)"
definition bsq_ALP120 :: fl where [coef]: "bsq_ALP120 = Fin (2.5086831352)"
definition bsq_ALP220 :: fl where [coef]: "bsq_ALP220 = Fin (- 1.4787808849)"
definition bsq_ALP320 :: fl where [coef]: "bsq_ALP320 = Fin (2.3807209899 / 10 ^ 1)"
definition bsq_ALP030 :: fl where [coef]: "bsq_ALP030 = Fin (8.3627885467 / 10 ^ 1)"
definition bsq_ALP130 :: fl where [coef]: "bsq_ALP130 = Fin (- 1.1311538584)"
definition bsq_ALP230 :: fl where [coef]: "bsq_ALP230 = Fin (5.3563304045 / 10 ^ 1)"
definition bsq_ALP040 :: fl where [coef]: "bsq_ALP040 = Fin (- 6.7560904739 / 10 ^ 2)"
definition bsq_ALP140 :: fl where [coef]: "bsq_ALP140 = Fin (- 6.0212475204 / 10 ^ 2)"
definition bsq_ALP050 :: fl where [coef]: "bsq_ALP050 = Fin (2.8625353333 / 10 ^ 2)"
definition bsq_ALP001 :: fl where [coef]: "bsq_ALP001 = Fin (3.3340752782 / 10 ^ 1)"
definition bsq_ALP101 :: fl where [coef]: "bsq_ALP101 = Fin (1.1217528644 / 10 ^ 1)"
definition bsq_ALP201 :: fl where [coef]: "bsq_ALP201 = Fin (- 1.2510649515 / 10 ^ 1)"
definition bsq_ALP301 :: fl where [coef]: "bsq_ALP301 = Fin (1.6349760916 / 10 ^ 2)"
definition bsq_ALP011 :: fl where [coef]: "bsq_ALP011 = Fin (- 3.3540239802 / 10 ^ 1)"
definition bsq_ALP111 :: fl where [coef]: "bsq_ALP111 = Fin (- 1.7531540640 / 10 ^ 1)"
definition bsq_ALP211 :: fl where [coef]: "bsq_ALP211 = Fin (9.3976864981 / 10 ^ 2)"
definition bsq_ALP021 :: fl where [coef]: "bsq_ALP021 = Fin (1.8487252150 / 10 ^ 1)"
definition bsq_ALP121 :: fl where [coef]: "bsq_ALP121 = Fin (4.1307825959 / 10 ^ 2)"
definition bsq_ALP031 :: fl where [coef]: "bsq_ALP031 = Fin (- 5.5927935970 / 10 ^ 2)"
definition bsq_ALP002 :: fl where [coef]: "bsq_ALP002 = Fin (- 5.1410778748 / 10 ^ 2)"
definition bsq_ALP102 :: fl where [coef]: "bsq_ALP102 = Fin (5.3278413794 / 10 ^ 3)"
definition bsq_ALP012 :: fl where [coef]: "bsq_ALP012 = Fin (6.2099915132 / 10 ^ 2)"
definition bsq_ALP003 :: fl where [coef]: "bsq_ALP003 = Fin (- 9.4924551138 / 10 ^ 3)"
definition bsq_BET000 :: fl where [coef]: "bsq_BET000 = Fin (1.0783203594 * 10 ^ 1)"
definition bsq_BET100 :: fl where [coef]: "bsq_BET100 = Fin (- 4.4452095908 * 10 ^ 1)"
definition bsq_BET200 :: fl where [coef]: "bsq_BET200 = Fin (7.6048755820 * 10 ^ 1)"
definition bsq_BET300 :: fl where [coef]: "bsq_BET300 = Fin (- 6.3944280668 * 10 ^ 1)"
definition bsq_BET400 :: fl where [coef]: "bsq_BET400 = Fin (2.6890441098 * 10 ^ 1)"
definition bsq_BET500 :: fl where [coef]: "bsq_BET500 = Fin (- 4.5221697773)"
definition bsq_BET010 :: fl where [coef]: "bsq_BET010 = Fin (- 8.1219372432 / 10 ^ 1)"
definition bsq_BET110 :: fl where [coef]: "bsq_BET110 = Fin (2.0346663041)"
definition bsq_BET210 :: fl where [coef]: "bsq_BET210 = Fin (- 2.1232895170)"
definition bsq_BET310 :: fl where [coef]: "bsq_BET310 = Fin (8.7994140485 / 10 ^ 1)"
definition bsq_BET410 :: fl where [coef]: "bsq_BET410 = Fin (- 1.1939638360 / 10 ^ 1)"
definition bsq_BET020 :: fl where [coef]: "bsq_BET020 = Fin (7.6574242289 / 10 ^ 1)"
definition bsq_BET120 :: fl where [coef]: "bsq_BET120 = Fin (- 1.5019813020)"
definition bsq_BET220 :: fl where [coef]: "bsq_BET220 = Fin (1.0872489522)"
definition bsq_BET320 :: fl where [coef]: "bsq_BET320 = Fin (- 2.7233429080 / 10 ^ 1)"
definition bsq_BET030 :: fl where [coef]: "bsq_BET030 = Fin (- 4.1615152308 / 10 ^ 1)"
definition bsq_BET130 :: fl where [coef]: "bsq_BET130 = Fin (4.9061350869 / 10 ^ 1)"
definition bsq_BET230 :: fl where [coef]: "bsq_BET230 = Fin (- 1.1847737788 / 10 ^ 1)"
definition bsq_BET040 :: fl where [coef]: "bsq_BET040 = Fin (1.4073062708 / 10 ^ 1)"
definition bsq_BET140 :: fl where [coef]: "bsq_BET140 = Fin (- 1.3327978879 / 10 ^ 1)"
definition bsq_BET050 :: fl where [coef]: "bsq_BET050 = Fin (5.9929880134 / 10 ^ 3)"
definition bsq_BET001 :: fl where [coef]: "bsq_BET001 = Fin (- 5.2937873009 / 10 ^ 1)"
definition bsq_BET101 :: fl where [coef]: "bsq_BET101 = Fin (1.2634116779)"
definition bsq_BET201 :: fl where [coef]: "bsq_BET201 = Fin (- 1.1547328025)"
definition bsq_BET301 :: fl where [coef]: "bsq_BET301 = Fin (3.2870876279 / 10 ^ 1)"
definition bsq_BET011 :: fl where [coef]: "bsq_BET011 = Fin (- 5.5824407214 / 10 ^ 2)"
definition bsq_BET111 :: fl where [coef]: "bsq_BET111 = Fin (1.2451933313 / 10 ^ 1)"
definition bsq_BET211 :: fl where [coef]: "bsq_BET211 = Fin (- 2.4409539932 / 10 ^ 2)"
definition bsq_BET021 :: fl where [coef]: "bsq_BET021 = Fin (4.3623149752 / 10 ^ 2)"
definition bsq_BET121 :: fl where [coef]: "bsq_BET121 = Fin (- 4.6767901790 / 10 ^ 2)"
definition bsq_BET031 :: fl where [coef]: "bsq_BET031 = Fin (- 6.8523260060 / 10 ^ 3)"
definition bsq_BET002 :: fl where [coef]: "bsq_BET002 = Fin (- 6.1618945251 / 10 ^ 2)"
definition bsq_BET102 :: fl where [coef]: "bsq_BET102 = Fin (6.2255521644 / 10 ^ 2)"
definition bsq_BET012 :: fl where [coef]: "bsq_BET012 = Fin (- 2.6514181169 / 10 ^ 3)"
definition bsq_BET003 :: fl where [coef]: "bsq_BET003 = Fin (- 2.3025968587 / 10 ^ 4)"

subsection \<open>\<^verbatim>\<open>polyTEOS10_bsq\<close>: the nested polynomials\<close>

definition bsq_r0 :: "fl \<Rightarrow> fl" where
  "bsq_r0 pp =
     (((((bsq_R05 * pp + bsq_R04) * pp + bsq_R03) * pp + bsq_R02) * pp + bsq_R01) * pp
      + bsq_R00) * pp"

definition bsq_rz3 :: "fl \<Rightarrow> fl \<Rightarrow> fl" where
  "bsq_rz3 ss tt =
     bsq_R013 * tt + bsq_R103 * ss + bsq_R003"

definition bsq_rz2 :: "fl \<Rightarrow> fl \<Rightarrow> fl" where
  "bsq_rz2 ss tt =
     (bsq_R022 * tt + bsq_R112 * ss + bsq_R012) * tt + (bsq_R202 * ss + bsq_R102) * ss
     + bsq_R002"

definition bsq_rz1 :: "fl \<Rightarrow> fl \<Rightarrow> fl" where
  "bsq_rz1 ss tt =
     (((bsq_R041 * tt + bsq_R131 * ss + bsq_R031) * tt + (bsq_R221 * ss + bsq_R121) * ss
           + bsq_R021) * tt
        + ((bsq_R311 * ss + bsq_R211) * ss + bsq_R111) * ss + bsq_R011) * tt
     + (((bsq_R401 * ss + bsq_R301) * ss + bsq_R201) * ss + bsq_R101) * ss + bsq_R001"

definition bsq_rz0 :: "fl \<Rightarrow> fl \<Rightarrow> fl" where
  "bsq_rz0 ss tt =
     (((((bsq_R060 * tt + bsq_R150 * ss + bsq_R050) * tt
                 + (bsq_R240 * ss + bsq_R140) * ss + bsq_R040) * tt
              + ((bsq_R330 * ss + bsq_R230) * ss + bsq_R130) * ss + bsq_R030) * tt
           + (((bsq_R420 * ss + bsq_R320) * ss + bsq_R220) * ss + bsq_R120) * ss + bsq_R020) * tt
        + ((((bsq_R510 * ss + bsq_R410) * ss + bsq_R310) * ss + bsq_R210) * ss + bsq_R110) * ss
        + bsq_R010) * tt
     + (((((bsq_R600 * ss + bsq_R500) * ss + bsq_R400) * ss + bsq_R300) * ss + bsq_R200) * ss
        + bsq_R100) * ss
     + bsq_R000"

definition bsq_a_raw :: "fl \<Rightarrow> fl \<Rightarrow> fl \<Rightarrow> fl" where
  "bsq_a_raw ss tt pp =
     ((bsq_ALP003 * pp + bsq_ALP012 * tt + bsq_ALP102 * ss + bsq_ALP002) * pp
        + ((bsq_ALP031 * tt + bsq_ALP121 * ss + bsq_ALP021) * tt
           + (bsq_ALP211 * ss + bsq_ALP111) * ss + bsq_ALP011) * tt
        + ((bsq_ALP301 * ss + bsq_ALP201) * ss + bsq_ALP101) * ss + bsq_ALP001) * pp
     + ((((bsq_ALP050 * tt + bsq_ALP140 * ss + bsq_ALP040) * tt
              + (bsq_ALP230 * ss + bsq_ALP130) * ss + bsq_ALP030) * tt
           + ((bsq_ALP320 * ss + bsq_ALP220) * ss + bsq_ALP120) * ss + bsq_ALP020) * tt
        + (((bsq_ALP410 * ss + bsq_ALP310) * ss + bsq_ALP210) * ss + bsq_ALP110) * ss
        + bsq_ALP010) * tt
     + ((((bsq_ALP500 * ss + bsq_ALP400) * ss + bsq_ALP300) * ss + bsq_ALP200) * ss
        + bsq_ALP100) * ss
     + bsq_ALP000"

definition bsq_b_raw :: "fl \<Rightarrow> fl \<Rightarrow> fl \<Rightarrow> fl" where
  "bsq_b_raw ss tt pp =
     ((bsq_BET003 * pp + bsq_BET012 * tt + bsq_BET102 * ss + bsq_BET002) * pp
        + ((bsq_BET031 * tt + bsq_BET121 * ss + bsq_BET021) * tt
           + (bsq_BET211 * ss + bsq_BET111) * ss + bsq_BET011) * tt
        + ((bsq_BET301 * ss + bsq_BET201) * ss + bsq_BET101) * ss + bsq_BET001) * pp
     + ((((bsq_BET050 * tt + bsq_BET140 * ss + bsq_BET040) * tt
              + (bsq_BET230 * ss + bsq_BET130) * ss + bsq_BET030) * tt
           + ((bsq_BET320 * ss + bsq_BET220) * ss + bsq_BET120) * ss + bsq_BET020) * tt
        + (((bsq_BET410 * ss + bsq_BET310) * ss + bsq_BET210) * ss + bsq_BET110) * ss
        + bsq_BET010) * tt
     + ((((bsq_BET500 * ss + bsq_BET400) * ss + bsq_BET300) * ss + bsq_BET200) * ss
        + bsq_BET100) * ss
     + bsq_BET000"
subsection \<open>\<^verbatim>\<open>polyTEOS10_stif\<close>: coefficient tables\<close>

definition stif_R10 :: fl where [coef]: "stif_R10 = Fin (4.5238001132 / 10 ^ 2)"
definition stif_R11 :: fl where [coef]: "stif_R11 = Fin (- 5.0691457704 / 10 ^ 3)"
definition stif_R12 :: fl where [coef]: "stif_R12 = Fin (2.1990865986 / 10 ^ 4)"
definition stif_R13 :: fl where [coef]: "stif_R13 = Fin (6.2587720090 / 10 ^ 5)"
definition stif_R14 :: fl where [coef]: "stif_R14 = Fin (1.5194795322 / 10 ^ 5)"
definition stif_R15 :: fl where [coef]: "stif_R15 = Fin (- 1.6777531159 / 10 ^ 6)"
definition stif_R000 :: fl where [coef]: "stif_R000 = Fin (8.0185969881 * 10 ^ 2)"
definition stif_R100 :: fl where [coef]: "stif_R100 = Fin (8.6694399997 * 10 ^ 2)"
definition stif_R200 :: fl where [coef]: "stif_R200 = Fin (- 1.7869886805 * 10 ^ 3)"
definition stif_R300 :: fl where [coef]: "stif_R300 = Fin (2.0381548497 * 10 ^ 3)"
definition stif_R400 :: fl where [coef]: "stif_R400 = Fin (- 1.2853207957 * 10 ^ 3)"
definition stif_R500 :: fl where [coef]: "stif_R500 = Fin (4.3240996619 * 10 ^ 2)"
definition stif_R600 :: fl where [coef]: "stif_R600 = Fin (- 6.0597695001 * 10 ^ 1)"
definition stif_R010 :: fl where [coef]: "stif_R010 = Fin (2.6018938392 * 10 ^ 1)"
definition stif_R110 :: fl where [coef]: "stif_R110 = Fin (- 6.5349779146 * 10 ^ 1)"
definition stif_R210 :: fl where [coef]: "stif_R210 = Fin (8.1938301569 * 10 ^ 1)"
definition stif_R310 :: fl where [coef]: "stif_R310 = Fin (- 5.7075042739 * 10 ^ 1)"
definition stif_R410 :: fl where [coef]: "stif_R410 = Fin (1.7778970855 * 10 ^ 1)"
definition stif_R510 :: fl where [coef]: "stif_R510 = Fin (- 1.9385269480)"
definition stif_R020 :: fl where [coef]: "stif_R020 = Fin (- 3.7047586837 * 10 ^ 1)"
definition stif_R120 :: fl where [coef]: "stif_R120 = Fin (6.1469677558 * 10 ^ 1)"
definition stif_R220 :: fl where [coef]: "stif_R220 = Fin (- 6.0273564480 * 10 ^ 1)"
definition stif_R320 :: fl where [coef]: "stif_R320 = Fin (2.9086147388 * 10 ^ 1)"
definition stif_R420 :: fl where [coef]: "stif_R420 = Fin (- 5.4641145446)"
definition stif_R030 :: fl where [coef]: "stif_R030 = Fin (2.1645370860 * 10 ^ 1)"
definition stif_R130 :: fl where [coef]: "stif_R130 = Fin (- 3.3415215649 * 10 ^ 1)"
definition stif_R230 :: fl where [coef]: "stif_R230 = Fin (1.9694119706 * 10 ^ 1)"
definition stif_R330 :: fl where [coef]: "stif_R330 = Fin (- 3.1710494147)"
definition stif_R040 :: fl where [coef]: "stif_R040 = Fin (- 8.3587258634)"
definition stif_R140 :: fl where [coef]: "stif_R140 = Fin (1.1301873278 * 10 ^ 1)"
definition stif_R240 :: fl where [coef]: "stif_R240 = Fin (- 5.3494903247)"
definition stif_R050 :: fl where [coef]: "stif_R050 = Fin (5.4258499460 / 10 ^ 1)"
definition stif_R150 :: fl where [coef]: "stif_R150 = Fin (4.7964098705 / 10 ^ 1)"
definition stif_R060 :: fl where [coef]: "stif_R060 = Fin (- 1.9098981559 / 10 ^ 1)"
definition stif_R001 :: fl where [coef]: "stif_R001 = Fin (2.1989266031 * 10 ^ 1)"
definition stif_R101 :: fl where [coef]: "stif_R101 = Fin (- 4.2043785414 * 10 ^ 1)"
definition stif_R201 :: fl where [coef]: "stif_R201 = Fin (4.8565183521 * 10 ^ 1)"
definition stif_R301 :: fl where [coef]: "stif_R301 = Fin (- 3.0473875108 * 10 ^ 1)"
definition stif_R401 :: fl where [coef]: "stif_R401 = Fin (6.5025796369)"
definition stif_R011 :: fl where [coef]: "stif_R011 = Fin (- 1.3731593003 * 10 ^ 1)"
definition stif_R111 :: fl where [coef]: "stif_R111 = Fin (- 4.3667263842)"
definition stif_R211 :: fl where [coef]: "stif_R211 = Fin (5.2899298884)"
definition stif_R311 :: fl where [coef]: "stif_R311 = Fin (- 7.1323826203 / 10 ^ 1)"
definition stif_R021 :: fl where [coef]: "stif_R021 = Fin (7.4843325711)"
definition stif_R121 :: fl where [coef]: "stif_R121 = Fin (3.1442996192)"
definition stif_R221 :: fl where [coef]: "stif_R221 = Fin (- 1.8141771987)"
definition stif_R031 :: fl where [coef]: "stif_R031 = Fin (- 2.6010182316)"
definition stif_R131 :: fl where [coef]: "stif_R131 = Fin (- 4.9866739215 / 10 ^ 1)"
definition stif_R041 :: fl where [coef]: "stif_R041 = Fin (5.5882364387 / 10 ^ 1)"
definition stif_R002 :: fl where [coef]: "stif_R002 = Fin (1.1144125393)"
definition stif_R102 :: fl where [coef]: "stif_R102 = Fin (- 4.5413502768)"
definition stif_R202 :: fl where [coef]: "stif_R202 = Fin (2.7242121539)"
definition stif_R012 :: fl where [coef]: "stif_R012 = Fin (2.8508446713)"
definition stif_R112 :: fl where [coef]: "stif_R112 = Fin (- 4.4471361300 / 10 ^ 1)"
definition stif_R022 :: fl where [coef]: "stif_R022 = Fin (- 1.5059302816)"
definition stif_R003 :: fl where [coef]: "stif_R003 = Fin (1.9817079368 / 10 ^ 1)"
definition stif_R103 :: fl where [coef]: "stif_R103 = Fin (- 1.7905369937 / 10 ^ 1)"
definition stif_R013 :: fl where [coef]: "stif_R013 = Fin (2.5254165600 / 10 ^ 1)"
definition stif_ALP000 :: fl where [coef]: "stif_ALP000 = Fin (- 6.5047345980 / 10 ^ 1)"
definition stif_ALP100 :: fl where [coef]: "stif_ALP100 = Fin (1.6337444787)"
definition stif_ALP200 :: fl where [coef]: "stif_ALP200 = Fin (- 2.0484575392)"
definition stif_ALP300 :: fl where [coef]: "stif_ALP300 = Fin (1.4268760685)"
definition stif_ALP400 :: fl where [coef]: "stif_ALP400 = Fin (- 4.4447427136 / 10 ^ 1)"
definition stif_ALP500 :: fl where [coef]: "stif_ALP500 = Fin (4.8463173700 / 10 ^ 2)"
definition stif_ALP010 :: fl where [coef]: "stif_ALP010 = Fin (1.8523793418)"
definition stif_ALP110 :: fl where [coef]: "stif_ALP110 = Fin (- 3.0734838779)"
definition stif_ALP210 :: fl where [coef]: "stif_ALP210 = Fin (3.0136782240)"
definition stif_ALP310 :: fl where [coef]: "stif_ALP310 = Fin (- 1.4543073694)"
definition stif_ALP410 :: fl where [coef]: "stif_ALP410 = Fin (2.7320572723 / 10 ^ 1)"
definition stif_ALP020 :: fl where [coef]: "stif_ALP020 = Fin (- 1.6234028145)"
definition stif_ALP120 :: fl where [coef]: "stif_ALP120 = Fin (2.5061411737)"
definition stif_ALP220 :: fl where [coef]: "stif_ALP220 = Fin (- 1.4770589780)"
definition stif_ALP320 :: fl where [coef]: "stif_ALP320 = Fin (2.3782870611 / 10 ^ 1)"
definition stif_ALP030 :: fl where [coef]: "stif_ALP030 = Fin (8.3587258634 / 10 ^ 1)"
definition stif_ALP130 :: fl where [coef]: "stif_ALP130 = Fin (- 1.1301873278)"
definition stif_ALP230 :: fl where [coef]: "stif_ALP230 = Fin (5.3494903247 / 10 ^ 1)"
definition stif_ALP040 :: fl where [coef]: "stif_ALP040 = Fin (- 6.7823124325 / 10 ^ 2)"
definition stif_ALP140 :: fl where [coef]: "stif_ALP140 = Fin (- 5.9955123381 / 10 ^ 2)"
definition stif_ALP050 :: fl where [coef]: "stif_ALP050 = Fin (2.8648472338 / 10 ^ 2)"
definition stif_ALP001 :: fl where [coef]: "stif_ALP001 = Fin (3.4328982507 / 10 ^ 1)"
definition stif_ALP101 :: fl where [coef]: "stif_ALP101 = Fin (1.0916815960 / 10 ^ 1)"
definition stif_ALP201 :: fl where [coef]: "stif_ALP201 = Fin (- 1.3224824721 / 10 ^ 1)"
definition stif_ALP301 :: fl where [coef]: "stif_ALP301 = Fin (1.7830956551 / 10 ^ 2)"
definition stif_ALP011 :: fl where [coef]: "stif_ALP011 = Fin (- 3.7421662855 / 10 ^ 1)"
definition stif_ALP111 :: fl where [coef]: "stif_ALP111 = Fin (- 1.5721498096 / 10 ^ 1)"
definition stif_ALP211 :: fl where [coef]: "stif_ALP211 = Fin (9.0708859933 / 10 ^ 2)"
definition stif_ALP021 :: fl where [coef]: "stif_ALP021 = Fin (1.9507636737 / 10 ^ 1)"
definition stif_ALP121 :: fl where [coef]: "stif_ALP121 = Fin (3.7400054411 / 10 ^ 2)"
definition stif_ALP031 :: fl where [coef]: "stif_ALP031 = Fin (- 5.5882364387 / 10 ^ 2)"
definition stif_ALP002 :: fl where [coef]: "stif_ALP002 = Fin (- 7.1271116782 / 10 ^ 2)"
definition stif_ALP102 :: fl where [coef]: "stif_ALP102 = Fin (1.1117840325 / 10 ^ 2)"
definition stif_ALP012 :: fl where [coef]: "stif_ALP012 = Fin (7.5296514078 / 10 ^ 2)"
definition stif_ALP003 :: fl where [coef]: "stif_ALP003 = Fin (- 6.3135413999 / 10 ^ 3)"
definition stif_BET000 :: fl where [coef]: "stif_BET000 = Fin (1.0785939671 * 10 ^ 1)"
definition stif_BET100 :: fl where [coef]: "stif_BET100 = Fin (- 4.4465045269 * 10 ^ 1)"
definition stif_BET200 :: fl where [coef]: "stif_BET200 = Fin (7.6072094337 * 10 ^ 1)"
definition stif_BET300 :: fl where [coef]: "stif_BET300 = Fin (- 6.3964420131 * 10 ^ 1)"
definition stif_BET400 :: fl where [coef]: "stif_BET400 = Fin (2.6898783594 * 10 ^ 1)"
definition stif_BET500 :: fl where [coef]: "stif_BET500 = Fin (- 4.5234968986)"
definition stif_BET010 :: fl where [coef]: "stif_BET010 = Fin (- 8.1303841476 / 10 ^ 1)"
definition stif_BET110 :: fl where [coef]: "stif_BET110 = Fin (2.0388435182)"
definition stif_BET210 :: fl where [coef]: "stif_BET210 = Fin (- 2.1302689715)"
definition stif_BET310 :: fl where [coef]: "stif_BET310 = Fin (8.8477644261 / 10 ^ 1)"
definition stif_BET410 :: fl where [coef]: "stif_BET410 = Fin (- 1.2058930400 / 10 ^ 1)"
definition stif_BET020 :: fl where [coef]: "stif_BET020 = Fin (7.6476477580 / 10 ^ 1)"
definition stif_BET120 :: fl where [coef]: "stif_BET120 = Fin (- 1.4997670675)"
definition stif_BET220 :: fl where [coef]: "stif_BET220 = Fin (1.0856114040)"
definition stif_BET320 :: fl where [coef]: "stif_BET320 = Fin (- 2.7192349143 / 10 ^ 1)"
definition stif_BET030 :: fl where [coef]: "stif_BET030 = Fin (- 4.1572985119 / 10 ^ 1)"
definition stif_BET130 :: fl where [coef]: "stif_BET130 = Fin (4.9004223351 / 10 ^ 1)"
definition stif_BET230 :: fl where [coef]: "stif_BET230 = Fin (- 1.1835625260 / 10 ^ 1)"
definition stif_BET040 :: fl where [coef]: "stif_BET040 = Fin (1.4061037779 / 10 ^ 1)"
definition stif_BET140 :: fl where [coef]: "stif_BET140 = Fin (- 1.3310958936 / 10 ^ 1)"
definition stif_BET050 :: fl where [coef]: "stif_BET050 = Fin (5.9673736141 / 10 ^ 3)"
definition stif_BET001 :: fl where [coef]: "stif_BET001 = Fin (- 5.2308076768 / 10 ^ 1)"
definition stif_BET101 :: fl where [coef]: "stif_BET101 = Fin (1.2084313165)"
definition stif_BET201 :: fl where [coef]: "stif_BET201 = Fin (- 1.1374069553)"
definition stif_BET301 :: fl where [coef]: "stif_BET301 = Fin (3.2360305476 / 10 ^ 1)"
definition stif_BET011 :: fl where [coef]: "stif_BET011 = Fin (- 5.4327900468 / 10 ^ 2)"
definition stif_BET111 :: fl where [coef]: "stif_BET111 = Fin (1.3162756682 / 10 ^ 1)"
definition stif_BET211 :: fl where [coef]: "stif_BET211 = Fin (- 2.6620905846 / 10 ^ 2)"
definition stif_BET021 :: fl where [coef]: "stif_BET021 = Fin (3.9119281064 / 10 ^ 2)"
definition stif_BET121 :: fl where [coef]: "stif_BET121 = Fin (- 4.5141568126 / 10 ^ 2)"
definition stif_BET031 :: fl where [coef]: "stif_BET031 = Fin (- 6.2040874705 / 10 ^ 3)"
definition stif_BET002 :: fl where [coef]: "stif_BET002 = Fin (- 5.6500454603 / 10 ^ 2)"
definition stif_BET102 :: fl where [coef]: "stif_BET102 = Fin (6.7785665385 / 10 ^ 2)"
definition stif_BET012 :: fl where [coef]: "stif_BET012 = Fin (- 5.5328304955 / 10 ^ 3)"
definition stif_BET003 :: fl where [coef]: "stif_BET003 = Fin (- 2.2276668383 / 10 ^ 3)"

subsection \<open>\<^verbatim>\<open>polyTEOS10_stif\<close>: the nested polynomials\<close>

definition stif_r1 :: "fl \<Rightarrow> fl" where
  "stif_r1 pp =
     (((((stif_R15 * pp + stif_R14) * pp + stif_R13) * pp + stif_R12) * pp + stif_R11) * pp
        + stif_R10) * pp
     + (Fin 1)"

definition stif_rz3 :: "fl \<Rightarrow> fl \<Rightarrow> fl" where
  "stif_rz3 ss tt =
     stif_R013 * tt + stif_R103 * ss + stif_R003"

definition stif_rz2 :: "fl \<Rightarrow> fl \<Rightarrow> fl" where
  "stif_rz2 ss tt =
     (stif_R022 * tt + stif_R112 * ss + stif_R012) * tt + (stif_R202 * ss + stif_R102) * ss
     + stif_R002"

definition stif_rz1 :: "fl \<Rightarrow> fl \<Rightarrow> fl" where
  "stif_rz1 ss tt =
     (((stif_R041 * tt + stif_R131 * ss + stif_R031) * tt
           + (stif_R221 * ss + stif_R121) * ss + stif_R021) * tt
        + ((stif_R311 * ss + stif_R211) * ss + stif_R111) * ss + stif_R011) * tt
     + (((stif_R401 * ss + stif_R301) * ss + stif_R201) * ss + stif_R101) * ss + stif_R001"

definition stif_rz0 :: "fl \<Rightarrow> fl \<Rightarrow> fl" where
  "stif_rz0 ss tt =
     (((((stif_R060 * tt + stif_R150 * ss + stif_R050) * tt
                 + (stif_R240 * ss + stif_R140) * ss + stif_R040) * tt
              + ((stif_R330 * ss + stif_R230) * ss + stif_R130) * ss + stif_R030) * tt
           + (((stif_R420 * ss + stif_R320) * ss + stif_R220) * ss + stif_R120) * ss
           + stif_R020) * tt
        + ((((stif_R510 * ss + stif_R410) * ss + stif_R310) * ss + stif_R210) * ss
           + stif_R110) * ss
        + stif_R010) * tt
     + (((((stif_R600 * ss + stif_R500) * ss + stif_R400) * ss + stif_R300) * ss
           + stif_R200) * ss
        + stif_R100) * ss
     + stif_R000"

definition stif_a_raw :: "fl \<Rightarrow> fl \<Rightarrow> fl \<Rightarrow> fl" where
  "stif_a_raw ss tt pp =
     ((stif_ALP003 * pp + stif_ALP012 * tt + stif_ALP102 * ss + stif_ALP002) * pp
        + ((stif_ALP031 * tt + stif_ALP121 * ss + stif_ALP021) * tt
           + (stif_ALP211 * ss + stif_ALP111) * ss + stif_ALP011) * tt
        + ((stif_ALP301 * ss + stif_ALP201) * ss + stif_ALP101) * ss + stif_ALP001) * pp
     + ((((stif_ALP050 * tt + stif_ALP140 * ss + stif_ALP040) * tt
              + (stif_ALP230 * ss + stif_ALP130) * ss + stif_ALP030) * tt
           + ((stif_ALP320 * ss + stif_ALP220) * ss + stif_ALP120) * ss + stif_ALP020) * tt
        + (((stif_ALP410 * ss + stif_ALP310) * ss + stif_ALP210) * ss + stif_ALP110) * ss
        + stif_ALP010) * tt
     + ((((stif_ALP500 * ss + stif_ALP400) * ss + stif_ALP300) * ss + stif_ALP200) * ss
        + stif_ALP100) * ss
     + stif_ALP000"

definition stif_b_raw :: "fl \<Rightarrow> fl \<Rightarrow> fl \<Rightarrow> fl" where
  "stif_b_raw ss tt pp =
     ((stif_BET003 * pp + stif_BET012 * tt + stif_BET102 * ss + stif_BET002) * pp
        + ((stif_BET031 * tt + stif_BET121 * ss + stif_BET021) * tt
           + (stif_BET211 * ss + stif_BET111) * ss + stif_BET011) * tt
        + ((stif_BET301 * ss + stif_BET201) * ss + stif_BET101) * ss + stif_BET001) * pp
     + ((((stif_BET050 * tt + stif_BET140 * ss + stif_BET040) * tt
              + (stif_BET230 * ss + stif_BET130) * ss + stif_BET030) * tt
           + ((stif_BET320 * ss + stif_BET220) * ss + stif_BET120) * ss + stif_BET020) * tt
        + (((stif_BET410 * ss + stif_BET310) * ss + stif_BET210) * ss + stif_BET110) * ss
        + stif_BET010) * tt
     + ((((stif_BET500 * ss + stif_BET400) * ss + stif_BET300) * ss + stif_BET200) * ss
        + stif_BET100) * ss
     + stif_BET000"
subsection \<open>\<^verbatim>\<open>polyTEOS10_55t\<close>: coefficient tables\<close>

definition v55_V00 :: fl where [coef]: "v55_V00 = Fin (- 4.4015007269 / 10 ^ 5)"
definition v55_V01 :: fl where [coef]: "v55_V01 = Fin (6.9232335784 / 10 ^ 6)"
definition v55_V02 :: fl where [coef]: "v55_V02 = Fin (- 7.5004675975 / 10 ^ 7)"
definition v55_V03 :: fl where [coef]: "v55_V03 = Fin (1.7009109288 / 10 ^ 8)"
definition v55_V04 :: fl where [coef]: "v55_V04 = Fin (- 1.6884162004 / 10 ^ 8)"
definition v55_V05 :: fl where [coef]: "v55_V05 = Fin (1.9613503930 / 10 ^ 9)"
definition v55_V000 :: fl where [coef]: "v55_V000 = Fin (1.0772899069 / 10 ^ 3)"
definition v55_V100 :: fl where [coef]: "v55_V100 = Fin (- 3.1263658781 / 10 ^ 4)"
definition v55_V200 :: fl where [coef]: "v55_V200 = Fin (6.7615860683 / 10 ^ 4)"
definition v55_V300 :: fl where [coef]: "v55_V300 = Fin (- 8.6127884515 / 10 ^ 4)"
definition v55_V400 :: fl where [coef]: "v55_V400 = Fin (5.9010812596 / 10 ^ 4)"
definition v55_V500 :: fl where [coef]: "v55_V500 = Fin (- 2.1503943538 / 10 ^ 4)"
definition v55_V600 :: fl where [coef]: "v55_V600 = Fin (3.2678954455 / 10 ^ 5)"
definition v55_V010 :: fl where [coef]: "v55_V010 = Fin (- 1.4949652640 / 10 ^ 5)"
definition v55_V110 :: fl where [coef]: "v55_V110 = Fin (3.1866349188 / 10 ^ 5)"
definition v55_V210 :: fl where [coef]: "v55_V210 = Fin (- 3.8070687610 / 10 ^ 5)"
definition v55_V310 :: fl where [coef]: "v55_V310 = Fin (2.9818473563 / 10 ^ 5)"
definition v55_V410 :: fl where [coef]: "v55_V410 = Fin (- 1.0011321965 / 10 ^ 5)"
definition v55_V510 :: fl where [coef]: "v55_V510 = Fin (1.0751931163 / 10 ^ 6)"
definition v55_V020 :: fl where [coef]: "v55_V020 = Fin (2.7546851539 / 10 ^ 5)"
definition v55_V120 :: fl where [coef]: "v55_V120 = Fin (- 3.6597334199 / 10 ^ 5)"
definition v55_V220 :: fl where [coef]: "v55_V220 = Fin (3.4489154625 / 10 ^ 5)"
definition v55_V320 :: fl where [coef]: "v55_V320 = Fin (- 1.7663254122 / 10 ^ 5)"
definition v55_V420 :: fl where [coef]: "v55_V420 = Fin (3.5965131935 / 10 ^ 6)"
definition v55_V030 :: fl where [coef]: "v55_V030 = Fin (- 1.6506828994 / 10 ^ 5)"
definition v55_V130 :: fl where [coef]: "v55_V130 = Fin (2.4412359055 / 10 ^ 5)"
definition v55_V230 :: fl where [coef]: "v55_V230 = Fin (- 1.4606740723 / 10 ^ 5)"
definition v55_V330 :: fl where [coef]: "v55_V330 = Fin (2.3293406656 / 10 ^ 6)"
definition v55_V040 :: fl where [coef]: "v55_V040 = Fin (6.7896174634 / 10 ^ 6)"
definition v55_V140 :: fl where [coef]: "v55_V140 = Fin (- 8.7951832993 / 10 ^ 6)"
definition v55_V240 :: fl where [coef]: "v55_V240 = Fin (4.4249040774 / 10 ^ 6)"
definition v55_V050 :: fl where [coef]: "v55_V050 = Fin (- 7.2535743349 / 10 ^ 7)"
definition v55_V150 :: fl where [coef]: "v55_V150 = Fin (- 3.4680559205 / 10 ^ 7)"
definition v55_V060 :: fl where [coef]: "v55_V060 = Fin (1.9041365570 / 10 ^ 7)"
definition v55_V001 :: fl where [coef]: "v55_V001 = Fin (- 1.6889436589 / 10 ^ 5)"
definition v55_V101 :: fl where [coef]: "v55_V101 = Fin (2.1106556158 / 10 ^ 5)"
definition v55_V201 :: fl where [coef]: "v55_V201 = Fin (- 2.1322804368 / 10 ^ 5)"
definition v55_V301 :: fl where [coef]: "v55_V301 = Fin (1.7347655458 / 10 ^ 5)"
definition v55_V401 :: fl where [coef]: "v55_V401 = Fin (- 4.3209400767 / 10 ^ 6)"
definition v55_V011 :: fl where [coef]: "v55_V011 = Fin (1.5355844621 / 10 ^ 5)"
definition v55_V111 :: fl where [coef]: "v55_V111 = Fin (2.0914122241 / 10 ^ 6)"
definition v55_V211 :: fl where [coef]: "v55_V211 = Fin (- 5.7751479725 / 10 ^ 6)"
definition v55_V311 :: fl where [coef]: "v55_V311 = Fin (1.0767234341 / 10 ^ 6)"
definition v55_V021 :: fl where [coef]: "v55_V021 = Fin (- 9.6659393016 / 10 ^ 6)"
definition v55_V121 :: fl where [coef]: "v55_V121 = Fin (- 7.0686982208 / 10 ^ 7)"
definition v55_V221 :: fl where [coef]: "v55_V221 = Fin (1.4488066593 / 10 ^ 6)"
definition v55_V031 :: fl where [coef]: "v55_V031 = Fin (3.1134283336 / 10 ^ 6)"
definition v55_V131 :: fl where [coef]: "v55_V131 = Fin (7.9562529879 / 10 ^ 8)"
definition v55_V041 :: fl where [coef]: "v55_V041 = Fin (- 5.6590253863 / 10 ^ 7)"
definition v55_V002 :: fl where [coef]: "v55_V002 = Fin (1.0500241168 / 10 ^ 6)"
definition v55_V102 :: fl where [coef]: "v55_V102 = Fin (1.9600661704 / 10 ^ 6)"
definition v55_V202 :: fl where [coef]: "v55_V202 = Fin (- 2.1666693382 / 10 ^ 6)"
definition v55_V012 :: fl where [coef]: "v55_V012 = Fin (- 3.8541359685 / 10 ^ 6)"
definition v55_V112 :: fl where [coef]: "v55_V112 = Fin (1.0157632247 / 10 ^ 6)"
definition v55_V022 :: fl where [coef]: "v55_V022 = Fin (1.7178343158 / 10 ^ 6)"
definition v55_V003 :: fl where [coef]: "v55_V003 = Fin (- 4.1503454190 / 10 ^ 7)"
definition v55_V103 :: fl where [coef]: "v55_V103 = Fin (3.5627020989 / 10 ^ 7)"
definition v55_V013 :: fl where [coef]: "v55_V013 = Fin (- 1.1293871415 / 10 ^ 7)"
definition v55_A000 :: fl where [coef]: "v55_A000 = Fin (- 3.7374131601 / 10 ^ 7)"
definition v55_A100 :: fl where [coef]: "v55_A100 = Fin (7.9665872970 / 10 ^ 7)"
definition v55_A200 :: fl where [coef]: "v55_A200 = Fin (- 9.5176719025 / 10 ^ 7)"
definition v55_A300 :: fl where [coef]: "v55_A300 = Fin (7.4546183908 / 10 ^ 7)"
definition v55_A400 :: fl where [coef]: "v55_A400 = Fin (- 2.5028304913 / 10 ^ 7)"
definition v55_A500 :: fl where [coef]: "v55_A500 = Fin (2.6879827908 / 10 ^ 8)"
definition v55_A010 :: fl where [coef]: "v55_A010 = Fin (1.3773425769 / 10 ^ 6)"
definition v55_A110 :: fl where [coef]: "v55_A110 = Fin (- 1.8298667100 / 10 ^ 6)"
definition v55_A210 :: fl where [coef]: "v55_A210 = Fin (1.7244577313 / 10 ^ 6)"
definition v55_A310 :: fl where [coef]: "v55_A310 = Fin (- 8.8316270612 / 10 ^ 7)"
definition v55_A410 :: fl where [coef]: "v55_A410 = Fin (1.7982565968 / 10 ^ 7)"
definition v55_A020 :: fl where [coef]: "v55_A020 = Fin (- 1.2380121746 / 10 ^ 6)"
definition v55_A120 :: fl where [coef]: "v55_A120 = Fin (1.8309269291 / 10 ^ 6)"
definition v55_A220 :: fl where [coef]: "v55_A220 = Fin (- 1.0955055542 / 10 ^ 6)"
definition v55_A320 :: fl where [coef]: "v55_A320 = Fin (1.7470054992 / 10 ^ 7)"
definition v55_A030 :: fl where [coef]: "v55_A030 = Fin (6.7896174634 / 10 ^ 7)"
definition v55_A130 :: fl where [coef]: "v55_A130 = Fin (- 8.7951832993 / 10 ^ 7)"
definition v55_A230 :: fl where [coef]: "v55_A230 = Fin (4.4249040774 / 10 ^ 7)"
definition v55_A040 :: fl where [coef]: "v55_A040 = Fin (- 9.0669679187 / 10 ^ 8)"
definition v55_A140 :: fl where [coef]: "v55_A140 = Fin (- 4.3350699006 / 10 ^ 8)"
definition v55_A050 :: fl where [coef]: "v55_A050 = Fin (2.8562048354 / 10 ^ 8)"
definition v55_A001 :: fl where [coef]: "v55_A001 = Fin (3.8389611552 / 10 ^ 7)"
definition v55_A101 :: fl where [coef]: "v55_A101 = Fin (5.2285305603 / 10 ^ 8)"
definition v55_A201 :: fl where [coef]: "v55_A201 = Fin (- 1.4437869931 / 10 ^ 7)"
definition v55_A301 :: fl where [coef]: "v55_A301 = Fin (2.6918085852 / 10 ^ 8)"
definition v55_A011 :: fl where [coef]: "v55_A011 = Fin (- 4.8329696508 / 10 ^ 7)"
definition v55_A111 :: fl where [coef]: "v55_A111 = Fin (- 3.5343491104 / 10 ^ 8)"
definition v55_A211 :: fl where [coef]: "v55_A211 = Fin (7.2440332965 / 10 ^ 8)"
definition v55_A021 :: fl where [coef]: "v55_A021 = Fin (2.3350712502 / 10 ^ 7)"
definition v55_A121 :: fl where [coef]: "v55_A121 = Fin (5.9671897409 / 10 ^ 9)"
definition v55_A031 :: fl where [coef]: "v55_A031 = Fin (- 5.6590253863 / 10 ^ 8)"
definition v55_A002 :: fl where [coef]: "v55_A002 = Fin (- 9.6353399212 / 10 ^ 8)"
definition v55_A102 :: fl where [coef]: "v55_A102 = Fin (2.5394080617 / 10 ^ 8)"
definition v55_A012 :: fl where [coef]: "v55_A012 = Fin (8.5891715792 / 10 ^ 8)"
definition v55_A003 :: fl where [coef]: "v55_A003 = Fin (- 2.8234678537 / 10 ^ 9)"
definition v55_B000 :: fl where [coef]: "v55_B000 = Fin (3.8896161405 / 10 ^ 6)"
definition v55_B100 :: fl where [coef]: "v55_B100 = Fin (- 1.6824629831 / 10 ^ 5)"
definition v55_B200 :: fl where [coef]: "v55_B200 = Fin (3.2146372768 / 10 ^ 5)"
definition v55_B300 :: fl where [coef]: "v55_B300 = Fin (- 2.9366928644 / 10 ^ 5)"
definition v55_B400 :: fl where [coef]: "v55_B400 = Fin (1.3376886957 / 10 ^ 5)"
definition v55_B500 :: fl where [coef]: "v55_B500 = Fin (- 2.4394186796 / 10 ^ 6)"
definition v55_B010 :: fl where [coef]: "v55_B010 = Fin (- 3.9645988657 / 10 ^ 7)"
definition v55_B110 :: fl where [coef]: "v55_B110 = Fin (9.4730026353 / 10 ^ 7)"
definition v55_B210 :: fl where [coef]: "v55_B210 = Fin (- 1.1129447472 / 10 ^ 6)"
definition v55_B310 :: fl where [coef]: "v55_B310 = Fin (4.9821679257 / 10 ^ 7)"
definition v55_B410 :: fl where [coef]: "v55_B410 = Fin (- 6.6884182186 / 10 ^ 8)"
definition v55_B020 :: fl where [coef]: "v55_B020 = Fin (4.5531965020 / 10 ^ 7)"
definition v55_B120 :: fl where [coef]: "v55_B120 = Fin (- 8.5818216892 / 10 ^ 7)"
definition v55_B220 :: fl where [coef]: "v55_B220 = Fin (6.5926332049 / 10 ^ 7)"
definition v55_B320 :: fl where [coef]: "v55_B320 = Fin (- 1.7898168433 / 10 ^ 7)"
definition v55_B030 :: fl where [coef]: "v55_B030 = Fin (- 3.0372230734 / 10 ^ 7)"
definition v55_B130 :: fl where [coef]: "v55_B130 = Fin (3.6345467351 / 10 ^ 7)"
definition v55_B230 :: fl where [coef]: "v55_B230 = Fin (- 8.6940314119 / 10 ^ 8)"
definition v55_B040 :: fl where [coef]: "v55_B040 = Fin (1.0942381108 / 10 ^ 7)"
definition v55_B140 :: fl where [coef]: "v55_B140 = Fin (- 1.1010341714 / 10 ^ 7)"
definition v55_B050 :: fl where [coef]: "v55_B050 = Fin (4.3147241272 / 10 ^ 9)"
definition v55_B001 :: fl where [coef]: "v55_B001 = Fin (- 2.6259371009 / 10 ^ 7)"
definition v55_B101 :: fl where [coef]: "v55_B101 = Fin (5.3056825249 / 10 ^ 7)"
definition v55_B201 :: fl where [coef]: "v55_B201 = Fin (- 6.4748391553 / 10 ^ 7)"
definition v55_B301 :: fl where [coef]: "v55_B301 = Fin (2.1503303093 / 10 ^ 7)"
definition v55_B011 :: fl where [coef]: "v55_B011 = Fin (- 2.6019957550 / 10 ^ 8)"
definition v55_B111 :: fl where [coef]: "v55_B111 = Fin (1.4370108710 / 10 ^ 7)"
definition v55_B211 :: fl where [coef]: "v55_B211 = Fin (- 4.0187626893 / 10 ^ 8)"
definition v55_B021 :: fl where [coef]: "v55_B021 = Fin (8.7944033950 / 10 ^ 9)"
definition v55_B121 :: fl where [coef]: "v55_B121 = Fin (- 3.6050174460 / 10 ^ 8)"
definition v55_B031 :: fl where [coef]: "v55_B031 = Fin (- 9.8986399054 / 10 ^ 10)"
definition v55_B002 :: fl where [coef]: "v55_B002 = Fin (- 2.4385837456 / 10 ^ 8)"
definition v55_B102 :: fl where [coef]: "v55_B102 = Fin (5.3912512852 / 10 ^ 8)"
definition v55_B012 :: fl where [coef]: "v55_B012 = Fin (- 1.2637449319 / 10 ^ 8)"
definition v55_B003 :: fl where [coef]: "v55_B003 = Fin (- 4.4324765969 / 10 ^ 9)"

subsection \<open>\<^verbatim>\<open>polyTEOS10_55t\<close>: the nested polynomials\<close>

definition v55_v0 :: "fl \<Rightarrow> fl" where
  "v55_v0 pp =
     (((((v55_V05 * pp + v55_V04) * pp + v55_V03) * pp + v55_V02) * pp + v55_V01) * pp
      + v55_V00) * pp"

definition v55_vp3 :: "fl \<Rightarrow> fl \<Rightarrow> fl" where
  "v55_vp3 ss tt =
     v55_V013 * tt + v55_V103 * ss + v55_V003"

definition v55_vp2 :: "fl \<Rightarrow> fl \<Rightarrow> fl" where
  "v55_vp2 ss tt =
     (v55_V022 * tt + v55_V112 * ss + v55_V012) * tt + (v55_V202 * ss + v55_V102) * ss
     + v55_V002"

definition v55_vp1 :: "fl \<Rightarrow> fl \<Rightarrow> fl" where
  "v55_vp1 ss tt =
     (((v55_V041 * tt + v55_V131 * ss + v55_V031) * tt + (v55_V221 * ss + v55_V121) * ss
           + v55_V021) * tt
        + ((v55_V311 * ss + v55_V211) * ss + v55_V111) * ss + v55_V011) * tt
     + (((v55_V401 * ss + v55_V301) * ss + v55_V201) * ss + v55_V101) * ss + v55_V001"

definition v55_vp0 :: "fl \<Rightarrow> fl \<Rightarrow> fl" where
  "v55_vp0 ss tt =
     (((((v55_V060 * tt + v55_V150 * ss + v55_V050) * tt
                 + (v55_V240 * ss + v55_V140) * ss + v55_V040) * tt
              + ((v55_V330 * ss + v55_V230) * ss + v55_V130) * ss + v55_V030) * tt
           + (((v55_V420 * ss + v55_V320) * ss + v55_V220) * ss + v55_V120) * ss + v55_V020) * tt
        + ((((v55_V510 * ss + v55_V410) * ss + v55_V310) * ss + v55_V210) * ss + v55_V110) * ss
        + v55_V010) * tt
     + (((((v55_V600 * ss + v55_V500) * ss + v55_V400) * ss + v55_V300) * ss + v55_V200) * ss
        + v55_V100) * ss
     + v55_V000"

definition v55_ap3 :: "fl" where
  "v55_ap3 =
     v55_A003"

definition v55_ap2 :: "fl \<Rightarrow> fl \<Rightarrow> fl" where
  "v55_ap2 ss tt =
     v55_A012 * tt + v55_A102 * ss + v55_A002"

definition v55_ap1 :: "fl \<Rightarrow> fl \<Rightarrow> fl" where
  "v55_ap1 ss tt =
     ((v55_A031 * tt + v55_A121 * ss + v55_A021) * tt + (v55_A211 * ss + v55_A111) * ss
        + v55_A011) * tt
     + ((v55_A301 * ss + v55_A201) * ss + v55_A101) * ss + v55_A001"

definition v55_ap0 :: "fl \<Rightarrow> fl \<Rightarrow> fl" where
  "v55_ap0 ss tt =
     ((((v55_A050 * tt + v55_A140 * ss + v55_A040) * tt
              + (v55_A230 * ss + v55_A130) * ss + v55_A030) * tt
           + ((v55_A320 * ss + v55_A220) * ss + v55_A120) * ss + v55_A020) * tt
        + (((v55_A410 * ss + v55_A310) * ss + v55_A210) * ss + v55_A110) * ss + v55_A010) * tt
     + ((((v55_A500 * ss + v55_A400) * ss + v55_A300) * ss + v55_A200) * ss + v55_A100) * ss
     + v55_A000"

definition v55_bp3 :: "fl" where
  "v55_bp3 =
     v55_B003"

definition v55_bp2 :: "fl \<Rightarrow> fl \<Rightarrow> fl" where
  "v55_bp2 ss tt =
     v55_B012 * tt + v55_B102 * ss + v55_B002"

definition v55_bp1 :: "fl \<Rightarrow> fl \<Rightarrow> fl" where
  "v55_bp1 ss tt =
     ((v55_B031 * tt + v55_B121 * ss + v55_B021) * tt + (v55_B211 * ss + v55_B111) * ss
        + v55_B011) * tt
     + ((v55_B301 * ss + v55_B201) * ss + v55_B101) * ss + v55_B001"

definition v55_bp0 :: "fl \<Rightarrow> fl \<Rightarrow> fl" where
  "v55_bp0 ss tt =
     ((((v55_B050 * tt + v55_B140 * ss + v55_B040) * tt
              + (v55_B230 * ss + v55_B130) * ss + v55_B030) * tt
           + ((v55_B320 * ss + v55_B220) * ss + v55_B120) * ss + v55_B020) * tt
        + (((v55_B410 * ss + v55_B310) * ss + v55_B210) * ss + v55_B110) * ss + v55_B010) * tt
     + ((((v55_B500 * ss + v55_B400) * ss + v55_B300) * ss + v55_B200) * ss + v55_B100) * ss
     + v55_B000"
subsection \<open>\<^verbatim>\<open>polyTEOS10_75t\<close>: coefficient tables\<close>

definition v75_V00 :: fl where [coef]: "v75_V00 = Fin (- 4.4015007269 / 10 ^ 5)"
definition v75_V01 :: fl where [coef]: "v75_V01 = Fin (6.9232335784 / 10 ^ 6)"
definition v75_V02 :: fl where [coef]: "v75_V02 = Fin (- 7.5004675975 / 10 ^ 7)"
definition v75_V03 :: fl where [coef]: "v75_V03 = Fin (1.7009109288 / 10 ^ 8)"
definition v75_V04 :: fl where [coef]: "v75_V04 = Fin (- 1.6884162004 / 10 ^ 8)"
definition v75_V05 :: fl where [coef]: "v75_V05 = Fin (1.9613503930 / 10 ^ 9)"
definition v75_V000 :: fl where [coef]: "v75_V000 = Fin (1.0769995862 / 10 ^ 3)"
definition v75_V100 :: fl where [coef]: "v75_V100 = Fin (- 3.1038981976 / 10 ^ 4)"
definition v75_V200 :: fl where [coef]: "v75_V200 = Fin (6.6928067038 / 10 ^ 4)"
definition v75_V300 :: fl where [coef]: "v75_V300 = Fin (- 8.5047933937 / 10 ^ 4)"
definition v75_V400 :: fl where [coef]: "v75_V400 = Fin (5.8086069943 / 10 ^ 4)"
definition v75_V500 :: fl where [coef]: "v75_V500 = Fin (- 2.1092370507 / 10 ^ 4)"
definition v75_V600 :: fl where [coef]: "v75_V600 = Fin (3.1932457305 / 10 ^ 5)"
definition v75_V010 :: fl where [coef]: "v75_V010 = Fin (- 1.5649734675 / 10 ^ 5)"
definition v75_V110 :: fl where [coef]: "v75_V110 = Fin (3.5009599764 / 10 ^ 5)"
definition v75_V210 :: fl where [coef]: "v75_V210 = Fin (- 4.3592678561 / 10 ^ 5)"
definition v75_V310 :: fl where [coef]: "v75_V310 = Fin (3.4532461828 / 10 ^ 5)"
definition v75_V410 :: fl where [coef]: "v75_V410 = Fin (- 1.1959409788 / 10 ^ 5)"
definition v75_V510 :: fl where [coef]: "v75_V510 = Fin (1.3864594581 / 10 ^ 6)"
definition v75_V020 :: fl where [coef]: "v75_V020 = Fin (2.7762106484 / 10 ^ 5)"
definition v75_V120 :: fl where [coef]: "v75_V120 = Fin (- 3.7435842344 / 10 ^ 5)"
definition v75_V220 :: fl where [coef]: "v75_V220 = Fin (3.5907822760 / 10 ^ 5)"
definition v75_V320 :: fl where [coef]: "v75_V320 = Fin (- 1.8698584187 / 10 ^ 5)"
definition v75_V420 :: fl where [coef]: "v75_V420 = Fin (3.8595339244 / 10 ^ 6)"
definition v75_V030 :: fl where [coef]: "v75_V030 = Fin (- 1.6521159259 / 10 ^ 5)"
definition v75_V130 :: fl where [coef]: "v75_V130 = Fin (2.4141479483 / 10 ^ 5)"
definition v75_V230 :: fl where [coef]: "v75_V230 = Fin (- 1.4353633048 / 10 ^ 5)"
definition v75_V330 :: fl where [coef]: "v75_V330 = Fin (2.2863324556 / 10 ^ 6)"
definition v75_V040 :: fl where [coef]: "v75_V040 = Fin (6.9111322702 / 10 ^ 6)"
definition v75_V140 :: fl where [coef]: "v75_V140 = Fin (- 8.7595873154 / 10 ^ 6)"
definition v75_V240 :: fl where [coef]: "v75_V240 = Fin (4.3703680598 / 10 ^ 6)"
definition v75_V050 :: fl where [coef]: "v75_V050 = Fin (- 8.0539615540 / 10 ^ 7)"
definition v75_V150 :: fl where [coef]: "v75_V150 = Fin (- 3.3052758900 / 10 ^ 7)"
definition v75_V060 :: fl where [coef]: "v75_V060 = Fin (2.0543094268 / 10 ^ 7)"
definition v75_V001 :: fl where [coef]: "v75_V001 = Fin (- 1.6784136540 / 10 ^ 5)"
definition v75_V101 :: fl where [coef]: "v75_V101 = Fin (2.4262468747 / 10 ^ 5)"
definition v75_V201 :: fl where [coef]: "v75_V201 = Fin (- 3.4792460974 / 10 ^ 5)"
definition v75_V301 :: fl where [coef]: "v75_V301 = Fin (3.7470777305 / 10 ^ 5)"
definition v75_V401 :: fl where [coef]: "v75_V401 = Fin (- 1.7322218612 / 10 ^ 5)"
definition v75_V501 :: fl where [coef]: "v75_V501 = Fin (3.0927427253 / 10 ^ 6)"
definition v75_V011 :: fl where [coef]: "v75_V011 = Fin (1.8505765429 / 10 ^ 5)"
definition v75_V111 :: fl where [coef]: "v75_V111 = Fin (- 9.5677088156 / 10 ^ 6)"
definition v75_V211 :: fl where [coef]: "v75_V211 = Fin (1.1100834765 / 10 ^ 5)"
definition v75_V311 :: fl where [coef]: "v75_V311 = Fin (- 9.8447117844 / 10 ^ 6)"
definition v75_V411 :: fl where [coef]: "v75_V411 = Fin (2.5909225260 / 10 ^ 6)"
definition v75_V021 :: fl where [coef]: "v75_V021 = Fin (- 1.1716606853 / 10 ^ 5)"
definition v75_V121 :: fl where [coef]: "v75_V121 = Fin (- 2.3678308361 / 10 ^ 7)"
definition v75_V221 :: fl where [coef]: "v75_V221 = Fin (2.9283346295 / 10 ^ 6)"
definition v75_V321 :: fl where [coef]: "v75_V321 = Fin (- 4.8826139200 / 10 ^ 7)"
definition v75_V031 :: fl where [coef]: "v75_V031 = Fin (7.9279656173 / 10 ^ 6)"
definition v75_V131 :: fl where [coef]: "v75_V131 = Fin (- 3.4558773655 / 10 ^ 6)"
definition v75_V231 :: fl where [coef]: "v75_V231 = Fin (3.1655306078 / 10 ^ 7)"
definition v75_V041 :: fl where [coef]: "v75_V041 = Fin (- 3.4102187482 / 10 ^ 6)"
definition v75_V141 :: fl where [coef]: "v75_V141 = Fin (1.2956717783 / 10 ^ 6)"
definition v75_V051 :: fl where [coef]: "v75_V051 = Fin (5.0736766814 / 10 ^ 7)"
definition v75_V002 :: fl where [coef]: "v75_V002 = Fin (3.0623833435 / 10 ^ 6)"
definition v75_V102 :: fl where [coef]: "v75_V102 = Fin (- 5.8484432984 / 10 ^ 7)"
definition v75_V202 :: fl where [coef]: "v75_V202 = Fin (- 4.8122251597 / 10 ^ 6)"
definition v75_V302 :: fl where [coef]: "v75_V302 = Fin (4.9263106998 / 10 ^ 6)"
definition v75_V402 :: fl where [coef]: "v75_V402 = Fin (- 1.7811974727 / 10 ^ 6)"
definition v75_V012 :: fl where [coef]: "v75_V012 = Fin (- 1.1736386731 / 10 ^ 6)"
definition v75_V112 :: fl where [coef]: "v75_V112 = Fin (- 5.5699154557 / 10 ^ 6)"
definition v75_V212 :: fl where [coef]: "v75_V212 = Fin (5.4620748834 / 10 ^ 6)"
definition v75_V312 :: fl where [coef]: "v75_V312 = Fin (- 1.3544185627 / 10 ^ 6)"
definition v75_V022 :: fl where [coef]: "v75_V022 = Fin (2.1305028740 / 10 ^ 6)"
definition v75_V122 :: fl where [coef]: "v75_V122 = Fin (3.9137387080 / 10 ^ 7)"
definition v75_V222 :: fl where [coef]: "v75_V222 = Fin (- 6.5731104067 / 10 ^ 7)"
definition v75_V032 :: fl where [coef]: "v75_V032 = Fin (- 4.6132540037 / 10 ^ 7)"
definition v75_V132 :: fl where [coef]: "v75_V132 = Fin (7.7618888092 / 10 ^ 9)"
definition v75_V042 :: fl where [coef]: "v75_V042 = Fin (- 6.3352916514 / 10 ^ 8)"
definition v75_V003 :: fl where [coef]: "v75_V003 = Fin (- 3.8088938393 / 10 ^ 7)"
definition v75_V103 :: fl where [coef]: "v75_V103 = Fin (3.6310188515 / 10 ^ 7)"
definition v75_V203 :: fl where [coef]: "v75_V203 = Fin (1.6746303780 / 10 ^ 8)"
definition v75_V013 :: fl where [coef]: "v75_V013 = Fin (- 3.6527006553 / 10 ^ 7)"
definition v75_V113 :: fl where [coef]: "v75_V113 = Fin (- 2.7295696237 / 10 ^ 7)"
definition v75_V023 :: fl where [coef]: "v75_V023 = Fin (2.8695905159 / 10 ^ 7)"
definition v75_V004 :: fl where [coef]: "v75_V004 = Fin (8.8302421514 / 10 ^ 8)"
definition v75_V104 :: fl where [coef]: "v75_V104 = Fin (- 1.1147125423 / 10 ^ 7)"
definition v75_V014 :: fl where [coef]: "v75_V014 = Fin (3.1454099902 / 10 ^ 7)"
definition v75_V005 :: fl where [coef]: "v75_V005 = Fin (4.2369007180 / 10 ^ 9)"
definition v75_A000 :: fl where [coef]: "v75_A000 = Fin (- 3.9124336688 / 10 ^ 7)"
definition v75_A100 :: fl where [coef]: "v75_A100 = Fin (8.7523999410 / 10 ^ 7)"
definition v75_A200 :: fl where [coef]: "v75_A200 = Fin (- 1.0898169640 / 10 ^ 6)"
definition v75_A300 :: fl where [coef]: "v75_A300 = Fin (8.6331154570 / 10 ^ 7)"
definition v75_A400 :: fl where [coef]: "v75_A400 = Fin (- 2.9898524469 / 10 ^ 7)"
definition v75_A500 :: fl where [coef]: "v75_A500 = Fin (3.4661486454 / 10 ^ 8)"
definition v75_A010 :: fl where [coef]: "v75_A010 = Fin (1.3881053242 / 10 ^ 6)"
definition v75_A110 :: fl where [coef]: "v75_A110 = Fin (- 1.8717921172 / 10 ^ 6)"
definition v75_A210 :: fl where [coef]: "v75_A210 = Fin (1.7953911380 / 10 ^ 6)"
definition v75_A310 :: fl where [coef]: "v75_A310 = Fin (- 9.3492920933 / 10 ^ 7)"
definition v75_A410 :: fl where [coef]: "v75_A410 = Fin (1.9297669622 / 10 ^ 7)"
definition v75_A020 :: fl where [coef]: "v75_A020 = Fin (- 1.2390869444 / 10 ^ 6)"
definition v75_A120 :: fl where [coef]: "v75_A120 = Fin (1.8106109612 / 10 ^ 6)"
definition v75_A220 :: fl where [coef]: "v75_A220 = Fin (- 1.0765224786 / 10 ^ 6)"
definition v75_A320 :: fl where [coef]: "v75_A320 = Fin (1.7147493417 / 10 ^ 7)"
definition v75_A030 :: fl where [coef]: "v75_A030 = Fin (6.9111322702 / 10 ^ 7)"
definition v75_A130 :: fl where [coef]: "v75_A130 = Fin (- 8.7595873154 / 10 ^ 7)"
definition v75_A230 :: fl where [coef]: "v75_A230 = Fin (4.3703680598 / 10 ^ 7)"
definition v75_A040 :: fl where [coef]: "v75_A040 = Fin (- 1.0067451943 / 10 ^ 7)"
definition v75_A140 :: fl where [coef]: "v75_A140 = Fin (- 4.1315948624 / 10 ^ 8)"
definition v75_A050 :: fl where [coef]: "v75_A050 = Fin (3.0814641402 / 10 ^ 8)"
definition v75_A001 :: fl where [coef]: "v75_A001 = Fin (4.6264413572 / 10 ^ 7)"
definition v75_A101 :: fl where [coef]: "v75_A101 = Fin (- 2.3919272039 / 10 ^ 7)"
definition v75_A201 :: fl where [coef]: "v75_A201 = Fin (2.7752086911 / 10 ^ 7)"
definition v75_A301 :: fl where [coef]: "v75_A301 = Fin (- 2.4611779461 / 10 ^ 7)"
definition v75_A401 :: fl where [coef]: "v75_A401 = Fin (6.4773063150 / 10 ^ 8)"
definition v75_A011 :: fl where [coef]: "v75_A011 = Fin (- 5.8583034263 / 10 ^ 7)"
definition v75_A111 :: fl where [coef]: "v75_A111 = Fin (- 1.1839154180 / 10 ^ 8)"
definition v75_A211 :: fl where [coef]: "v75_A211 = Fin (1.4641673148 / 10 ^ 7)"
definition v75_A311 :: fl where [coef]: "v75_A311 = Fin (- 2.4413069600 / 10 ^ 8)"
definition v75_A021 :: fl where [coef]: "v75_A021 = Fin (5.9459742130 / 10 ^ 7)"
definition v75_A121 :: fl where [coef]: "v75_A121 = Fin (- 2.5919080242 / 10 ^ 7)"
definition v75_A221 :: fl where [coef]: "v75_A221 = Fin (2.3741479559 / 10 ^ 8)"
definition v75_A031 :: fl where [coef]: "v75_A031 = Fin (- 3.4102187482 / 10 ^ 7)"
definition v75_A131 :: fl where [coef]: "v75_A131 = Fin (1.2956717783 / 10 ^ 7)"
definition v75_A041 :: fl where [coef]: "v75_A041 = Fin (6.3420958518 / 10 ^ 8)"
definition v75_A002 :: fl where [coef]: "v75_A002 = Fin (- 2.9340966828 / 10 ^ 8)"
definition v75_A102 :: fl where [coef]: "v75_A102 = Fin (- 1.3924788639 / 10 ^ 7)"
definition v75_A202 :: fl where [coef]: "v75_A202 = Fin (1.3655187208 / 10 ^ 7)"
definition v75_A302 :: fl where [coef]: "v75_A302 = Fin (- 3.3860464067 / 10 ^ 8)"
definition v75_A012 :: fl where [coef]: "v75_A012 = Fin (1.0652514370 / 10 ^ 7)"
definition v75_A112 :: fl where [coef]: "v75_A112 = Fin (1.9568693540 / 10 ^ 8)"
definition v75_A212 :: fl where [coef]: "v75_A212 = Fin (- 3.2865552033 / 10 ^ 8)"
definition v75_A022 :: fl where [coef]: "v75_A022 = Fin (- 3.4599405028 / 10 ^ 8)"
definition v75_A122 :: fl where [coef]: "v75_A122 = Fin (5.8214166069 / 10 ^ 10)"
definition v75_A032 :: fl where [coef]: "v75_A032 = Fin (- 6.3352916514 / 10 ^ 9)"
definition v75_A003 :: fl where [coef]: "v75_A003 = Fin (- 9.1317516382 / 10 ^ 9)"
definition v75_A103 :: fl where [coef]: "v75_A103 = Fin (- 6.8239240593 / 10 ^ 9)"
definition v75_A013 :: fl where [coef]: "v75_A013 = Fin (1.4347952579 / 10 ^ 8)"
definition v75_A004 :: fl where [coef]: "v75_A004 = Fin (7.8635249756 / 10 ^ 9)"
definition v75_B000 :: fl where [coef]: "v75_B000 = Fin (3.8616633493 / 10 ^ 6)"
definition v75_B100 :: fl where [coef]: "v75_B100 = Fin (- 1.6653488424 / 10 ^ 5)"
definition v75_B200 :: fl where [coef]: "v75_B200 = Fin (3.1743292000 / 10 ^ 5)"
definition v75_B300 :: fl where [coef]: "v75_B300 = Fin (- 2.8906727363 / 10 ^ 5)"
definition v75_B400 :: fl where [coef]: "v75_B400 = Fin (1.3120861084 / 10 ^ 5)"
definition v75_B500 :: fl where [coef]: "v75_B500 = Fin (- 2.3836941584 / 10 ^ 6)"
definition v75_B010 :: fl where [coef]: "v75_B010 = Fin (- 4.3556611614 / 10 ^ 7)"
definition v75_B110 :: fl where [coef]: "v75_B110 = Fin (1.0847021286 / 10 ^ 6)"
definition v75_B210 :: fl where [coef]: "v75_B210 = Fin (- 1.2888896515 / 10 ^ 6)"
definition v75_B310 :: fl where [coef]: "v75_B310 = Fin (5.9516403589 / 10 ^ 7)"
definition v75_B410 :: fl where [coef]: "v75_B410 = Fin (- 8.6247024451 / 10 ^ 8)"
definition v75_B020 :: fl where [coef]: "v75_B020 = Fin (4.6575180991 / 10 ^ 7)"
definition v75_B120 :: fl where [coef]: "v75_B120 = Fin (- 8.9348241648 / 10 ^ 7)"
definition v75_B220 :: fl where [coef]: "v75_B220 = Fin (6.9790598120 / 10 ^ 7)"
definition v75_B320 :: fl where [coef]: "v75_B320 = Fin (- 1.9207099914 / 10 ^ 7)"
definition v75_B030 :: fl where [coef]: "v75_B030 = Fin (- 3.0035220418 / 10 ^ 7)"
definition v75_B130 :: fl where [coef]: "v75_B130 = Fin (3.5715667939 / 10 ^ 7)"
definition v75_B230 :: fl where [coef]: "v75_B230 = Fin (- 8.5335075632 / 10 ^ 8)"
definition v75_B040 :: fl where [coef]: "v75_B040 = Fin (1.0898094956 / 10 ^ 7)"
definition v75_B140 :: fl where [coef]: "v75_B140 = Fin (- 1.0874641554 / 10 ^ 7)"
definition v75_B050 :: fl where [coef]: "v75_B050 = Fin (4.1122040579 / 10 ^ 9)"
definition v75_B001 :: fl where [coef]: "v75_B001 = Fin (- 3.0185747199 / 10 ^ 7)"
definition v75_B101 :: fl where [coef]: "v75_B101 = Fin (8.6572923996 / 10 ^ 7)"
definition v75_B201 :: fl where [coef]: "v75_B201 = Fin (- 1.3985593422 / 10 ^ 6)"
definition v75_B301 :: fl where [coef]: "v75_B301 = Fin (8.6204601419 / 10 ^ 7)"
definition v75_B401 :: fl where [coef]: "v75_B401 = Fin (- 1.9238922270 / 10 ^ 7)"
definition v75_B011 :: fl where [coef]: "v75_B011 = Fin (1.1903505888 / 10 ^ 7)"
definition v75_B111 :: fl where [coef]: "v75_B111 = Fin (- 2.7621838107 / 10 ^ 7)"
definition v75_B211 :: fl where [coef]: "v75_B211 = Fin (3.6744403581 / 10 ^ 7)"
definition v75_B311 :: fl where [coef]: "v75_B311 = Fin (- 1.2893812777 / 10 ^ 7)"
definition v75_B021 :: fl where [coef]: "v75_B021 = Fin (2.9458973764 / 10 ^ 9)"
definition v75_B121 :: fl where [coef]: "v75_B121 = Fin (- 7.2864777086 / 10 ^ 8)"
definition v75_B221 :: fl where [coef]: "v75_B221 = Fin (1.8223868848 / 10 ^ 8)"
definition v75_B031 :: fl where [coef]: "v75_B031 = Fin (4.2995723805 / 10 ^ 8)"
definition v75_B131 :: fl where [coef]: "v75_B131 = Fin (- 7.8766845761 / 10 ^ 9)"
definition v75_B041 :: fl where [coef]: "v75_B041 = Fin (- 1.6119885062 / 10 ^ 8)"
definition v75_B002 :: fl where [coef]: "v75_B002 = Fin (7.2762435164 / 10 ^ 9)"
definition v75_B102 :: fl where [coef]: "v75_B102 = Fin (1.1974099887 / 10 ^ 7)"
definition v75_B202 :: fl where [coef]: "v75_B202 = Fin (- 1.8386962715 / 10 ^ 7)"
definition v75_B302 :: fl where [coef]: "v75_B302 = Fin (8.8641889138 / 10 ^ 8)"
definition v75_B012 :: fl where [coef]: "v75_B012 = Fin (6.9297177307 / 10 ^ 8)"
definition v75_B112 :: fl where [coef]: "v75_B112 = Fin (- 1.3591099350 / 10 ^ 7)"
definition v75_B212 :: fl where [coef]: "v75_B212 = Fin (5.0552320246 / 10 ^ 8)"
definition v75_B022 :: fl where [coef]: "v75_B022 = Fin (- 4.8692129590 / 10 ^ 9)"
definition v75_B122 :: fl where [coef]: "v75_B122 = Fin (1.6355652107 / 10 ^ 8)"
definition v75_B032 :: fl where [coef]: "v75_B032 = Fin (- 9.6568249433 / 10 ^ 11)"
definition v75_B003 :: fl where [coef]: "v75_B003 = Fin (- 4.5174717490 / 10 ^ 9)"
definition v75_B103 :: fl where [coef]: "v75_B103 = Fin (- 4.1669270980 / 10 ^ 10)"
definition v75_B013 :: fl where [coef]: "v75_B013 = Fin (3.3959486762 / 10 ^ 9)"
definition v75_B004 :: fl where [coef]: "v75_B004 = Fin (1.3868510806 / 10 ^ 9)"

subsection \<open>\<^verbatim>\<open>polyTEOS10_75t\<close>: the nested polynomials\<close>

definition v75_v0 :: "fl \<Rightarrow> fl" where
  "v75_v0 pp =
     (((((v75_V05 * pp + v75_V04) * pp + v75_V03) * pp + v75_V02) * pp + v75_V01) * pp
      + v75_V00) * pp"

definition v75_vp5 :: "fl" where
  "v75_vp5 =
     v75_V005"

definition v75_vp4 :: "fl \<Rightarrow> fl \<Rightarrow> fl" where
  "v75_vp4 ss tt =
     v75_V014 * tt + v75_V104 * ss + v75_V004"

definition v75_vp3 :: "fl \<Rightarrow> fl \<Rightarrow> fl" where
  "v75_vp3 ss tt =
     (v75_V023 * tt + v75_V113 * ss + v75_V013) * tt + (v75_V203 * ss + v75_V103) * ss
     + v75_V003"

definition v75_vp2 :: "fl \<Rightarrow> fl \<Rightarrow> fl" where
  "v75_vp2 ss tt =
     (((v75_V042 * tt + v75_V132 * ss + v75_V032) * tt + (v75_V222 * ss + v75_V122) * ss
           + v75_V022) * tt
        + ((v75_V312 * ss + v75_V212) * ss + v75_V112) * ss + v75_V012) * tt
     + (((v75_V402 * ss + v75_V302) * ss + v75_V202) * ss + v75_V102) * ss + v75_V002"

definition v75_vp1 :: "fl \<Rightarrow> fl \<Rightarrow> fl" where
  "v75_vp1 ss tt =
     ((((v75_V051 * tt + v75_V141 * ss + v75_V041) * tt
              + (v75_V231 * ss + v75_V131) * ss + v75_V031) * tt
           + ((v75_V321 * ss + v75_V221) * ss + v75_V121) * ss + v75_V021) * tt
        + (((v75_V411 * ss + v75_V311) * ss + v75_V211) * ss + v75_V111) * ss + v75_V011) * tt
     + ((((v75_V501 * ss + v75_V401) * ss + v75_V301) * ss + v75_V201) * ss + v75_V101) * ss
     + v75_V001"

definition v75_vp0 :: "fl \<Rightarrow> fl \<Rightarrow> fl" where
  "v75_vp0 ss tt =
     (((((v75_V060 * tt + v75_V150 * ss + v75_V050) * tt
                 + (v75_V240 * ss + v75_V140) * ss + v75_V040) * tt
              + ((v75_V330 * ss + v75_V230) * ss + v75_V130) * ss + v75_V030) * tt
           + (((v75_V420 * ss + v75_V320) * ss + v75_V220) * ss + v75_V120) * ss + v75_V020) * tt
        + ((((v75_V510 * ss + v75_V410) * ss + v75_V310) * ss + v75_V210) * ss + v75_V110) * ss
        + v75_V010) * tt
     + (((((v75_V600 * ss + v75_V500) * ss + v75_V400) * ss + v75_V300) * ss + v75_V200) * ss
        + v75_V100) * ss
     + v75_V000"

definition v75_ap4 :: "fl" where
  "v75_ap4 =
     v75_A004"

definition v75_ap3 :: "fl \<Rightarrow> fl \<Rightarrow> fl" where
  "v75_ap3 ss tt =
     v75_A013 * tt + v75_A103 * ss + v75_A003"

definition v75_ap2 :: "fl \<Rightarrow> fl \<Rightarrow> fl" where
  "v75_ap2 ss tt =
     ((v75_A032 * tt + v75_A122 * ss + v75_A022) * tt + (v75_A212 * ss + v75_A112) * ss
        + v75_A012) * tt
     + ((v75_A302 * ss + v75_A202) * ss + v75_A102) * ss + v75_A002"

definition v75_ap1 :: "fl \<Rightarrow> fl \<Rightarrow> fl" where
  "v75_ap1 ss tt =
     (((v75_A041 * tt + v75_A131 * ss + v75_A031) * tt + (v75_A221 * ss + v75_A121) * ss
           + v75_A021) * tt
        + ((v75_A311 * ss + v75_A211) * ss + v75_A111) * ss + v75_A011) * tt
     + (((v75_A401 * ss + v75_A301) * ss + v75_A201) * ss + v75_A101) * ss + v75_A001"

definition v75_ap0 :: "fl \<Rightarrow> fl \<Rightarrow> fl" where
  "v75_ap0 ss tt =
     ((((v75_A050 * tt + v75_A140 * ss + v75_A040) * tt
              + (v75_A230 * ss + v75_A130) * ss + v75_A030) * tt
           + ((v75_A320 * ss + v75_A220) * ss + v75_A120) * ss + v75_A020) * tt
        + (((v75_A410 * ss + v75_A310) * ss + v75_A210) * ss + v75_A110) * ss + v75_A010) * tt
     + ((((v75_A500 * ss + v75_A400) * ss + v75_A300) * ss + v75_A200) * ss + v75_A100) * ss
     + v75_A000"

definition v75_bp4 :: "fl" where
  "v75_bp4 =
     v75_B004"

definition v75_bp3 :: "fl \<Rightarrow> fl \<Rightarrow> fl" where
  "v75_bp3 ss tt =
     v75_B013 * tt + v75_B103 * ss + v75_B003"

definition v75_bp2 :: "fl \<Rightarrow> fl \<Rightarrow> fl" where
  "v75_bp2 ss tt =
     ((v75_B032 * tt + v75_B122 * ss + v75_B022) * tt + (v75_B212 * ss + v75_B112) * ss
        + v75_B012) * tt
     + ((v75_B302 * ss + v75_B202) * ss + v75_B102) * ss + v75_B002"

definition v75_bp1 :: "fl \<Rightarrow> fl \<Rightarrow> fl" where
  "v75_bp1 ss tt =
     (((v75_B041 * tt + v75_B131 * ss + v75_B031) * tt + (v75_B221 * ss + v75_B121) * ss
           + v75_B021) * tt
        + ((v75_B311 * ss + v75_B211) * ss + v75_B111) * ss + v75_B011) * tt
     + (((v75_B401 * ss + v75_B301) * ss + v75_B201) * ss + v75_B101) * ss + v75_B001"

definition v75_bp0 :: "fl \<Rightarrow> fl \<Rightarrow> fl" where
  "v75_bp0 ss tt =
     ((((v75_B050 * tt + v75_B140 * ss + v75_B040) * tt
              + (v75_B230 * ss + v75_B130) * ss + v75_B030) * tt
           + ((v75_B320 * ss + v75_B220) * ss + v75_B120) * ss + v75_B020) * tt
        + (((v75_B410 * ss + v75_B310) * ss + v75_B210) * ss + v75_B110) * ss + v75_B010) * tt
     + ((((v75_B500 * ss + v75_B400) * ss + v75_B300) * ss + v75_B200) * ss + v75_B100) * ss
     + v75_B000"
subsection \<open>The evaluators\<close>

text \<open>
  Each evaluator reduces its inputs (\<open>ss\<close>, \<open>tt\<close>, \<open>pp\<close>), evaluates the reference profile
  and the pressure layers, and combines them by Horner's rule in \<open>pp\<close>, in the order of the
  source.
\<close>

definition polyTEOS10_bsq :: "fl \<Rightarrow> fl \<Rightarrow> fl \<Rightarrow> py_error + (fl \<times> fl \<times> fl \<times> fl \<times> fl)" where
  "polyTEOS10_bsq SA CT p =
     bind_err (py_truediv (Fin 40 * Fin 35.16504) (Fin 35)) (\<lambda>SAu.
     let CTu = Fin 40; Zu = Fin (1 * 10 ^ 4); deltaS = Fin 32 in
     bind_err (py_truediv (SA + deltaS) SAu) (\<lambda>q.
     let ss = np_sqrt q in
     bind_err (py_truediv CT CTu) (\<lambda>tt.
     bind_err (py_truediv p Zu) (\<lambda>pp.
     let r0 = bsq_r0 pp;
         rz3 = bsq_rz3 ss tt;
         rz2 = bsq_rz2 ss tt;
         rz1 = bsq_rz1 ss tt;
         rz0 = bsq_rz0 ss tt;
         r = ((rz3 * pp + rz2) * pp + rz1) * pp + rz0;
         rho = r + r0;
         a = bsq_a_raw ss tt pp;
         b = bsq_b_raw ss tt pp;
         b = b / ss
     in Inr (rho, a, b, r0, r)))))"

definition polyTEOS10_stif :: "fl \<Rightarrow> fl \<Rightarrow> fl \<Rightarrow> py_error + (fl \<times> fl \<times> fl \<times> fl \<times> fl)" where
  "polyTEOS10_stif SA CT p =
     bind_err (py_truediv (Fin 40 * Fin 35.16504) (Fin 35)) (\<lambda>SAu.
     let CTu = Fin 40; Zu = Fin (1 * 10 ^ 4); deltaS = Fin 32 in
     bind_err (py_truediv (SA + deltaS) SAu) (\<lambda>q.
     let ss = np_sqrt q in
     bind_err (py_truediv CT CTu) (\<lambda>tt.
     bind_err (py_truediv p Zu) (\<lambda>pp.
     let r1 = stif_r1 pp;
         rz3 = stif_rz3 ss tt;
         rz2 = stif_rz2 ss tt;
         rz1 = stif_rz1 ss tt;
         rz0 = stif_rz0 ss tt;
         rdot = ((rz3 * pp + rz2) * pp + rz1) * pp + rz0;
         rho = r1 * rdot;
         a = r1 * stif_a_raw ss tt pp;
         b = stif_b_raw ss tt pp;
         b = b * r1 / ss
     in Inr (rho, a, b, r1, rdot)))))"

definition polyTEOS10_55t :: "fl \<Rightarrow> fl \<Rightarrow> fl \<Rightarrow> py_error + (fl \<times> fl \<times> fl \<times> fl \<times> fl)" where
  "polyTEOS10_55t SA CT p =
     bind_err (py_truediv (Fin 40 * Fin 35.16504) (Fin 35)) (\<lambda>SAu.
     let CTu = Fin 40; Zu = Fin (1 * 10 ^ 4); deltaS = Fin 32 in
     bind_err (py_truediv (SA + deltaS) SAu) (\<lambda>q.
     let ss = np_sqrt q in
     bind_err (py_truediv CT CTu) (\<lambda>tt.
     bind_err (py_truediv p Zu) (\<lambda>pp.
     let v0 = v55_v0 pp;
         vp3 = v55_vp3 ss tt;
         vp2 = v55_vp2 ss tt;
         vp1 = v55_vp1 ss tt;
         vp0 = v55_vp0 ss tt;
         delta = ((vp3 * pp + vp2) * pp + vp1) * pp + vp0;
         specvol = v0 + delta;
         ap3 = v55_ap3;
         ap2 = v55_ap2 ss tt;
         ap1 = v55_ap1 ss tt;
         ap0 = v55_ap0 ss tt;
         a = ((ap3 * pp + ap2) * pp + ap1) * pp + ap0;
         alpha = a / specvol;
         bp3 = v55_bp3;
         bp2 = v55_bp2 ss tt;
         bp1 = v55_bp1 ss tt;
         bp0 = v55_bp0 ss tt;
         b = ((bp3 * pp + bp2) * pp + bp1) * pp + bp0;
         beta = b / ss / specvol
     in Inr (specvol, alpha, beta, v0, delta)))))"

definition polyTEOS10_75t :: "fl \<Rightarrow> fl \<Rightarrow> fl \<Rightarrow> py_error + (fl \<times> fl \<times> fl \<times> fl \<times> fl)" where
  "polyTEOS10_75t SA CT p =
     bind_err (py_truediv (Fin 40 * Fin 35.16504) (Fin 35)) (\<lambda>SAu.
     let CTu = Fin 40; Zu = Fin (1 * 10 ^ 4); deltaS = Fin 32 in
     bind_err (py_truediv (SA + deltaS) SAu) (\<lambda>q.
     let ss = np_sqrt q in
     bind_err (py_truediv CT CTu) (\<lambda>tt.
     bind_err (py_truediv p Zu) (\<lambda>pp.
     let v0 = v75_v0 pp;
         vp5 = v75_vp5;
         vp4 = v75_vp4 ss tt;
         vp3 = v75_vp3 ss tt;
         vp2 = v75_vp2 ss tt;
         vp1 = v75_vp1 ss tt;
         vp0 = v75_vp0 ss tt;
         delta = ((((vp5 * pp + vp4) * pp + vp3) * pp + vp2) * pp + vp1) * pp + vp0;
         specvol = v0 + delta;
         ap4 = v75_ap4;
         ap3 = v75_ap3 ss tt;
         ap2 = v75_ap2 ss tt;
         ap1 = v75_ap1 ss tt;
         ap0 = v75_ap0 ss tt;
         a = (((ap4 * pp + ap3) * pp + ap2) * pp + ap1) * pp + ap0;
         alpha = a / specvol;
         bp4 = v75_bp4;
         bp3 = v75_bp3 ss tt;
         bp2 = v75_bp2 ss tt;
         bp1 = v75_bp1 ss tt;
         bp0 = v75_bp0 ss tt;
         b = (((bp4 * pp + bp3) * pp + bp2) * pp + bp1) * pp + bp0;
         beta = b / ss / specvol
     in Inr (specvol, alpha, beta, v0, delta)))))"

section \<open>Reduced variables and enclosures\<close>

text \<open>
  The constant \<open>SAu\<close> of the source, \<open>40 * 35.16504 / 35\<close>, and the three reduced
  variables every evaluator starts from.
\<close>

definition SAu_real :: real where
  "SAu_real = 40 * 35.16504 / 35"

definition reduced_ss :: "fl \<Rightarrow> fl" where
  "reduced_ss SA = np_sqrt ((SA + Fin 32) / Fin SAu_real)"

definition reduced_tt :: "fl \<Rightarrow> fl" where
  "reduced_tt CT = CT / Fin 40"

definition reduced_pp :: "fl \<Rightarrow> fl" where
  "reduced_pp p = p / Fin 10000"

text \<open>\<open>encl lo hi v\<close>: the value \<open>v\<close> is finite and lies in the interval \<open>[lo, hi]\<close>.\<close>

fun encl :: "real \<Rightarrow> real \<Rightarrow> fl \<Rightarrow> bool" where
  "encl lo hi (Fin x) = (lo \<le> x \<and> x \<le> hi)"
| "encl lo hi _ = False"

text \<open>
  In the specific-volume evaluators the raw derivative polynomials are the values of the
  source's locals \<open>a\<close> and \<open>b\<close>, before the divisions that give \<open>alpha\<close> and \<open>beta\<close>.
\<close>

definition v55_a_raw :: "fl \<Rightarrow> fl \<Rightarrow> fl \<Rightarrow> fl" where
  "v55_a_raw ss tt pp = ((v55_ap3 * pp + v55_ap2 ss tt) * pp + v55_ap1 ss tt) * pp + v55_ap0 ss tt"

definition v55_b_raw :: "fl \<Rightarrow> fl \<Rightarrow> fl \<Rightarrow> fl" where
  "v55_b_raw ss tt pp = ((v55_bp3 * pp + v55_bp2 ss tt) * pp + v55_bp1 ss tt) * pp + v55_bp0 ss tt"

definition v75_a_raw :: "fl \<Rightarrow> fl \<Rightarrow> fl \<Rightarrow> fl" where
  "v75_a_raw ss tt pp =
     (((v75_ap4 * pp + v75_ap3 ss tt) * pp + v75_ap2 ss tt) * pp + v75_ap1 ss tt) * pp
     + v75_ap0 ss tt"

definition v75_b_raw :: "fl \<Rightarrow> fl \<Rightarrow> fl \<Rightarrow> fl" where
  "v75_b_raw ss tt pp =
     (((v75_bp4 * pp + v75_bp3 ss tt) * pp + v75_bp2 ss tt) * pp + v75_bp1 ss tt) * pp
     + v75_bp0 ss tt"

subsection \<open>Interval evaluation\<close>

text \<open>
  Enclosures of the value of a nested polynomial are computed on intervals with integer
  bounds at a binary scale: \<open>Some (l, h)\<close> at scale \<open>k\<close> stands for the reals \<open>x\<close> with
  \<open>l \<le> x * 2 ^ k \<le> h\<close>.  Products are rounded outwards to the scale.  An operation gives
  \<open>None\<close> when a bound leaves \<open>[-ival_bound, ival_bound]\<close>, which lies inside the range
  of the format, so that an interval \<open>Some (l, h)\<close> also says that nothing overflowed.
\<close>

type_synonym ival = "(int \<times> int) option"

definition ival_bound :: int where
  "ival_bound = 10 ^ 100"

definition ival_check :: "int \<Rightarrow> int \<Rightarrow> ival" where
  "ival_check l h = (if - ival_bound \<le> l \<and> h \<le> ival_bound then Some (l, h) else None)"

definition round_down :: "nat \<Rightarrow> int \<Rightarrow> int" where
  "round_down k p = drop_bit k p"

definition round_up :: "nat \<Rightarrow> int \<Rightarrow> int" where
  "round_up k p = - drop_bit k (- p)"

definition ival_const :: "nat \<Rightarrow> real \<Rightarrow> ival" where
  "ival_const k c = (let f = \<lfloor>c * 2 ^ k\<rfloor> in ival_check f (f + 1))"

fun ival_add :: "ival \<Rightarrow> ival \<Rightarrow> ival" where
  "ival_add (Some (a, b)) (Some (c, d)) = ival_check (a + c) (b + d)"
| "ival_add _ _ = None"

fun ival_mul :: "nat \<Rightarrow> ival \<Rightarrow> ival \<Rightarrow> ival" where
  "ival_mul k (Some (a, b)) (Some (c, d)) =
     (if 0 \<le> c then
        ival_check (round_down k (if 0 \<le> a then a * c else a * d))
                   (round_up k (if 0 \<le> b then b * d else b * c))
      else
        ival_check (round_down k (min (min (a * c) (a * d)) (min (b * c) (b * d))))
                   (round_up k (max (max (a * c) (a * d)) (max (b * c) (b * d)))))"
| "ival_mul k _ _ = None"

fun ival_div :: "nat \<Rightarrow> ival \<Rightarrow> ival \<Rightarrow> ival" where
  "ival_div k (Some (a, b)) (Some (c, d)) =
     (if 0 < c then
        ival_check (if 0 \<le> a then push_bit k a div d else push_bit k a div c)
                   (if 0 \<le> b then - (- push_bit k b div c) else - (- push_bit k b div d))
      else None)"
| "ival_div k _ _ = None"

fun encl_opt :: "nat \<Rightarrow> ival \<Rightarrow> fl \<Rightarrow> bool" where
  "encl_opt k (Some (l, h)) (Fin x) = (of_int l \<le> x * 2 ^ k \<and> x * 2 ^ k \<le> of_int h)"
| "encl_opt k (Some (l, h)) _ = False"
| "encl_opt k None _ = True"

fun ival_within :: "nat \<Rightarrow> real \<Rightarrow> real \<Rightarrow> ival \<Rightarrow> bool" where
  "ival_within k lo hi (Some (l, h)) = (lo * 2 ^ k \<le> of_int l \<and> of_int h \<le> hi * 2 ^ k)"
| "ival_within k lo hi None = False"

text \<open>The bounds of a product, before rounding.\<close>

definition prod_lo :: "int \<Rightarrow> int \<Rightarrow> int \<Rightarrow> int \<Rightarrow> int" where
  "prod_lo a b c d =
     (if 0 \<le> c then (if 0 \<le> a then a * c else a * d)
      else min (min (a * c) (a * d)) (min (b * c) (b * d)))"

definition prod_hi :: "int \<Rightarrow> int \<Rightarrow> int \<Rightarrow> int \<Rightarrow> int" where
  "prod_hi a b c d =
     (if 0 \<le> c then (if 0 \<le> b then b * d else b * c)
      else max (max (a * c) (a * d)) (max (b * c) (b * d)))"

text \<open>The interval at scale \<open>k\<close> around the reals between \<open>lo\<close> and \<open>hi\<close>.\<close>

definition ival_encl :: "nat \<Rightarrow> real \<Rightarrow> real \<Rightarrow> ival" where
  "ival_encl k lo hi = ival_check \<lfloor>lo * 2 ^ k\<rfloor> (\<lfloor>hi * 2 ^ k\<rfloor> + 1)"

section \<open>Arithmetic of floating-point values\<close>

lemma fl_max_pos: "0 < fl_max"
  by (simp add: fl_max_def)

lemma fl_max_big: "10 ^ 308 \<le> fl_max"
  by (simp add: fl_max_def)

lemma overflow_Fin: "\<bar>x\<bar> \<le> fl_max \<Longrightarrow> overflow x = Fin x"
  by (auto simp: overflow_def)

lemma overflow_small: "\<bar>x\<bar> \<le> 10 ^ 308 \<Longrightarrow> overflow x = Fin x"
  using fl_max_big by (intro overflow_Fin) linarith

text \<open>A cheap side condition for the evaluation of concrete, moderate values.\<close>

lemma overflow_million: "\<bar>x\<bar> \<le> 1000000 \<Longrightarrow> overflow x = Fin x"
proof -
  assume "\<bar>x\<bar> \<le> 1000000"
  moreover have "(1000000::real) \<le> 10 ^ 308" by simp
  ultimately have "\<bar>x\<bar> \<le> fl_max" using fl_max_big by linarith
  then show ?thesis by (rule overflow_Fin)
qed

lemma overflow_zero: "overflow 0 = Fin 0"
  by (simp add: overflow_million)

lemma plus_Fin: "Fin x + Fin y = overflow (x + y)"
  by (simp add: plus_fl_def)

lemma times_Fin: "Fin x * Fin y = overflow (x * y)"
  by (simp add: times_fl_def)

lemma divide_Fin:
  "Fin x / Fin y =
     (if y = 0 then (if x = 0 then NaN else if 0 < x then PInf else NInf) else overflow (x / y))"
  by (simp add: divide_fl_def)

lemma fl_add_commute: "fl_add x y = fl_add y x"
  by (cases x; cases y) (simp_all add: add.commute)

lemma fl_mul_commute: "fl_mul x y = fl_mul y x"
  by (cases x; cases y) (simp_all add: mult.commute)

lemma plus_fl_commute: "(x::fl) + y = y + x"
  by (simp add: plus_fl_def fl_add_commute)

lemma times_fl_commute: "(x::fl) * y = y * x"
  by (simp add: times_fl_def fl_mul_commute)

lemma NaN_plus: "NaN + x = NaN" "x + NaN = NaN"
  by (cases x; simp add: plus_fl_def)+

lemma NaN_times: "NaN * x = NaN" "x * NaN = NaN"
  by (cases x; simp add: times_fl_def)+

lemma NaN_divide: "NaN / x = NaN" "x / NaN = NaN"
  by (cases x; simp add: divide_fl_def)+

lemmas fl_eval = plus_Fin times_Fin divide_Fin overflow_million NaN_plus NaN_times NaN_divide

subsection \<open>The reduced variables\<close>

lemma SAu_real_pos: "0 < SAu_real"
  by (simp add: SAu_real_def)

lemma SAu_eval: "py_truediv (Fin 40 * Fin 35.16504) (Fin 35) = Inr (Fin SAu_real)"
  by (simp add: py_truediv_def times_Fin divide_Fin overflow_million SAu_real_def)

lemma py_truediv_const: "c \<noteq> 0 \<Longrightarrow> py_truediv x (Fin c) = Inr (x / Fin c)"
  by (simp add: py_truediv_def)

text \<open>
  None of the four divisions of Python floats can raise: the divisors are the non-zero
  constants \<open>35\<close>, \<open>SAu\<close>, \<open>CTu\<close> and \<open>Zu\<close>.  What is left of each evaluator is a pure
  expression in the reduced variables.
\<close>

lemma bsq_reduced:
  "polyTEOS10_bsq SA CT p =
    (let ss = reduced_ss SA; tt = reduced_tt CT; pp = reduced_pp p;
         r0 = bsq_r0 pp;
         r = ((bsq_rz3 ss tt * pp + bsq_rz2 ss tt) * pp + bsq_rz1 ss tt) * pp + bsq_rz0 ss tt
     in Inr (r + r0, bsq_a_raw ss tt pp, bsq_b_raw ss tt pp / ss, r0, r))"
  unfolding polyTEOS10_bsq_def SAu_eval reduced_ss_def reduced_tt_def reduced_pp_def
  using SAu_real_pos by (simp add: bind_err_def py_truediv_const Let_def)

lemma stif_reduced:
  "polyTEOS10_stif SA CT p =
    (let ss = reduced_ss SA; tt = reduced_tt CT; pp = reduced_pp p;
         r1 = stif_r1 pp;
         rdot = ((stif_rz3 ss tt * pp + stif_rz2 ss tt) * pp + stif_rz1 ss tt) * pp
                + stif_rz0 ss tt
     in Inr (r1 * rdot, r1 * stif_a_raw ss tt pp, stif_b_raw ss tt pp * r1 / ss, r1, rdot))"
  unfolding polyTEOS10_stif_def SAu_eval reduced_ss_def reduced_tt_def reduced_pp_def
  using SAu_real_pos by (simp add: bind_err_def py_truediv_const Let_def)

lemma v55_reduced:
  "polyTEOS10_55t SA CT p =
    (let ss = reduced_ss SA; tt = reduced_tt CT; pp = reduced_pp p;
         v0 = v55_v0 pp;
         delta = ((v55_vp3 ss tt * pp + v55_vp2 ss tt) * pp + v55_vp1 ss tt) * pp
                 + v55_vp0 ss tt;
         specvol = v0 + delta;
         a = ((v55_ap3 * pp + v55_ap2 ss tt) * pp + v55_ap1 ss tt) * pp + v55_ap0 ss tt;
         b = ((v55_bp3 * pp + v55_bp2 ss tt) * pp + v55_bp1 ss tt) * pp + v55_bp0 ss tt
     in Inr (specvol, a / specvol, b / ss / specvol, v0, delta))"
  unfolding polyTEOS10_55t_def SAu_eval reduced_ss_def reduced_tt_def reduced_pp_def
  using SAu_real_pos by (simp add: bind_err_def py_truediv_const Let_def)

lemma v75_reduced:
  "polyTEOS10_75t SA CT p =
    (let ss = reduced_ss SA; tt = reduced_tt CT; pp = reduced_pp p;
         v0 = v75_v0 pp;
         delta = ((((v75_vp5 * pp + v75_vp4 ss tt) * pp + v75_vp3 ss tt) * pp
                   + v75_vp2 ss tt) * pp + v75_vp1 ss tt) * pp + v75_vp0 ss tt;
         specvol = v0 + delta;
         a = (((v75_ap4 * pp + v75_ap3 ss tt) * pp + v75_ap2 ss tt) * pp + v75_ap1 ss tt) * pp
             + v75_ap0 ss tt;
         b = (((v75_bp4 * pp + v75_bp3 ss tt) * pp + v75_bp2 ss tt) * pp + v75_bp1 ss tt) * pp
             + v75_bp0 ss tt
     in Inr (specvol, a / specvol, b / ss / specvol, v0, delta))"
  unfolding polyTEOS10_75t_def SAu_eval reduced_ss_def reduced_tt_def reduced_pp_def
  using SAu_real_pos by (simp add: bind_err_def py_truediv_const Let_def)

section \<open>Decomposition of the primary output\<close>

text \<open>
  Claim C2.  Whatever the inputs, each evaluator returns (it raises no error) and its
  primary output is literally composed of its reference and anomaly outputs:
  \<open>rho = r0 + r\<close> for \<^verbatim>\<open>polyTEOS10_bsq\<close>, \<open>rho = r1 * rdot\<close> for \<^verbatim>\<open>polyTEOS10_stif\<close>, and
  \<open>specvol = v0 + delta\<close> for \<^verbatim>\<open>polyTEOS10_55t\<close> and \<^verbatim>\<open>polyTEOS10_75t\<close>.  The sum and the
  product are those of the floating-point model, which on finite values are the exact real
  sum and product (unless the result leaves the range of the format).
\<close>

theorem decomposition_identity:
  "(\<exists>rho a b r0 r. polyTEOS10_bsq SA CT p = Inr (rho, a, b, r0, r) \<and> rho = r0 + r) \<and>
   (\<exists>rho a b r1 rdot. polyTEOS10_stif SA CT p = Inr (rho, a, b, r1, rdot) \<and> rho = r1 * rdot) \<and>
   (\<exists>specvol alpha beta v0 delta.
       polyTEOS10_55t SA CT p = Inr (specvol, alpha, beta, v0, delta) \<and> specvol = v0 + delta) \<and>
   (\<exists>specvol alpha beta v0 delta.
       polyTEOS10_75t SA CT p = Inr (specvol, alpha, beta, v0, delta) \<and> specvol = v0 + delta)"
  by (simp add: bsq_reduced stif_reduced v55_reduced v75_reduced Let_def plus_fl_commute)

section \<open>The reference profiles\<close>

lemma reduced_pp_zero: "reduced_pp (Fin 0) = Fin 0"
  by (simp add: reduced_pp_def divide_Fin overflow_million)

lemma bsq_r0_zero: "bsq_r0 (Fin 0) = Fin 0"
  by (simp add: bsq_r0_def coef fl_eval)

lemma stif_r1_zero: "stif_r1 (Fin 0) = Fin 1"
  by (simp add: stif_r1_def coef fl_eval)

text \<open>
  Claim C5.  At \<open>p = 0\<close>, for every \<open>SA\<close> and \<open>CT\<close>, \<^verbatim>\<open>polyTEOS10_bsq\<close> returns \<open>r0 = 0\<close>
  (the nested polynomial is multiplied by the reduced pressure once more, so it has no
  constant term) and \<^verbatim>\<open>polyTEOS10_stif\<close> returns \<open>r1 = 1\<close> (the constant term added last).
\<close>

theorem reference_intercepts:
  "(\<exists>rho a b r. polyTEOS10_bsq SA CT (Fin 0) = Inr (rho, a, b, Fin 0, r)) \<and>
   (\<exists>rho a b rdot. polyTEOS10_stif SA CT (Fin 0) = Inr (rho, a, b, Fin 1, rdot))"
  by (simp add: bsq_reduced stif_reduced Let_def reduced_pp_zero bsq_r0_zero stif_r1_zero)

text \<open>
  Claim C8.  The reference output of each evaluator (\<open>r0\<close>, \<open>r1\<close>, \<open>v0\<close>, \<open>v0\<close>) depends on
  \<open>p\<close> only: two calls with the same \<open>p\<close> and any \<open>SA\<close>, \<open>CT\<close>, \<open>SA'\<close>, \<open>CT'\<close> return the
  same reference component.
\<close>

theorem reference_depends_on_p_only:
  "(\<exists>rho a b r0 r rho' a' b' r'.
      polyTEOS10_bsq SA CT p = Inr (rho, a, b, r0, r) \<and>
      polyTEOS10_bsq SA' CT' p = Inr (rho', a', b', r0, r')) \<and>
   (\<exists>rho a b r1 rdot rho' a' b' rdot'.
      polyTEOS10_stif SA CT p = Inr (rho, a, b, r1, rdot) \<and>
      polyTEOS10_stif SA' CT' p = Inr (rho', a', b', r1, rdot')) \<and>
   (\<exists>specvol alpha beta v0 delta specvol' alpha' beta' delta'.
      polyTEOS10_55t SA CT p = Inr (specvol, alpha, beta, v0, delta) \<and>
      polyTEOS10_55t SA' CT' p = Inr (specvol', alpha', beta', v0, delta')) \<and>
   (\<exists>specvol alpha beta v0 delta specvol' alpha' beta' delta'.
      polyTEOS10_75t SA CT p = Inr (specvol, alpha, beta, v0, delta) \<and>
      polyTEOS10_75t SA' CT' p = Inr (specvol', alpha', beta', v0, delta'))"
  by (simp add: bsq_reduced stif_reduced v55_reduced v75_reduced Let_def)

lemma v0_same: "v55_v0 pp = v75_v0 pp"
  by (simp add: v55_v0_def v75_v0_def coef)

text \<open>
  Claim C9.  For every input, \<^verbatim>\<open>polyTEOS10_55t\<close> and \<^verbatim>\<open>polyTEOS10_75t\<close> return the same
  \<open>v0\<close>: the six coefficients \<open>V00 .. V05\<close> and the nesting are the same in both.
\<close>

theorem v0_shared:
  "\<exists>specvol alpha beta v0 delta specvol' alpha' beta' delta'.
      polyTEOS10_55t SA CT p = Inr (specvol, alpha, beta, v0, delta) \<and>
      polyTEOS10_75t SA CT p = Inr (specvol', alpha', beta', v0, delta')"
  by (simp add: v55_reduced v75_reduced Let_def v0_same)

section \<open>Scaling of the derivative outputs\<close>

text \<open>
  Claim C6.  In \<^verbatim>\<open>polyTEOS10_stif\<close> the outputs \<open>a\<close> and \<open>b\<close> carry the reference ratio:
  \<open>a = r1 * a_raw\<close> and \<open>b = r1 * b_raw / s\<close>, with \<open>a_raw\<close>, \<open>b_raw\<close> the nested polynomials
  of the \<open>ALP\<close> and \<open>BET\<close> tables at the reduced variables.  In \<^verbatim>\<open>polyTEOS10_bsq\<close> the
  output \<open>a\<close> is the polynomial itself and \<open>b\<close> is the polynomial divided once by \<open>s\<close>.
\<close>

theorem stif_scaled_by_r1:
  "(\<exists>rho a b r1 rdot.
      polyTEOS10_stif SA CT p = Inr (rho, a, b, r1, rdot) \<and>
      a = r1 * stif_a_raw (reduced_ss SA) (reduced_tt CT) (reduced_pp p) \<and>
      b = r1 * stif_b_raw (reduced_ss SA) (reduced_tt CT) (reduced_pp p) / reduced_ss SA) \<and>
   (\<exists>rho a b r0 r.
      polyTEOS10_bsq SA CT p = Inr (rho, a, b, r0, r) \<and>
      a = bsq_a_raw (reduced_ss SA) (reduced_tt CT) (reduced_pp p) \<and>
      b = bsq_b_raw (reduced_ss SA) (reduced_tt CT) (reduced_pp p) / reduced_ss SA)"
  by (simp add: bsq_reduced stif_reduced Let_def times_fl_commute)

section \<open>Outside the domain\<close>

lemma reduced_ss_below: "x < - 32 \<Longrightarrow> reduced_ss (Fin x) = NaN"
proof -
  assume x: "x < - 32"
  have "Fin x + Fin 32 = NInf \<or> (\<exists>y. Fin x + Fin 32 = Fin y \<and> y < 0)"
    using x fl_max_pos by (auto simp: plus_Fin overflow_def)
  then show ?thesis
  proof
    assume "Fin x + Fin 32 = NInf"
    then show ?thesis
      using SAu_real_pos by (simp add: reduced_ss_def divide_fl_def)
  next
    assume "\<exists>y. Fin x + Fin 32 = Fin y \<and> y < 0"
    then obtain y where y: "Fin x + Fin 32 = Fin y" "y < 0" by blast
    have "y / SAu_real < 0"
      using y SAu_real_pos by (simp add: divide_neg_pos)
    then have "np_sqrt (overflow (y / SAu_real)) = NaN"
      using fl_max_pos by (auto simp: overflow_def)
    then show ?thesis
      using y SAu_real_pos by (simp add: reduced_ss_def divide_Fin)
  qed
qed

lemma reduced_ss_edge: "reduced_ss (Fin (- 32)) = Fin 0"
  using SAu_real_pos by (simp add: reduced_ss_def plus_Fin divide_Fin overflow_million)

lemma divide_zero_not_finite: "\<not> finite_fl (x / Fin 0)"
  by (cases x) (simp_all add: divide_fl_def)

lemma divide_not_finite: "\<not> finite_fl x \<Longrightarrow> \<not> finite_fl (x / y)"
  by (cases x; cases y) (simp_all add: divide_fl_def)

lemmas NaN_prop = NaN_plus NaN_times NaN_divide

text \<open>A NaN in \<open>ss\<close> reaches the value of every polynomial that mentions \<open>ss\<close>.\<close>

lemma bsq_NaN:
  "bsq_rz3 NaN tt = NaN" "bsq_rz2 NaN tt = NaN" "bsq_rz1 NaN tt = NaN" "bsq_rz0 NaN tt = NaN"
  "bsq_a_raw NaN tt pp = NaN" "bsq_b_raw NaN tt pp = NaN"
  by (simp_all add: bsq_rz3_def bsq_rz2_def bsq_rz1_def bsq_rz0_def bsq_a_raw_def bsq_b_raw_def
      NaN_prop)

lemma stif_NaN:
  "stif_rz3 NaN tt = NaN" "stif_rz2 NaN tt = NaN" "stif_rz1 NaN tt = NaN"
  "stif_rz0 NaN tt = NaN" "stif_a_raw NaN tt pp = NaN" "stif_b_raw NaN tt pp = NaN"
  by (simp_all add: stif_rz3_def stif_rz2_def stif_rz1_def stif_rz0_def stif_a_raw_def
      stif_b_raw_def NaN_prop)

lemma v55_NaN:
  "v55_vp3 NaN tt = NaN" "v55_vp2 NaN tt = NaN" "v55_vp1 NaN tt = NaN" "v55_vp0 NaN tt = NaN"
  "v55_ap2 NaN tt = NaN" "v55_ap1 NaN tt = NaN" "v55_ap0 NaN tt = NaN"
  "v55_bp2 NaN tt = NaN" "v55_bp1 NaN tt = NaN" "v55_bp0 NaN tt = NaN"
  by (simp_all add: v55_vp3_def v55_vp2_def v55_vp1_def v55_vp0_def v55_ap2_def v55_ap1_def
      v55_ap0_def v55_bp2_def v55_bp1_def v55_bp0_def NaN_prop)

lemma v75_NaN:
  "v75_vp4 NaN tt = NaN" "v75_vp3 NaN tt = NaN" "v75_vp2 NaN tt = NaN" "v75_vp1 NaN tt = NaN"
  "v75_vp0 NaN tt = NaN"
  "v75_ap3 NaN tt = NaN" "v75_ap2 NaN tt = NaN" "v75_ap1 NaN tt = NaN" "v75_ap0 NaN tt = NaN"
  "v75_bp3 NaN tt = NaN" "v75_bp2 NaN tt = NaN" "v75_bp1 NaN tt = NaN" "v75_bp0 NaN tt = NaN"
  by (simp_all add: v75_vp4_def v75_vp3_def v75_vp2_def v75_vp1_def v75_vp0_def v75_ap3_def
      v75_ap2_def v75_ap1_def v75_ap0_def v75_bp3_def v75_bp2_def v75_bp1_def v75_bp0_def
      NaN_prop)

text \<open>
  Claim C4.  No evaluator raises or returns an error, on any input (finite, infinite or
  NaN): it always returns its five outputs.  No clamping or validation stands between the
  inputs and the outputs: on every input, in the funnel or not, the outputs are the values
  of the nested polynomials at the reduced variables \<open>sqrt ((SA + 32) / SAu)\<close>, \<open>CT / 40\<close>
  and \<open>p / 10000\<close> of the unmodified inputs, combined by the final sum, product and
  quotients.  For a finite \<open>SA < -32\<close> the square root is NaN and so is every output computed
  from \<open>ss\<close>: all outputs but the reference profile.  At \<open>SA = -32\<close> (\<open>ss = 0\<close>) the output
  \<open>b\<close> of the density evaluators and the output \<open>beta\<close> of the specific-volume evaluators
  are infinite or NaN, never finite.
\<close>

theorem domain_violations_propagate:
  "(\<exists>out. polyTEOS10_bsq SA CT p = Inr out) \<and>
   (\<exists>out. polyTEOS10_stif SA CT p = Inr out) \<and>
   (\<exists>out. polyTEOS10_55t SA CT p = Inr out) \<and>
   (\<exists>out. polyTEOS10_75t SA CT p = Inr out) \<and>
   polyTEOS10_bsq SA CT p =
     (let ss = np_sqrt ((SA + Fin 32) / Fin (40 * 35.16504 / 35));
          tt = CT / Fin 40; pp = p / Fin 10000;
          r0 = bsq_r0 pp;
          r = ((bsq_rz3 ss tt * pp + bsq_rz2 ss tt) * pp + bsq_rz1 ss tt) * pp + bsq_rz0 ss tt
      in Inr (r + r0, bsq_a_raw ss tt pp, bsq_b_raw ss tt pp / ss, r0, r)) \<and>
   polyTEOS10_stif SA CT p =
     (let ss = np_sqrt ((SA + Fin 32) / Fin (40 * 35.16504 / 35));
          tt = CT / Fin 40; pp = p / Fin 10000;
          r1 = stif_r1 pp;
          rdot = ((stif_rz3 ss tt * pp + stif_rz2 ss tt) * pp + stif_rz1 ss tt) * pp
                 + stif_rz0 ss tt
      in Inr (r1 * rdot, r1 * stif_a_raw ss tt pp, stif_b_raw ss tt pp * r1 / ss, r1, rdot)) \<and>
   polyTEOS10_55t SA CT p =
     (let ss = np_sqrt ((SA + Fin 32) / Fin (40 * 35.16504 / 35));
          tt = CT / Fin 40; pp = p / Fin 10000;
          v0 = v55_v0 pp;
          delta = ((v55_vp3 ss tt * pp + v55_vp2 ss tt) * pp + v55_vp1 ss tt) * pp
                  + v55_vp0 ss tt;
          specvol = v0 + delta
      in Inr (specvol, v55_a_raw ss tt pp / specvol, v55_b_raw ss tt pp / ss / specvol,
              v0, delta)) \<and>
   polyTEOS10_75t SA CT p =
     (let ss = np_sqrt ((SA + Fin 32) / Fin (40 * 35.16504 / 35));
          tt = CT / Fin 40; pp = p / Fin 10000;
          v0 = v75_v0 pp;
          delta = ((((v75_vp5 * pp + v75_vp4 ss tt) * pp + v75_vp3 ss tt) * pp
                    + v75_vp2 ss tt) * pp + v75_vp1 ss tt) * pp + v75_vp0 ss tt;
          specvol = v0 + delta
      in Inr (specvol, v75_a_raw ss tt pp / specvol, v75_b_raw ss tt pp / ss / specvol,
              v0, delta)) \<and>
   (x < - 32 \<longrightarrow>
      (\<exists>r0. polyTEOS10_bsq (Fin x) CT p = Inr (NaN, NaN, NaN, r0, NaN)) \<and>
      (\<exists>r1. polyTEOS10_stif (Fin x) CT p = Inr (NaN, NaN, NaN, r1, NaN)) \<and>
      (\<exists>v0. polyTEOS10_55t (Fin x) CT p = Inr (NaN, NaN, NaN, v0, NaN)) \<and>
      (\<exists>v0. polyTEOS10_75t (Fin x) CT p = Inr (NaN, NaN, NaN, v0, NaN))) \<and>
   (\<exists>rho a b r0 r.
      polyTEOS10_bsq (Fin (- 32)) CT p = Inr (rho, a, b, r0, r) \<and> \<not> finite_fl b) \<and>
   (\<exists>rho a b r1 rdot.
      polyTEOS10_stif (Fin (- 32)) CT p = Inr (rho, a, b, r1, rdot) \<and> \<not> finite_fl b) \<and>
   (\<exists>specvol alpha beta v0 delta.
      polyTEOS10_55t (Fin (- 32)) CT p = Inr (specvol, alpha, beta, v0, delta) \<and>
      \<not> finite_fl beta) \<and>
   (\<exists>specvol alpha beta v0 delta.
      polyTEOS10_75t (Fin (- 32)) CT p = Inr (specvol, alpha, beta, v0, delta) \<and>
      \<not> finite_fl beta)"
proof -
  have e: "Fin (40 * 35.16504 / 35) = Fin SAu_real" by (simp add: SAu_real_def)
  have o: "(\<exists>out. polyTEOS10_bsq SA CT p = Inr out) \<and>
      (\<exists>out. polyTEOS10_stif SA CT p = Inr out) \<and>
      (\<exists>out. polyTEOS10_55t SA CT p = Inr out) \<and>
      (\<exists>out. polyTEOS10_75t SA CT p = Inr out)"
    by (simp add: bsq_reduced stif_reduced v55_reduced v75_reduced Let_def)
  have f: "polyTEOS10_bsq SA CT p =
     (let ss = np_sqrt ((SA + Fin 32) / Fin (40 * 35.16504 / 35));
          tt = CT / Fin 40; pp = p / Fin 10000;
          r0 = bsq_r0 pp;
          r = ((bsq_rz3 ss tt * pp + bsq_rz2 ss tt) * pp + bsq_rz1 ss tt) * pp + bsq_rz0 ss tt
      in Inr (r + r0, bsq_a_raw ss tt pp, bsq_b_raw ss tt pp / ss, r0, r))"
    "polyTEOS10_stif SA CT p =
     (let ss = np_sqrt ((SA + Fin 32) / Fin (40 * 35.16504 / 35));
          tt = CT / Fin 40; pp = p / Fin 10000;
          r1 = stif_r1 pp;
          rdot = ((stif_rz3 ss tt * pp + stif_rz2 ss tt) * pp + stif_rz1 ss tt) * pp
                 + stif_rz0 ss tt
      in Inr (r1 * rdot, r1 * stif_a_raw ss tt pp, stif_b_raw ss tt pp * r1 / ss, r1, rdot))"
    "polyTEOS10_55t SA CT p =
     (let ss = np_sqrt ((SA + Fin 32) / Fin (40 * 35.16504 / 35));
          tt = CT / Fin 40; pp = p / Fin 10000;
          v0 = v55_v0 pp;
          delta = ((v55_vp3 ss tt * pp + v55_vp2 ss tt) * pp + v55_vp1 ss tt) * pp
                  + v55_vp0 ss tt;
          specvol = v0 + delta
      in Inr (specvol, v55_a_raw ss tt pp / specvol, v55_b_raw ss tt pp / ss / specvol,
              v0, delta))"
    "polyTEOS10_75t SA CT p =
     (let ss = np_sqrt ((SA + Fin 32) / Fin (40 * 35.16504 / 35));
          tt = CT / Fin 40; pp = p / Fin 10000;
          v0 = v75_v0 pp;
          delta = ((((v75_vp5 * pp + v75_vp4 ss tt) * pp + v75_vp3 ss tt) * pp
                    + v75_vp2 ss tt) * pp + v75_vp1 ss tt) * pp + v75_vp0 ss tt;
          specvol = v0 + delta
      in Inr (specvol, v75_a_raw ss tt pp / specvol, v75_b_raw ss tt pp / ss / specvol,
              v0, delta))"
    unfolding e bsq_reduced stif_reduced v55_reduced v75_reduced reduced_ss_def reduced_tt_def
      reduced_pp_def v55_a_raw_def v55_b_raw_def v75_a_raw_def v75_b_raw_def Let_def
    by (rule refl)+
  have n: "x < - 32 \<longrightarrow>
      (\<exists>r0. polyTEOS10_bsq (Fin x) CT p = Inr (NaN, NaN, NaN, r0, NaN)) \<and>
      (\<exists>r1. polyTEOS10_stif (Fin x) CT p = Inr (NaN, NaN, NaN, r1, NaN)) \<and>
      (\<exists>v0. polyTEOS10_55t (Fin x) CT p = Inr (NaN, NaN, NaN, v0, NaN)) \<and>
      (\<exists>v0. polyTEOS10_75t (Fin x) CT p = Inr (NaN, NaN, NaN, v0, NaN))"
    by (simp add: bsq_reduced stif_reduced v55_reduced v75_reduced Let_def reduced_ss_below
        bsq_NaN stif_NaN v55_NaN v75_NaN NaN_prop)
  have z: "(\<exists>rho a b r0 r.
      polyTEOS10_bsq (Fin (- 32)) CT p = Inr (rho, a, b, r0, r) \<and> \<not> finite_fl b) \<and>
   (\<exists>rho a b r1 rdot.
      polyTEOS10_stif (Fin (- 32)) CT p = Inr (rho, a, b, r1, rdot) \<and> \<not> finite_fl b) \<and>
   (\<exists>specvol alpha beta v0 delta.
      polyTEOS10_55t (Fin (- 32)) CT p = Inr (specvol, alpha, beta, v0, delta) \<and>
      \<not> finite_fl beta) \<and>
   (\<exists>specvol alpha beta v0 delta.
      polyTEOS10_75t (Fin (- 32)) CT p = Inr (specvol, alpha, beta, v0, delta) \<and>
      \<not> finite_fl beta)"
    by (simp add: bsq_reduced stif_reduced v55_reduced v75_reduced Let_def reduced_ss_edge
        divide_zero_not_finite divide_not_finite)
  show ?thesis using o f n z by blast
qed

theorem domain_violations_propagate_witness:
  "(- 33 :: real) < - 32 \<and>
   (\<exists>r0. polyTEOS10_bsq (Fin (- 33)) (Fin 10) (Fin 1000) = Inr (NaN, NaN, NaN, r0, NaN)) \<and>
   (\<exists>r1. polyTEOS10_stif (Fin (- 33)) (Fin 10) (Fin 1000) = Inr (NaN, NaN, NaN, r1, NaN)) \<and>
   (\<exists>v0. polyTEOS10_55t (Fin (- 33)) (Fin 10) (Fin 1000) = Inr (NaN, NaN, NaN, v0, NaN)) \<and>
   (\<exists>v0. polyTEOS10_75t (Fin (- 33)) (Fin 10) (Fin 1000) = Inr (NaN, NaN, NaN, v0, NaN))"
proof -
  have "(- 33 :: real) < - 32 \<longrightarrow>
   (\<exists>r0. polyTEOS10_bsq (Fin (- 33)) (Fin 10) (Fin 1000) = Inr (NaN, NaN, NaN, r0, NaN)) \<and>
   (\<exists>r1. polyTEOS10_stif (Fin (- 33)) (Fin 10) (Fin 1000) = Inr (NaN, NaN, NaN, r1, NaN)) \<and>
   (\<exists>v0. polyTEOS10_55t (Fin (- 33)) (Fin 10) (Fin 1000) = Inr (NaN, NaN, NaN, v0, NaN)) \<and>
   (\<exists>v0. polyTEOS10_75t (Fin (- 33)) (Fin 10) (Fin 1000) = Inr (NaN, NaN, NaN, v0, NaN))"
    using domain_violations_propagate [of "Fin (- 33)" "Fin 10" "Fin 1000" "- 33"]
    by (elim conjE)
  then show ?thesis by simp
qed

section \<open>Normalisation by the specific volume\<close>

lemma plus_eq_Fin: "x + y = Fin z \<Longrightarrow> \<exists>u v. x = Fin u \<and> y = Fin v \<and> z = u + v"
  by (cases x; cases y) (auto simp: plus_fl_def overflow_def split: if_splits)

lemma divide_eq_Fin_Fin:
  "x / Fin v = Fin r \<Longrightarrow> \<exists>u. x = Fin u \<and> v \<noteq> 0 \<and> r = u / v"
  by (cases x) (auto simp: divide_fl_def overflow_def split: if_splits)

lemma not_finite_plus: "\<not> finite_fl x \<or> \<not> finite_fl y \<Longrightarrow> \<not> finite_fl (x + y)"
  by (cases x; cases y) (auto simp: plus_fl_def)

lemma not_finite_times: "\<not> finite_fl x \<or> \<not> finite_fl y \<Longrightarrow> \<not> finite_fl (x * y)"
  by (cases x; cases y) (auto simp: times_fl_def)

text \<open>
  Above \<open>-32\<close> the reduced salinity is the positive square root, unless \<open>SA + 32\<close> leaves
  the range of the format.
\<close>

lemma reduced_ss_above:
  assumes "- 32 < x"
  shows "reduced_ss (Fin x) = PInf \<or>
         (reduced_ss (Fin x) = Fin (sqrt ((x + 32) / SAu_real)) \<and> 0 < sqrt ((x + 32) / SAu_real))"
proof (cases "fl_max < x + 32")
  case True
  then show ?thesis
    using SAu_real_pos by (simp add: reduced_ss_def plus_Fin overflow_def divide_fl_def)
next
  case False
  have q: "0 < (x + 32) / SAu_real" using assms SAu_real_pos by simp
  have "(x + 32) / SAu_real \<le> x + 32"
    using assms by (simp add: SAu_real_def field_simps)
  then have "\<bar>(x + 32) / SAu_real\<bar> \<le> fl_max" using q False by linarith
  then have o: "overflow ((x + 32) / SAu_real) = Fin ((x + 32) / SAu_real)"
    by (rule overflow_Fin)
  have a: "Fin x + Fin 32 = Fin (x + 32)"
    using False assms fl_max_pos by (simp add: plus_Fin overflow_Fin)
  have nn: "\<not> (x + 32) / SAu_real < 0" using q by linarith
  have "reduced_ss (Fin x) = Fin (sqrt ((x + 32) / SAu_real))"
    unfolding reduced_ss_def a using SAu_real_pos nn by (simp add: divide_Fin o)
  then show ?thesis using q by simp
qed

lemma v55_PInf: "\<not> finite_fl (v55_vp0 PInf tt)"
  unfolding v55_vp0_def by (intro not_finite_plus disjI1 not_finite_times disjI2) simp

lemma v75_PInf: "\<not> finite_fl (v75_vp0 PInf tt)"
  unfolding v75_vp0_def by (intro not_finite_plus disjI1 not_finite_times disjI2) simp

lemma quotients_finite:
  assumes "a / Fin v = Fin alpha" and "b / Fin s / Fin v = Fin beta" and "0 < s"
  shows "\<exists>a_raw b_raw. a = Fin a_raw \<and> b = Fin b_raw \<and> alpha = a_raw / v \<and>
           beta = b_raw / (s * v)"
proof -
  obtain u where u: "a = Fin u" "alpha = u / v"
    using divide_eq_Fin_Fin [OF assms(1)] by blast
  obtain w where w: "b / Fin s = Fin w" "beta = w / v"
    using divide_eq_Fin_Fin [OF assms(2)] by blast
  obtain x where x: "b = Fin x" "w = x / s"
    using divide_eq_Fin_Fin [OF w(1)] by blast
  show ?thesis using u w x by simp
qed

lemma v55_normalised:
  assumes "- 32 < SA"
    and "polyTEOS10_55t (Fin SA) CT p = Inr (Fin v, Fin alpha, Fin beta, v0, delta)"
  shows "\<exists>s a_raw b_raw. s = sqrt ((SA + 32) / SAu_real) \<and> 0 < s \<and>
           reduced_ss (Fin SA) = Fin s \<and>
           v55_a_raw (Fin s) (reduced_tt CT) (reduced_pp p) = Fin a_raw \<and>
           v55_b_raw (Fin s) (reduced_tt CT) (reduced_pp p) = Fin b_raw \<and>
           v0 + delta = Fin v \<and> alpha = a_raw / v \<and> beta = b_raw / (s * v)"
proof -
  define ss where "ss = reduced_ss (Fin SA)"
  define tt where "tt = reduced_tt CT"
  define pp where "pp = reduced_pp p"
  define d where
    "d = ((v55_vp3 ss tt * pp + v55_vp2 ss tt) * pp + v55_vp1 ss tt) * pp + v55_vp0 ss tt"
  have r: "v55_v0 pp + d = Fin v" "v0 = v55_v0 pp" "delta = d"
    "v55_a_raw ss tt pp / Fin v = Fin alpha" "v55_b_raw ss tt pp / ss / Fin v = Fin beta"
    using assms(2) unfolding v55_reduced v55_a_raw_def v55_b_raw_def ss_def tt_def pp_def d_def
    by (auto simp: Let_def)
  have fd: "finite_fl d" using plus_eq_Fin [OF r(1)] by auto
  have "ss \<noteq> PInf"
  proof
    assume "ss = PInf"
    then have "\<not> finite_fl d"
      unfolding d_def by (intro not_finite_plus disjI2) (simp add: v55_PInf)
    then show False using fd by simp
  qed
  then have s: "ss = Fin (sqrt ((SA + 32) / SAu_real))" "0 < sqrt ((SA + 32) / SAu_real)"
    using reduced_ss_above [OF assms(1)] unfolding ss_def by auto
  obtain a_raw b_raw where "v55_a_raw ss tt pp = Fin a_raw" "v55_b_raw ss tt pp = Fin b_raw"
      "alpha = a_raw / v" "beta = b_raw / (sqrt ((SA + 32) / SAu_real) * v)"
    using quotients_finite [OF r(4) r(5) [unfolded s(1)] s(2)] s(1) by auto
  then show ?thesis
    using s r unfolding ss_def tt_def pp_def by auto
qed

lemma v75_normalised:
  assumes "- 32 < SA"
    and "polyTEOS10_75t (Fin SA) CT p = Inr (Fin v, Fin alpha, Fin beta, v0, delta)"
  shows "\<exists>s a_raw b_raw. s = sqrt ((SA + 32) / SAu_real) \<and> 0 < s \<and>
           reduced_ss (Fin SA) = Fin s \<and>
           v75_a_raw (Fin s) (reduced_tt CT) (reduced_pp p) = Fin a_raw \<and>
           v75_b_raw (Fin s) (reduced_tt CT) (reduced_pp p) = Fin b_raw \<and>
           v0 + delta = Fin v \<and> alpha = a_raw / v \<and> beta = b_raw / (s * v)"
proof -
  define ss where "ss = reduced_ss (Fin SA)"
  define tt where "tt = reduced_tt CT"
  define pp where "pp = reduced_pp p"
  define d where
    "d = ((((v75_vp5 * pp + v75_vp4 ss tt) * pp + v75_vp3 ss tt) * pp + v75_vp2 ss tt) * pp
          + v75_vp1 ss tt) * pp + v75_vp0 ss tt"
  have r: "v75_v0 pp + d = Fin v" "v0 = v75_v0 pp" "delta = d"
    "v75_a_raw ss tt pp / Fin v = Fin alpha" "v75_b_raw ss tt pp / ss / Fin v = Fin beta"
    using assms(2) unfolding v75_reduced v75_a_raw_def v75_b_raw_def ss_def tt_def pp_def d_def
    by (auto simp: Let_def)
  have fd: "finite_fl d" using plus_eq_Fin [OF r(1)] by auto
  have "ss \<noteq> PInf"
  proof
    assume "ss = PInf"
    then have "\<not> finite_fl d"
      unfolding d_def by (intro not_finite_plus disjI2) (simp add: v75_PInf)
    then show False using fd by simp
  qed
  then have s: "ss = Fin (sqrt ((SA + 32) / SAu_real))" "0 < sqrt ((SA + 32) / SAu_real)"
    using reduced_ss_above [OF assms(1)] unfolding ss_def by auto
  obtain a_raw b_raw where "v75_a_raw ss tt pp = Fin a_raw" "v75_b_raw ss tt pp = Fin b_raw"
      "alpha = a_raw / v" "beta = b_raw / (sqrt ((SA + 32) / SAu_real) * v)"
    using quotients_finite [OF r(4) r(5) [unfolded s(1)] s(2)] s(1) by auto
  then show ?thesis
    using s r unfolding ss_def tt_def pp_def by auto
qed

section \<open>Soundness of the interval evaluation\<close>

lemma ival_bound_num:
  "ival_bound = 10000000000000000000000000000000000000000000000000000000000000000000000000000000000000000000000000000"
  by (simp add: ival_bound_def)

lemma ival_bound_le: "of_int ival_bound \<le> fl_max"
  by (simp add: ival_bound_def fl_max_def)

lemma encl_opt_cases:
  "encl_opt k (Some (l, h)) v \<Longrightarrow> \<exists>x. v = Fin x \<and> of_int l \<le> x * 2 ^ k \<and> x * 2 ^ k \<le> of_int h"
  by (cases v) auto

lemma round_down_le: "of_int (round_down k p) * 2 ^ k \<le> (of_int p :: real)"
proof -
  have "p div 2 ^ k * 2 ^ k + p mod 2 ^ k = p" by (rule div_mult_mod_eq)
  moreover have "0 \<le> p mod 2 ^ k" by simp
  ultimately have "round_down k p * 2 ^ k \<le> p"
    unfolding round_down_def drop_bit_eq_div by linarith
  then have "(of_int (round_down k p * 2 ^ k) :: real) \<le> of_int p" by linarith
  then show ?thesis by simp
qed

lemma round_up_ge: "(of_int p :: real) \<le> of_int (round_up k p) * 2 ^ k"
proof -
  have "(- p) div 2 ^ k * 2 ^ k + (- p) mod 2 ^ k = - p" by (rule div_mult_mod_eq)
  moreover have "0 \<le> (- p) mod 2 ^ k" by simp
  ultimately have "(- p) div 2 ^ k * 2 ^ k \<le> - p" by linarith
  then have "p \<le> round_up k p * 2 ^ k"
    unfolding round_up_def drop_bit_eq_div by simp
  then have "(of_int p :: real) \<le> of_int (round_up k p * 2 ^ k)" by linarith
  then show ?thesis by simp
qed

text \<open>A finite value within checked bounds is in the range of the format.\<close>

lemma encl_check:
  assumes "of_int l \<le> x * 2 ^ k" and "x * 2 ^ k \<le> of_int h"
  shows "encl_opt k (ival_check l h) (overflow x)"
proof (cases "- ival_bound \<le> l \<and> h \<le> ival_bound")
  case True
  have p: "(1::real) \<le> 2 ^ k" by simp
  have "\<bar>x * 2 ^ k\<bar> \<le> of_int ival_bound"
    using True assms by (simp add: abs_le_iff)
  moreover have "\<bar>x\<bar> \<le> \<bar>x\<bar> * 2 ^ k" using p by (simp add: mult_le_cancel_left1)
  ultimately have "\<bar>x\<bar> \<le> fl_max" using ival_bound_le by (simp add: abs_mult)
  then show ?thesis using True assms by (simp add: ival_check_def overflow_Fin)
next
  case False
  then show ?thesis by (auto simp: ival_check_def)
qed

lemma encl_opt_const: "encl_opt k (ival_const k c) (Fin c)"
proof -
  have f: "of_int \<lfloor>c * 2 ^ k\<rfloor> \<le> c * 2 ^ k" "c * 2 ^ k \<le> of_int (\<lfloor>c * 2 ^ k\<rfloor> + 1)"
    by linarith+
  show ?thesis
  proof (cases "ival_const k c")
    case None then show ?thesis by simp
  next
    case (Some lh)
    then have "ival_check \<lfloor>c * 2 ^ k\<rfloor> (\<lfloor>c * 2 ^ k\<rfloor> + 1) = Some (\<lfloor>c * 2 ^ k\<rfloor>, \<lfloor>c * 2 ^ k\<rfloor> + 1)"
      by (auto simp: ival_const_def ival_check_def Let_def split: if_splits)
    then show ?thesis using f by (simp add: ival_const_def Let_def)
  qed
qed

lemma encl_opt_add:
  assumes "encl_opt k I u" and "encl_opt k J v"
  shows "encl_opt k (ival_add I J) (u + v)"
proof (cases I)
  case None then show ?thesis by simp
next
  case (Some ab)
  show ?thesis
  proof (cases J)
    case None then show ?thesis by (cases I) auto
  next
    case (Some cd)
    obtain a b c d where [simp]: "ab = (a, b)" "cd = (c, d)" by (cases ab; cases cd) auto
    obtain x y where xy: "u = Fin x" "v = Fin y"
      "of_int a \<le> x * 2 ^ k" "x * 2 ^ k \<le> of_int b"
      "of_int c \<le> y * 2 ^ k" "y * 2 ^ k \<le> of_int d"
      using assms \<open>I = Some ab\<close> Some by (auto dest!: encl_opt_cases)
    have "of_int (a + c) \<le> (x + y) * 2 ^ k" "(x + y) * 2 ^ k \<le> of_int (b + d)"
      using xy by (simp_all add: algebra_simps)
    then show ?thesis
      using \<open>I = Some ab\<close> Some xy(1,2) by (simp add: plus_Fin encl_check)
  qed
qed

lemma mult_between:
  fixes x :: real
  assumes "a \<le> x" and "x \<le> b"
  shows "min (a * y) (b * y) \<le> x * y" and "x * y \<le> max (a * y) (b * y)"
proof -
  show "min (a * y) (b * y) \<le> x * y"
  proof (cases "0 \<le> y")
    case True
    then have "a * y \<le> x * y" using assms(1) by (rule mult_right_mono[rotated])
    then show ?thesis by simp
  next
    case False
    then have "b * y \<le> x * y" using assms(2) by (intro mult_right_mono_neg) auto
    then show ?thesis by simp
  qed
  show "x * y \<le> max (a * y) (b * y)"
  proof (cases "0 \<le> y")
    case True
    then have "x * y \<le> b * y" using assms(2) by (rule mult_right_mono[rotated])
    then show ?thesis by simp
  next
    case False
    then have "x * y \<le> a * y" using assms(1) by (intro mult_right_mono_neg) auto
    then show ?thesis by simp
  qed
qed

lemma mult_interval:
  fixes x y :: real
  assumes "a \<le> x" "x \<le> b" "c \<le> y" "y \<le> d"
  shows "min (min (a * c) (a * d)) (min (b * c) (b * d)) \<le> x * y"
    and "x * y \<le> max (max (a * c) (a * d)) (max (b * c) (b * d))"
proof -
  have 1: "min (a * y) (b * y) \<le> x * y" "x * y \<le> max (a * y) (b * y)"
    using mult_between [OF assms(1,2)] by auto
  have 2: "min (c * a) (d * a) \<le> y * a" "y * a \<le> max (c * a) (d * a)"
    using mult_between [OF assms(3,4)] by auto
  have 3: "min (c * b) (d * b) \<le> y * b" "y * b \<le> max (c * b) (d * b)"
    using mult_between [OF assms(3,4)] by auto
  show "min (min (a * c) (a * d)) (min (b * c) (b * d)) \<le> x * y"
    using 1(1) 2(1) 3(1) by (simp add: mult.commute min_def split: if_splits)
  show "x * y \<le> max (max (a * c) (a * d)) (max (b * c) (b * d))"
    using 1(2) 2(2) 3(2) by (simp add: mult.commute max_def split: if_splits)
qed

lemma prod_bounds:
  fixes X Y :: real
  assumes "of_int a \<le> X" "X \<le> of_int b" "of_int c \<le> Y" "Y \<le> of_int d"
  shows "of_int (prod_lo a b c d) \<le> X * Y" and "X * Y \<le> of_int (prod_hi a b c d)"
proof -
  have g: "of_int (min (min (a * c) (a * d)) (min (b * c) (b * d))) \<le> X * Y"
    "X * Y \<le> of_int (max (max (a * c) (a * d)) (max (b * c) (b * d)))"
    using mult_interval [OF assms] by (simp_all add: of_int_min of_int_max)
  show "of_int (prod_lo a b c d) \<le> X * Y"
  proof (cases "0 \<le> c")
    case False then show ?thesis using g by (simp add: prod_lo_def)
  next
    case True
    then have Y: "0 \<le> Y" using assms(3) by linarith
    show ?thesis
    proof (cases "0 \<le> a")
      case True
      have "of_int a * of_int c \<le> X * Y"
        using assms True \<open>0 \<le> c\<close> by (intro mult_mono) auto
      then show ?thesis using True \<open>0 \<le> c\<close> by (simp add: prod_lo_def)
    next
      case False
      have "of_int a * of_int d \<le> of_int a * Y"
        using assms(4) False by (intro mult_left_mono_neg) auto
      also have "\<dots> \<le> X * Y" using assms(1) Y by (intro mult_right_mono) auto
      finally show ?thesis using False \<open>0 \<le> c\<close> by (simp add: prod_lo_def)
    qed
  qed
  show "X * Y \<le> of_int (prod_hi a b c d)"
  proof (cases "0 \<le> c")
    case False then show ?thesis using g by (simp add: prod_hi_def)
  next
    case True
    then have Y: "0 \<le> Y" using assms(3) by linarith
    show ?thesis
    proof (cases "0 \<le> b")
      case True
      have "X * Y \<le> of_int b * Y" using assms(2) Y by (intro mult_right_mono) auto
      also have "\<dots> \<le> of_int b * of_int d"
        using assms(4) True by (intro mult_left_mono) auto
      finally show ?thesis using True \<open>0 \<le> c\<close> by (simp add: prod_hi_def)
    next
      case False
      have "X * Y \<le> of_int b * Y" using assms(2) Y by (intro mult_right_mono) auto
      also have "\<dots> \<le> of_int b * of_int c"
        using assms(3) False by (intro mult_left_mono_neg) auto
      finally show ?thesis using False \<open>0 \<le> c\<close> by (simp add: prod_hi_def)
    qed
  qed
qed

lemma ival_mul_prod:
  "ival_mul k (Some (a, b)) (Some (c, d)) =
     ival_check (round_down k (prod_lo a b c d)) (round_up k (prod_hi a b c d))"
  by (simp add: prod_lo_def prod_hi_def)

lemma encl_opt_mul:
  assumes "encl_opt k I u" and "encl_opt k J v"
  shows "encl_opt k (ival_mul k I J) (u * v)"
proof (cases I)
  case None then show ?thesis by simp
next
  case (Some ab)
  show ?thesis
  proof (cases J)
    case None then show ?thesis by (cases I) auto
  next
    case (Some cd)
    obtain a b c d where [simp]: "ab = (a, b)" "cd = (c, d)" by (cases ab; cases cd) auto
    obtain x y where xy: "u = Fin x" "v = Fin y"
      "of_int a \<le> x * 2 ^ k" "x * 2 ^ k \<le> of_int b"
      "of_int c \<le> y * 2 ^ k" "y * 2 ^ k \<le> of_int d"
      using assms \<open>I = Some ab\<close> Some by (auto dest!: encl_opt_cases)
    have e: "(x * 2 ^ k) * (y * 2 ^ k) = (x * y * 2 ^ k) * 2 ^ k" by simp
    have "of_int (round_down k (prod_lo a b c d)) * 2 ^ k \<le> (x * y * 2 ^ k) * 2 ^ k"
      using round_down_le [of k "prod_lo a b c d"] prod_bounds(1) [OF xy(3-6)]
      unfolding e by linarith
    then have lo: "of_int (round_down k (prod_lo a b c d)) \<le> x * y * 2 ^ k" by simp
    have "(x * y * 2 ^ k) * 2 ^ k \<le> of_int (round_up k (prod_hi a b c d)) * 2 ^ k"
      using round_up_ge [of "prod_hi a b c d" k] prod_bounds(2) [OF xy(3-6)]
      unfolding e by linarith
    then have hi: "x * y * 2 ^ k \<le> of_int (round_up k (prod_hi a b c d))" by simp
    show ?thesis
      using \<open>I = Some ab\<close> Some xy(1,2) encl_check [OF lo hi]
      by (simp add: times_Fin ival_mul_prod del: ival_mul.simps)
  qed
qed

lemma encl_opt_final:
  "encl_opt k I u \<Longrightarrow> ival_within k lo hi I \<Longrightarrow> encl lo hi u"
proof (cases I; cases u)
  fix lh x assume a: "encl_opt k I u" "ival_within k lo hi I" "I = Some lh" "u = Fin x"
  obtain l h where [simp]: "lh = (l, h)" by (cases lh)
  have b: "lo * 2 ^ k \<le> of_int l" "of_int l \<le> x * 2 ^ k" "x * 2 ^ k \<le> of_int h"
    "of_int h \<le> hi * 2 ^ k" using a by auto
  have "lo * 2 ^ k \<le> x * 2 ^ k" "x * 2 ^ k \<le> hi * 2 ^ k" using b by linarith+
  then have "lo \<le> x" "x \<le> hi" by simp_all
  then show "encl lo hi u" using a(4) by simp
qed auto


lemma int_div_le: "0 < q \<Longrightarrow> real_of_int (p div q) \<le> of_int p / of_int q"
proof -
  have "real_of_int \<lfloor>real_of_int p / real_of_int q\<rfloor> \<le> of_int p / of_int q" by (rule of_int_floor_le)
  then show ?thesis by (simp add: floor_divide_of_int_eq)
qed

lemma int_div_ge: "0 < q \<Longrightarrow> of_int p / of_int q \<le> real_of_int (- (- p div q))"
  using int_div_le [of q "- p"] by simp

lemma quot_bounds:
  fixes X Y S :: real
  assumes "of_int a \<le> X" "X \<le> of_int b" "of_int c \<le> Y" "Y \<le> of_int d" "0 < c"
    and S: "S = of_int s" "0 < s"
  shows "of_int (if 0 \<le> a then (a * s) div d else (a * s) div c) \<le> X * S / Y"
    and "X * S / Y \<le> of_int (if 0 \<le> b then - (- (b * s) div c) else - (- (b * s) div d))"
proof -
  have Y: "0 < Y" "0 < d" "0 < real_of_int c" "0 < real_of_int d"
    using assms(3,4,5) by linarith+
  have S0: "0 < S" using S by simp
  have aX: "of_int (a * s) \<le> X * S" "X * S \<le> of_int (b * s)"
    using assms(1,2) S0 S(1) by simp_all
  show "of_int (if 0 \<le> a then (a * s) div d else (a * s) div c) \<le> X * S / Y"
  proof (cases "0 \<le> a")
    case True
    then have "0 \<le> real_of_int (a * s)" using S(2) by simp
    then have "of_int (a * s) / of_int d \<le> X * S / Y"
      using aX(1) Y(1) assms(4) by (intro frac_le) auto
    then show ?thesis using True int_div_le [OF Y(2), of "a * s"] by simp
  next
    case False
    then have n: "real_of_int (a * s) \<le> 0" using S(2) by (simp add: mult_le_0_iff)
    have "of_int (a * s) / of_int c \<le> of_int (a * s) / Y"
      using assms(3) n Y by (intro divide_left_mono_neg) auto
    also have "\<dots> \<le> X * S / Y" using aX(1) Y(1) by (intro divide_right_mono) auto
    finally show ?thesis using False int_div_le [OF assms(5), of "a * s"] by simp
  qed
  show "X * S / Y \<le> of_int (if 0 \<le> b then - (- (b * s) div c) else - (- (b * s) div d))"
  proof (cases "0 \<le> b")
    case True
    then have p: "0 \<le> real_of_int (b * s)" using S(2) by simp
    have "X * S / Y \<le> of_int (b * s) / Y" using aX(2) Y(1) by (intro divide_right_mono) auto
    also have "\<dots> \<le> of_int (b * s) / of_int c"
      using assms(3) p Y by (intro divide_left_mono) auto
    finally show ?thesis using True int_div_ge [OF assms(5), of "b * s"] by simp
  next
    case False
    then have n: "real_of_int (b * s) \<le> 0" using S(2) by (simp add: mult_le_0_iff)
    have "X * S / Y \<le> of_int (b * s) / Y" using aX(2) Y(1) by (intro divide_right_mono) auto
    also have "\<dots> \<le> of_int (b * s) / of_int d"
      using assms(4) n Y by (intro divide_left_mono_neg) auto
    finally show ?thesis using False int_div_ge [OF Y(2), of "b * s"] by simp
  qed
qed

lemma encl_opt_div:
  assumes "encl_opt k I u" and "encl_opt k J v"
  shows "encl_opt k (ival_div k I J) (u / v)"
proof (cases I)
  case None then show ?thesis by simp
next
  case (Some ab)
  show ?thesis
  proof (cases J)
    case None then show ?thesis by (cases I) auto
  next
    case (Some cd)
    obtain a b c d where [simp]: "ab = (a, b)" "cd = (c, d)" by (cases ab; cases cd) auto
    obtain x y where xy: "u = Fin x" "v = Fin y"
      "of_int a \<le> x * 2 ^ k" "x * 2 ^ k \<le> of_int b"
      "of_int c \<le> y * 2 ^ k" "y * 2 ^ k \<le> of_int d"
      using assms \<open>I = Some ab\<close> Some by (auto dest!: encl_opt_cases)
    show ?thesis
    proof (cases "0 < c")
      case False
      then show ?thesis using \<open>I = Some ab\<close> Some by simp
    next
      case True
      then have "0 < y * 2 ^ k" using xy(5) by linarith
      then have y: "y \<noteq> 0" by auto
      have e: "x * 2 ^ k * 2 ^ k / (y * 2 ^ k) = x / y * 2 ^ k" using y by simp
      have S: "(2::real) ^ k = of_int (2 ^ k)" "(0::int) < 2 ^ k" by simp_all
      note q = quot_bounds [OF xy(3-6) True S, unfolded e]
      show ?thesis
        using \<open>I = Some ab\<close> Some xy(1,2) True y encl_check [OF q]
        by (auto simp add: divide_Fin push_bit_eq_mult)
    qed
  qed
qed

lemma encl_opt_encl:
  assumes "encl lo hi v"
  shows "encl_opt k (ival_encl k lo hi) v"
proof -
  obtain x where x: "v = Fin x" "lo \<le> x" "x \<le> hi" using assms by (cases v) auto
  have "of_int \<lfloor>lo * 2 ^ k\<rfloor> \<le> lo * 2 ^ k" by (rule of_int_floor_le)
  also have "\<dots> \<le> x * 2 ^ k" using x(2) by simp
  finally have 1: "of_int \<lfloor>lo * 2 ^ k\<rfloor> \<le> x * 2 ^ k" .
  have "x * 2 ^ k \<le> hi * 2 ^ k" using x(3) by simp
  also have "\<dots> \<le> of_int (\<lfloor>hi * 2 ^ k\<rfloor> + 1)" by linarith
  finally have 2: "x * 2 ^ k \<le> of_int (\<lfloor>hi * 2 ^ k\<rfloor> + 1)" .
  show ?thesis
  proof (cases "ival_encl k lo hi")
    case None then show ?thesis by simp
  next
    case (Some lh)
    then have "ival_encl k lo hi = Some (\<lfloor>lo * 2 ^ k\<rfloor>, \<lfloor>hi * 2 ^ k\<rfloor> + 1)"
      by (auto simp: ival_encl_def ival_check_def split: if_splits)
    then show ?thesis using x(1) 1 2 by simp
  qed
qed

lemmas encl_opt_intros = encl_opt_add encl_opt_mul encl_opt_div encl_opt_const

lemmas ival_eval =
  ival_const_def ival_encl_def ival_check_def ival_bound_num round_down_def round_up_def Let_def

section \<open>The check point\<close>

text \<open>
  The documented check point is \<open>SA = 30\<close>, \<open>CT = 10\<close>, \<open>p = 1000\<close>.  There \<open>tt = 1/4\<close> and
  \<open>pp = 1/10\<close>, and \<open>ss\<close> is the square root of \<open>62 / SAu\<close>, enclosed at scale \<open>2 ^ 50\<close>.
\<close>

lemma reduced_tt_check: "reduced_tt (Fin 10) = Fin (1 / 4)"
  by (simp add: reduced_tt_def fl_eval)

lemma reduced_pp_check: "reduced_pp (Fin 1000) = Fin (1 / 10)"
  by (simp add: reduced_pp_def fl_eval)

lemma reduced_ss_check:
  "encl_opt 50 (Some (1398440833527581, 1398440833527582)) (reduced_ss (Fin 30))"
proof -
  have q: "(30 + 32) / SAu_real = 678125 / 439563" by (simp add: SAu_real_def)
  have lo: "1398440833527581 / 2 ^ 50 \<le> sqrt (678125 / 439563)"
    by (rule real_le_rsqrt) (simp add: power2_eq_square)
  have hi: "sqrt (678125 / 439563) \<le> 1398440833527582 / 2 ^ 50"
    by (rule real_le_lsqrt) (simp_all add: power2_eq_square)
  have "reduced_ss (Fin 30) \<noteq> PInf"
    by (simp add: reduced_ss_def plus_Fin overflow_million divide_Fin SAu_real_def)
  then have "reduced_ss (Fin 30) = Fin (sqrt (678125 / 439563))"
    using reduced_ss_above [of 30] unfolding q by simp
  then show ?thesis using lo hi by (simp add: field_simps)
qed

lemma bsq_check_r0:
  "encl 4.5976303508 4.59763035081 (bsq_r0 (Fin (1 / 10)))"
  apply (rule encl_opt_final [where k = 50])
   apply (unfold bsq_r0_def coef)
   apply (rule encl_opt_intros)+
  apply (simp add: ival_eval)
  done

lemma bsq_check_r:
  assumes "encl_opt 50 (Some (1398440833527581, 1398440833527582)) ss"
  shows "encl 1022.8537708207 1022.8537708208 
     (((bsq_rz3 ss (Fin (1 / 4)) * Fin (1 / 10) + bsq_rz2 ss (Fin (1 / 4))) * Fin (1 / 10) + bsq_rz1 ss (Fin (1 / 4))) * Fin (1 / 10) + bsq_rz0 ss (Fin (1 / 4)))"
  apply (rule encl_opt_final [where k = 50])
   apply (unfold bsq_rz3_def bsq_rz2_def bsq_rz1_def bsq_rz0_def coef)
   apply (rule encl_opt_intros assms)+
  apply (simp add: ival_eval)
  done

lemma bsq_check_a:
  assumes "encl_opt 50 (Some (1398440833527581, 1398440833527582)) ss"
  shows "encl 0.179646281329 0.17964628133 
     (bsq_a_raw ss (Fin (1 / 4)) (Fin (1 / 10)))"
  apply (rule encl_opt_final [where k = 50])
   apply (unfold bsq_a_raw_def coef)
   apply (rule encl_opt_intros assms)+
  apply (simp add: ival_eval)
  done

lemma bsq_check_b:
  assumes "encl_opt 50 (Some (1398440833527581, 1398440833527582)) ss"
  shows "encl 0.950869504953 0.950869504955 
     (bsq_b_raw ss (Fin (1 / 4)) (Fin (1 / 10)))"
  apply (rule encl_opt_final [where k = 50])
   apply (unfold bsq_b_raw_def coef)
   apply (rule encl_opt_intros assms)+
  apply (simp add: ival_eval)
  done

lemma bsq_check_combine:
  assumes ss: "encl_opt 50 (Some (1398440833527581, 1398440833527582)) ss"
    and r0: "encl 4.5976303508 4.59763035081 r0"
    and r: "encl 1022.8537708207 1022.8537708208 r"
    and a: "encl 0.179646281329 0.17964628133 a"
    and b: "encl 0.950869504953 0.950869504955 b"
  shows "encl 1027.4514011 1027.4514012 (r + r0)"
    and "encl 0.765555368 0.7655553681 (b / ss)"
proof -
  note l = ss encl_opt_encl [OF r0, of 50] encl_opt_encl [OF r, of 50]
    encl_opt_encl [OF a, of 50] encl_opt_encl [OF b, of 50]
  show "encl 1027.4514011 1027.4514012 (r + r0)"
    apply (rule encl_opt_final [where k = 50])
     apply (rule l encl_opt_intros)+
    apply (simp add: ival_eval)
    done
  show "encl 0.765555368 0.7655553681 (b / ss)"
    apply (rule encl_opt_final [where k = 50])
     apply (rule l encl_opt_intros)+
    apply (simp add: ival_eval)
    done
qed

lemma bsq_check:
  "\<exists>rho a b r0 r.
     polyTEOS10_bsq (Fin 30) (Fin 10) (Fin 1000) = Inr (rho, a, b, r0, r) \<and>
     encl 1027.4514011 1027.4514012 rho \<and>
     encl 0.179646281329 0.17964628133 a \<and>
     encl 0.765555368 0.7655553681 b \<and>
     encl 4.5976303508 4.59763035081 r0 \<and>
     encl 1022.8537708207 1022.8537708208 r"
  unfolding bsq_reduced reduced_tt_check reduced_pp_check Let_def
  using bsq_check_combine [OF reduced_ss_check bsq_check_r0 bsq_check_r [OF reduced_ss_check]
      bsq_check_a [OF reduced_ss_check] bsq_check_b [OF reduced_ss_check]]
    bsq_check_r0 bsq_check_r [OF reduced_ss_check] bsq_check_a [OF reduced_ss_check]
  by simp

lemma stif_check_r1:
  "encl 1.00447333497 1.00447333498 (stif_r1 (Fin (1 / 10)))"
  apply (rule encl_opt_final [where k = 50])
   apply (unfold stif_r1_def coef)
   apply (rule encl_opt_intros)+
  apply (simp add: ival_eval)
  done

lemma stif_check_rdot:
  assumes "encl_opt 50 (Some (1398440833527581, 1398440833527582)) ss"
  shows "encl 1022.8757380822 1022.8757380823 
     (((stif_rz3 ss (Fin (1 / 4)) * Fin (1 / 10) + stif_rz2 ss (Fin (1 / 4))) * Fin (1 / 10) + stif_rz1 ss (Fin (1 / 4))) * Fin (1 / 10) + stif_rz0 ss (Fin (1 / 4)))"
  apply (rule encl_opt_final [where k = 50])
   apply (unfold stif_rz3_def stif_rz2_def stif_rz1_def stif_rz0_def coef)
   apply (rule encl_opt_intros assms)+
  apply (simp add: ival_eval)
  done

lemma stif_check_a:
  assumes "encl_opt 50 (Some (1398440833527581, 1398440833527582)) ss"
  shows "encl 0.17884935295 0.178849352951 
     (stif_a_raw ss (Fin (1 / 4)) (Fin (1 / 10)))"
  apply (rule encl_opt_final [where k = 50])
   apply (unfold stif_a_raw_def coef)
   apply (rule encl_opt_intros assms)+
  apply (simp add: ival_eval)
  done

lemma stif_check_b:
  assumes "encl_opt 50 (Some (1398440833527581, 1398440833527582)) ss"
  shows "encl 0.946633810615 0.946633810617 
     (stif_b_raw ss (Fin (1 / 4)) (Fin (1 / 10)))"
  apply (rule encl_opt_final [where k = 50])
   apply (unfold stif_b_raw_def coef)
   apply (rule encl_opt_intros assms)+
  apply (simp add: ival_eval)
  done

lemma stif_check_combine:
  assumes ss: "encl_opt 50 (Some (1398440833527581, 1398440833527582)) ss"
    and r1: "encl 1.00447333497 1.00447333498 r1"
    and rdot: "encl 1022.8757380822 1022.8757380823 rdot"
    and a: "encl 0.17884935295 0.178849352951 a"
    and b: "encl 0.946633810615 0.946633810617 b"
  shows "encl 1027.4514038 1027.451404 (r1 * rdot)"
    and "encl 0.179649406 0.1796494061 (r1 * a)"
    and "encl 0.7655544951 0.7655544952 (b * r1 / ss)"
proof -
  note l = ss encl_opt_encl [OF r1, of 50] encl_opt_encl [OF rdot, of 50]
    encl_opt_encl [OF a, of 50] encl_opt_encl [OF b, of 50]
  show "encl 1027.4514038 1027.451404 (r1 * rdot)"
    apply (rule encl_opt_final [where k = 50])
     apply (rule l encl_opt_intros)+
    apply (simp add: ival_eval)
    done
  show "encl 0.179649406 0.1796494061 (r1 * a)"
    apply (rule encl_opt_final [where k = 50])
     apply (rule l encl_opt_intros)+
    apply (simp add: ival_eval)
    done
  show "encl 0.7655544951 0.7655544952 (b * r1 / ss)"
    apply (rule encl_opt_final [where k = 50])
     apply (rule l encl_opt_intros)+
    apply (simp add: ival_eval)
    done
qed

lemma stif_check:
  "\<exists>rho a b r1 rdot.
     polyTEOS10_stif (Fin 30) (Fin 10) (Fin 1000) = Inr (rho, a, b, r1, rdot) \<and>
     encl 1027.4514038 1027.451404 rho \<and>
     encl 0.179649406 0.1796494061 a \<and>
     encl 0.7655544951 0.7655544952 b \<and>
     encl 1.00447333497 1.00447333498 r1 \<and>
     encl 1022.8757380822 1022.8757380823 rdot"
  unfolding stif_reduced reduced_tt_check reduced_pp_check Let_def
  using stif_check_combine [OF reduced_ss_check stif_check_r1 stif_check_rdot [OF reduced_ss_check]
      stif_check_a [OF reduced_ss_check] stif_check_b [OF reduced_ss_check]]
    stif_check_r1 stif_check_rdot [OF reduced_ss_check] stif_check_a [OF reduced_ss_check]
  by simp

lemma v55_check_v0:
  "encl (- 0.000004333016905) (- 0.000004333016903) (v55_v0 (Fin (1 / 10)))"
  apply (rule encl_opt_final [where k = 50])
   apply (unfold v55_v0_def coef)
   apply (rule encl_opt_intros)+
  apply (simp add: ival_eval)
  done

lemma v55_check_delta:
  assumes "encl_opt 50 (Some (1398440833527581, 1398440833527582)) ss"
  shows "encl 0.0009718437277 0.0009718437278 
     (((v55_vp3 ss (Fin (1 / 4)) * Fin (1 / 10) + v55_vp2 ss (Fin (1 / 4))) * Fin (1 / 10) + v55_vp1 ss (Fin (1 / 4))) * Fin (1 / 10) + v55_vp0 ss (Fin (1 / 4)))"
  apply (rule encl_opt_final [where k = 50])
   apply (unfold v55_vp3_def v55_vp2_def v55_vp1_def v55_vp0_def coef)
   apply (rule encl_opt_intros assms)+
  apply (simp add: ival_eval)
  done

lemma v55_check_a:
  assumes "encl_opt 50 (Some (1398440833527581, 1398440833527582)) ss"
  shows "encl 0.0000001868905492 0.0000001868905706 
     (v55_a_raw ss (Fin (1 / 4)) (Fin (1 / 10)))"
  apply (rule encl_opt_final [where k = 50])
   apply (unfold v55_a_raw_def v55_ap3_def v55_ap2_def v55_ap1_def v55_ap0_def coef)
   apply (rule encl_opt_intros assms)+
  apply (simp add: ival_eval)
  done

lemma v55_check_b:
  assumes "encl_opt 50 (Some (1398440833527581, 1398440833527582)) ss"
  shows "encl 0.0000008914039248 0.0000008914039498 
     (v55_b_raw ss (Fin (1 / 4)) (Fin (1 / 10)))"
  apply (rule encl_opt_final [where k = 50])
   apply (unfold v55_b_raw_def v55_bp3_def v55_bp2_def v55_bp1_def v55_bp0_def coef)
   apply (rule encl_opt_intros assms)+
  apply (simp add: ival_eval)
  done

lemma v55_check_combine:
  assumes ss: "encl_opt 50 (Some (1398440833527581, 1398440833527582)) ss"
    and v0: "encl (- 0.000004333016905) (- 0.000004333016903) v0"
    and delta: "encl 0.0009718437277 0.0009718437278 delta"
    and a: "encl 0.0000001868905492 0.0000001868905706 a"
    and b: "encl 0.0000008914039248 0.0000008914039498 b"
  shows "encl 0.00096751071 0.00096751072 (v0 + delta)"
    and "encl 0.00019316638 0.00019316642 (a / (v0 + delta))"
    and "encl 0.00074177884 0.00074177888 (b / ss / (v0 + delta))"
proof -
  note l = ss encl_opt_encl [OF v0, of 50] encl_opt_encl [OF delta, of 50]
    encl_opt_encl [OF a, of 50] encl_opt_encl [OF b, of 50]
  show "encl 0.00096751071 0.00096751072 (v0 + delta)"
    apply (rule encl_opt_final [where k = 50])
     apply (rule l encl_opt_intros)+
    apply (simp add: ival_eval)
    done
  show "encl 0.00019316638 0.00019316642 (a / (v0 + delta))"
    apply (rule encl_opt_final [where k = 50])
     apply (rule l encl_opt_intros)+
    apply (simp add: ival_eval)
    done
  show "encl 0.00074177884 0.00074177888 (b / ss / (v0 + delta))"
    apply (rule encl_opt_final [where k = 50])
     apply (rule l encl_opt_intros)+
    apply (simp add: ival_eval)
    done
qed

lemma v55_check:
  "\<exists>specvol alpha beta v0 delta.
     polyTEOS10_55t (Fin 30) (Fin 10) (Fin 1000) = Inr (specvol, alpha, beta, v0, delta) \<and>
     encl 0.00096751071 0.00096751072 specvol \<and>
     encl 0.00019316638 0.00019316642 alpha \<and>
     encl 0.00074177884 0.00074177888 beta \<and>
     encl (- 0.000004333016905) (- 0.000004333016903) v0 \<and>
     encl 0.0009718437277 0.0009718437278 delta"
  unfolding v55_reduced reduced_tt_check reduced_pp_check Let_def
  using v55_check_combine [OF reduced_ss_check v55_check_v0 v55_check_delta [OF reduced_ss_check]
      v55_check_a [OF reduced_ss_check] v55_check_b [OF reduced_ss_check]]
    v55_check_v0 v55_check_delta [OF reduced_ss_check]
  by (simp add: v55_a_raw_def v55_b_raw_def)

lemma v75_check_v0:
  "encl (- 0.000004333016905) (- 0.000004333016903) (v75_v0 (Fin (1 / 10)))"
  apply (rule encl_opt_final [where k = 50])
   apply (unfold v75_v0_def coef)
   apply (rule encl_opt_intros)+
  apply (simp add: ival_eval)
  done

lemma v75_check_delta:
  assumes "encl_opt 50 (Some (1398440833527581, 1398440833527582)) ss"
  shows "encl 0.0009718434913 0.0009718434914 
     (((((v75_vp5 * Fin (1 / 10) + v75_vp4 ss (Fin (1 / 4))) * Fin (1 / 10) + v75_vp3 ss (Fin (1 / 4))) * Fin (1 / 10) + v75_vp2 ss (Fin (1 / 4))) * Fin (1 / 10) + v75_vp1 ss (Fin (1 / 4))) * Fin (1 / 10) + v75_vp0 ss (Fin (1 / 4)))"
  apply (rule encl_opt_final [where k = 50])
   apply (unfold v75_vp5_def v75_vp4_def v75_vp3_def v75_vp2_def v75_vp1_def v75_vp0_def coef)
   apply (rule encl_opt_intros assms)+
  apply (simp add: ival_eval)
  done

lemma v75_check_a:
  assumes "encl_opt 50 (Some (1398440833527581, 1398440833527582)) ss"
  shows "encl 0.000000186888962 0.0000001868889852 
     (v75_a_raw ss (Fin (1 / 4)) (Fin (1 / 10)))"
  apply (rule encl_opt_final [where k = 50])
   apply (unfold v75_a_raw_def v75_ap4_def v75_ap3_def v75_ap2_def v75_ap1_def v75_ap0_def coef)
   apply (rule encl_opt_intros assms)+
  apply (simp add: ival_eval)
  done

lemma v75_check_b:
  assumes "encl_opt 50 (Some (1398440833527581, 1398440833527582)) ss"
  shows "encl 0.000000891418554 0.0000008914185772 
     (v75_b_raw ss (Fin (1 / 4)) (Fin (1 / 10)))"
  apply (rule encl_opt_final [where k = 50])
   apply (unfold v75_b_raw_def v75_bp4_def v75_bp3_def v75_bp2_def v75_bp1_def v75_bp0_def coef)
   apply (rule encl_opt_intros assms)+
  apply (simp add: ival_eval)
  done

lemma v75_check_combine:
  assumes ss: "encl_opt 50 (Some (1398440833527581, 1398440833527582)) ss"
    and v0: "encl (- 0.000004333016905) (- 0.000004333016903) v0"
    and delta: "encl 0.0009718434913 0.0009718434914 delta"
    and a: "encl 0.000000186888962 0.0000001868889852 a"
    and b: "encl 0.000000891418554 0.0000008914185772 b"
  shows "encl 0.00096751047 0.00096751048 (v0 + delta)"
    and "encl 0.00019316479 0.00019316482 (a / (v0 + delta))"
    and "encl 0.0007417912 0.00074179123 (b / ss / (v0 + delta))"
proof -
  note l = ss encl_opt_encl [OF v0, of 50] encl_opt_encl [OF delta, of 50]
    encl_opt_encl [OF a, of 50] encl_opt_encl [OF b, of 50]
  show "encl 0.00096751047 0.00096751048 (v0 + delta)"
    apply (rule encl_opt_final [where k = 50])
     apply (rule l encl_opt_intros)+
    apply (simp add: ival_eval)
    done
  show "encl 0.00019316479 0.00019316482 (a / (v0 + delta))"
    apply (rule encl_opt_final [where k = 50])
     apply (rule l encl_opt_intros)+
    apply (simp add: ival_eval)
    done
  show "encl 0.0007417912 0.00074179123 (b / ss / (v0 + delta))"
    apply (rule encl_opt_final [where k = 50])
     apply (rule l encl_opt_intros)+
    apply (simp add: ival_eval)
    done
qed

lemma v75_check:
  "\<exists>specvol alpha beta v0 delta.
     polyTEOS10_75t (Fin 30) (Fin 10) (Fin 1000) = Inr (specvol, alpha, beta, v0, delta) \<and>
     encl 0.00096751047 0.00096751048 specvol \<and>
     encl 0.00019316479 0.00019316482 alpha \<and>
     encl 0.0007417912 0.00074179123 beta \<and>
     encl (- 0.000004333016905) (- 0.000004333016903) v0 \<and>
     encl 0.0009718434913 0.0009718434914 delta"
  unfolding v75_reduced reduced_tt_check reduced_pp_check Let_def
  using v75_check_combine [OF reduced_ss_check v75_check_v0 v75_check_delta [OF reduced_ss_check]
      v75_check_a [OF reduced_ss_check] v75_check_b [OF reduced_ss_check]]
    v75_check_v0 v75_check_delta [OF reduced_ss_check]
  by (simp add: v75_a_raw_def v75_b_raw_def)

section \<open>Derivative outputs of the specific-volume evaluators\<close>

lemma finite_fl_iff: "finite_fl u \<longleftrightarrow> (\<exists>r. u = Fin r)"
  by (cases u) simp_all

lemma encl_finite: "encl lo hi u \<Longrightarrow> finite_fl u"
  by (cases u) simp_all

lemma v55_outputs:
  assumes "- 32 < x"
  shows "\<exists>specvol alpha beta v0 delta.
     polyTEOS10_55t (Fin x) CT p = Inr (specvol, alpha, beta, v0, delta) \<and>
     specvol = v0 + delta \<and>
     alpha = v55_a_raw (reduced_ss (Fin x)) (reduced_tt CT) (reduced_pp p) / specvol \<and>
     beta = v55_b_raw (reduced_ss (Fin x)) (reduced_tt CT) (reduced_pp p)
              / reduced_ss (Fin x) / specvol \<and>
     (finite_fl specvol \<and> finite_fl alpha \<and> finite_fl beta \<longrightarrow>
        (\<exists>v s a_raw b_raw. specvol = Fin v \<and> s = sqrt ((x + 32) / SAu_real) \<and> 0 < s \<and>
           reduced_ss (Fin x) = Fin s \<and>
           v55_a_raw (Fin s) (reduced_tt CT) (reduced_pp p) = Fin a_raw \<and>
           v55_b_raw (Fin s) (reduced_tt CT) (reduced_pp p) = Fin b_raw \<and>
           alpha = Fin (a_raw / v) \<and> beta = Fin (b_raw / (s * v))))"
proof -
  let ?ss = "reduced_ss (Fin x)" and ?tt = "reduced_tt CT" and ?pp = "reduced_pp p"
  define v0 where "v0 = v55_v0 ?pp"
  define delta where
    "delta = ((v55_vp3 ?ss ?tt * ?pp + v55_vp2 ?ss ?tt) * ?pp + v55_vp1 ?ss ?tt) * ?pp
               + v55_vp0 ?ss ?tt"
  define specvol where "specvol = v0 + delta"
  define alpha where "alpha = v55_a_raw ?ss ?tt ?pp / specvol"
  define beta where "beta = v55_b_raw ?ss ?tt ?pp / ?ss / specvol"
  have e: "polyTEOS10_55t (Fin x) CT p = Inr (specvol, alpha, beta, v0, delta)"
    unfolding v55_reduced v55_a_raw_def v55_b_raw_def alpha_def beta_def specvol_def v0_def
      delta_def
    by (simp add: Let_def)
  have f: "finite_fl specvol \<and> finite_fl alpha \<and> finite_fl beta \<longrightarrow>
        (\<exists>v s a_raw b_raw. specvol = Fin v \<and> s = sqrt ((x + 32) / SAu_real) \<and> 0 < s \<and>
           reduced_ss (Fin x) = Fin s \<and>
           v55_a_raw (Fin s) (reduced_tt CT) (reduced_pp p) = Fin a_raw \<and>
           v55_b_raw (Fin s) (reduced_tt CT) (reduced_pp p) = Fin b_raw \<and>
           alpha = Fin (a_raw / v) \<and> beta = Fin (b_raw / (s * v)))"
  proof (intro impI, elim conjE)
    assume "finite_fl specvol" "finite_fl alpha" "finite_fl beta"
    then obtain v al be where o: "specvol = Fin v" "alpha = Fin al" "beta = Fin be"
      unfolding finite_fl_iff by blast
    from v55_normalised [OF assms e [unfolded o]] o
    show "\<exists>v s a_raw b_raw. specvol = Fin v \<and> s = sqrt ((x + 32) / SAu_real) \<and> 0 < s \<and>
           reduced_ss (Fin x) = Fin s \<and>
           v55_a_raw (Fin s) (reduced_tt CT) (reduced_pp p) = Fin a_raw \<and>
           v55_b_raw (Fin s) (reduced_tt CT) (reduced_pp p) = Fin b_raw \<and>
           alpha = Fin (a_raw / v) \<and> beta = Fin (b_raw / (s * v))"
      by blast
  qed
  show ?thesis
    apply (intro exI conjI)
        apply (rule e)
       apply (rule specvol_def)
      apply (rule alpha_def)
     apply (rule beta_def)
    apply (rule f)
    done
qed

lemma v75_outputs:
  assumes "- 32 < x"
  shows "\<exists>specvol alpha beta v0 delta.
     polyTEOS10_75t (Fin x) CT p = Inr (specvol, alpha, beta, v0, delta) \<and>
     specvol = v0 + delta \<and>
     alpha = v75_a_raw (reduced_ss (Fin x)) (reduced_tt CT) (reduced_pp p) / specvol \<and>
     beta = v75_b_raw (reduced_ss (Fin x)) (reduced_tt CT) (reduced_pp p)
              / reduced_ss (Fin x) / specvol \<and>
     (finite_fl specvol \<and> finite_fl alpha \<and> finite_fl beta \<longrightarrow>
        (\<exists>v s a_raw b_raw. specvol = Fin v \<and> s = sqrt ((x + 32) / SAu_real) \<and> 0 < s \<and>
           reduced_ss (Fin x) = Fin s \<and>
           v75_a_raw (Fin s) (reduced_tt CT) (reduced_pp p) = Fin a_raw \<and>
           v75_b_raw (Fin s) (reduced_tt CT) (reduced_pp p) = Fin b_raw \<and>
           alpha = Fin (a_raw / v) \<and> beta = Fin (b_raw / (s * v))))"
proof -
  let ?ss = "reduced_ss (Fin x)" and ?tt = "reduced_tt CT" and ?pp = "reduced_pp p"
  define v0 where "v0 = v75_v0 ?pp"
  define delta where
    "delta = ((((v75_vp5 * ?pp + v75_vp4 ?ss ?tt) * ?pp + v75_vp3 ?ss ?tt) * ?pp
                 + v75_vp2 ?ss ?tt) * ?pp + v75_vp1 ?ss ?tt) * ?pp + v75_vp0 ?ss ?tt"
  define specvol where "specvol = v0 + delta"
  define alpha where "alpha = v75_a_raw ?ss ?tt ?pp / specvol"
  define beta where "beta = v75_b_raw ?ss ?tt ?pp / ?ss / specvol"
  have e: "polyTEOS10_75t (Fin x) CT p = Inr (specvol, alpha, beta, v0, delta)"
    unfolding v75_reduced v75_a_raw_def v75_b_raw_def alpha_def beta_def specvol_def v0_def
      delta_def
    by (simp add: Let_def)
  have f: "finite_fl specvol \<and> finite_fl alpha \<and> finite_fl beta \<longrightarrow>
        (\<exists>v s a_raw b_raw. specvol = Fin v \<and> s = sqrt ((x + 32) / SAu_real) \<and> 0 < s \<and>
           reduced_ss (Fin x) = Fin s \<and>
           v75_a_raw (Fin s) (reduced_tt CT) (reduced_pp p) = Fin a_raw \<and>
           v75_b_raw (Fin s) (reduced_tt CT) (reduced_pp p) = Fin b_raw \<and>
           alpha = Fin (a_raw / v) \<and> beta = Fin (b_raw / (s * v)))"
  proof (intro impI, elim conjE)
    assume "finite_fl specvol" "finite_fl alpha" "finite_fl beta"
    then obtain v al be where o: "specvol = Fin v" "alpha = Fin al" "beta = Fin be"
      unfolding finite_fl_iff by blast
    from v75_normalised [OF assms e [unfolded o]] o
    show "\<exists>v s a_raw b_raw. specvol = Fin v \<and> s = sqrt ((x + 32) / SAu_real) \<and> 0 < s \<and>
           reduced_ss (Fin x) = Fin s \<and>
           v75_a_raw (Fin s) (reduced_tt CT) (reduced_pp p) = Fin a_raw \<and>
           v75_b_raw (Fin s) (reduced_tt CT) (reduced_pp p) = Fin b_raw \<and>
           alpha = Fin (a_raw / v) \<and> beta = Fin (b_raw / (s * v))"
      by blast
  qed
  show ?thesis
    apply (intro exI conjI)
        apply (rule e)
       apply (rule specvol_def)
      apply (rule alpha_def)
     apply (rule beta_def)
    apply (rule f)
    done
qed

lemma bsq_derivatives:
  "\<exists>rho a b r0 r. polyTEOS10_bsq SA CT p = Inr (rho, a, b, r0, r) \<and>
     a = bsq_a_raw (reduced_ss SA) (reduced_tt CT) (reduced_pp p) \<and>
     b = bsq_b_raw (reduced_ss SA) (reduced_tt CT) (reduced_pp p) / reduced_ss SA"
  by (simp add: bsq_reduced Let_def)

lemma stif_derivatives:
  "\<exists>rho a b r1 rdot. polyTEOS10_stif SA CT p = Inr (rho, a, b, r1, rdot) \<and>
     a = r1 * stif_a_raw (reduced_ss SA) (reduced_tt CT) (reduced_pp p) \<and>
     b = stif_b_raw (reduced_ss SA) (reduced_tt CT) (reduced_pp p) * r1 / reduced_ss SA"
  by (simp add: stif_reduced Let_def)

text \<open>
  Claim C7.  For every input with \<open>SA > -32\<close> (and any \<open>CT\<close>, \<open>p\<close>, finite or not), each of the
  two specific-volume evaluators returns outputs with \<open>specvol = v0 + delta\<close>,
  \<open>alpha = a_raw / specvol\<close> and \<open>beta = b_raw / ss / specvol\<close>, where \<open>a_raw\<close> and \<open>b_raw\<close> are
  the raw derivative polynomials at the reduced variables and the operations are those of the
  floating-point format, in the order of the code.  Whenever the three outputs are finite
  numbers, the reduced salinity is the positive real \<open>s = sqrt ((SA + 32) / SAu)\<close>, the raw
  polynomials have finite values, and \<open>alpha = a_raw / v\<close> and \<open>beta = b_raw / (s * v)\<close> hold of
  the real numbers, \<open>v\<close> being the value of \<open>v0 + delta\<close>.  The density evaluators, by
  contrast, do not divide by \<open>rho\<close>: in \<^verbatim>\<open>polyTEOS10_bsq\<close> \<open>a\<close> is the raw polynomial and \<open>b\<close>
  the raw polynomial divided by \<open>ss\<close> only; in \<^verbatim>\<open>polyTEOS10_stif\<close> they are these multiplied by
  \<open>r1\<close>.
\<close>

theorem derivatives_normalised_by_specvol:
  assumes "- 32 < x"
  shows
    "(\<exists>specvol alpha beta v0 delta.
       polyTEOS10_55t (Fin x) CT p = Inr (specvol, alpha, beta, v0, delta) \<and>
       specvol = v0 + delta \<and>
       alpha = v55_a_raw (reduced_ss (Fin x)) (reduced_tt CT) (reduced_pp p) / specvol \<and>
       beta = v55_b_raw (reduced_ss (Fin x)) (reduced_tt CT) (reduced_pp p)
                / reduced_ss (Fin x) / specvol \<and>
       (finite_fl specvol \<and> finite_fl alpha \<and> finite_fl beta \<longrightarrow>
          (\<exists>v s a_raw b_raw. specvol = Fin v \<and> s = sqrt ((x + 32) / SAu_real) \<and> 0 < s \<and>
             reduced_ss (Fin x) = Fin s \<and>
             v55_a_raw (Fin s) (reduced_tt CT) (reduced_pp p) = Fin a_raw \<and>
             v55_b_raw (Fin s) (reduced_tt CT) (reduced_pp p) = Fin b_raw \<and>
             alpha = Fin (a_raw / v) \<and> beta = Fin (b_raw / (s * v))))) \<and>
     (\<exists>specvol alpha beta v0 delta.
       polyTEOS10_75t (Fin x) CT p = Inr (specvol, alpha, beta, v0, delta) \<and>
       specvol = v0 + delta \<and>
       alpha = v75_a_raw (reduced_ss (Fin x)) (reduced_tt CT) (reduced_pp p) / specvol \<and>
       beta = v75_b_raw (reduced_ss (Fin x)) (reduced_tt CT) (reduced_pp p)
                / reduced_ss (Fin x) / specvol \<and>
       (finite_fl specvol \<and> finite_fl alpha \<and> finite_fl beta \<longrightarrow>
          (\<exists>v s a_raw b_raw. specvol = Fin v \<and> s = sqrt ((x + 32) / SAu_real) \<and> 0 < s \<and>
             reduced_ss (Fin x) = Fin s \<and>
             v75_a_raw (Fin s) (reduced_tt CT) (reduced_pp p) = Fin a_raw \<and>
             v75_b_raw (Fin s) (reduced_tt CT) (reduced_pp p) = Fin b_raw \<and>
             alpha = Fin (a_raw / v) \<and> beta = Fin (b_raw / (s * v))))) \<and>
     (\<exists>rho a b r0 r. polyTEOS10_bsq (Fin x) CT p = Inr (rho, a, b, r0, r) \<and>
        a = bsq_a_raw (reduced_ss (Fin x)) (reduced_tt CT) (reduced_pp p) \<and>
        b = bsq_b_raw (reduced_ss (Fin x)) (reduced_tt CT) (reduced_pp p)
              / reduced_ss (Fin x)) \<and>
     (\<exists>rho a b r1 rdot. polyTEOS10_stif (Fin x) CT p = Inr (rho, a, b, r1, rdot) \<and>
        a = r1 * stif_a_raw (reduced_ss (Fin x)) (reduced_tt CT) (reduced_pp p) \<and>
        b = stif_b_raw (reduced_ss (Fin x)) (reduced_tt CT) (reduced_pp p) * r1
              / reduced_ss (Fin x))"
  apply (intro conjI)
     apply (rule v55_outputs [OF assms])
    apply (rule v75_outputs [OF assms])
   apply (rule bsq_derivatives)
  apply (rule stif_derivatives)
  done

text \<open>
  The witness is the documented check point \<open>SA = 30\<close>, \<open>CT = 10\<close>, \<open>p = 1000\<close>, where
  \<open>ss\<close> is irrational, \<open>v0\<close> is not zero and all outputs are finite.
\<close>

theorem derivatives_normalised_by_specvol_witness:
  "(- 32 :: real) < 30 \<and>
   (\<exists>specvol alpha beta v0 delta v s a_raw b_raw.
       polyTEOS10_55t (Fin 30) (Fin 10) (Fin 1000) = Inr (specvol, alpha, beta, v0, delta) \<and>
       finite_fl specvol \<and> finite_fl alpha \<and> finite_fl beta \<and>
       specvol = v0 + delta \<and> specvol = Fin v \<and> s = sqrt ((30 + 32) / SAu_real) \<and> 0 < s \<and>
       reduced_ss (Fin 30) = Fin s \<and>
       v55_a_raw (Fin s) (reduced_tt (Fin 10)) (reduced_pp (Fin 1000)) = Fin a_raw \<and>
       v55_b_raw (Fin s) (reduced_tt (Fin 10)) (reduced_pp (Fin 1000)) = Fin b_raw \<and>
       alpha = Fin (a_raw / v) \<and> beta = Fin (b_raw / (s * v))) \<and>
   (\<exists>specvol alpha beta v0 delta v s a_raw b_raw.
       polyTEOS10_75t (Fin 30) (Fin 10) (Fin 1000) = Inr (specvol, alpha, beta, v0, delta) \<and>
       finite_fl specvol \<and> finite_fl alpha \<and> finite_fl beta \<and>
       specvol = v0 + delta \<and> specvol = Fin v \<and> s = sqrt ((30 + 32) / SAu_real) \<and> 0 < s \<and>
       reduced_ss (Fin 30) = Fin s \<and>
       v75_a_raw (Fin s) (reduced_tt (Fin 10)) (reduced_pp (Fin 1000)) = Fin a_raw \<and>
       v75_b_raw (Fin s) (reduced_tt (Fin 10)) (reduced_pp (Fin 1000)) = Fin b_raw \<and>
       alpha = Fin (a_raw / v) \<and> beta = Fin (b_raw / (s * v)))"
proof -
  have p: "(- 32 :: real) < 30" by simp
  note t = derivatives_normalised_by_specvol [OF p, of "Fin 10" "Fin 1000"]
  obtain specvol alpha beta v0 delta where
    a: "polyTEOS10_55t (Fin 30) (Fin 10) (Fin 1000) = Inr (specvol, alpha, beta, v0, delta)"
      "finite_fl specvol" "finite_fl alpha" "finite_fl beta"
    using v55_check encl_finite by blast
  obtain specvol' alpha' beta' v0' delta' where
    b: "polyTEOS10_75t (Fin 30) (Fin 10) (Fin 1000) = Inr (specvol', alpha', beta', v0', delta')"
      "finite_fl specvol'" "finite_fl alpha'" "finite_fl beta'"
    using v75_check encl_finite by blast
  have 1: "\<exists>specvol alpha beta v0 delta v s a_raw b_raw.
       polyTEOS10_55t (Fin 30) (Fin 10) (Fin 1000) = Inr (specvol, alpha, beta, v0, delta) \<and>
       finite_fl specvol \<and> finite_fl alpha \<and> finite_fl beta \<and>
       specvol = v0 + delta \<and> specvol = Fin v \<and> s = sqrt ((30 + 32) / SAu_real) \<and> 0 < s \<and>
       reduced_ss (Fin 30) = Fin s \<and>
       v55_a_raw (Fin s) (reduced_tt (Fin 10)) (reduced_pp (Fin 1000)) = Fin a_raw \<and>
       v55_b_raw (Fin s) (reduced_tt (Fin 10)) (reduced_pp (Fin 1000)) = Fin b_raw \<and>
       alpha = Fin (a_raw / v) \<and> beta = Fin (b_raw / (s * v))"
    using t a by (elim conjE exE) (simp, blast)
  have 2: "\<exists>specvol alpha beta v0 delta v s a_raw b_raw.
       polyTEOS10_75t (Fin 30) (Fin 10) (Fin 1000) = Inr (specvol, alpha, beta, v0, delta) \<and>
       finite_fl specvol \<and> finite_fl alpha \<and> finite_fl beta \<and>
       specvol = v0 + delta \<and> specvol = Fin v \<and> s = sqrt ((30 + 32) / SAu_real) \<and> 0 < s \<and>
       reduced_ss (Fin 30) = Fin s \<and>
       v75_a_raw (Fin s) (reduced_tt (Fin 10)) (reduced_pp (Fin 1000)) = Fin a_raw \<and>
       v75_b_raw (Fin s) (reduced_tt (Fin 10)) (reduced_pp (Fin 1000)) = Fin b_raw \<and>
       alpha = Fin (a_raw / v) \<and> beta = Fin (b_raw / (s * v))"
    using t b by (elim conjE exE) (simp, blast)
  show ?thesis using p 1 2 by blast
qed

section \<open>The documented check values\<close>

lemma encl_disjoint: "encl lo hi u \<Longrightarrow> hi < a \<or> b < lo \<Longrightarrow> \<not> encl a b u"
  by (cases u) auto

text \<open>
  Claim C1.  At \<open>SA = 30\<close>, \<open>CT = 10\<close>, \<open>p = 1000\<close> every evaluator returns, and its outputs
  lie in the intervals below.  For \<^verbatim>\<open>polyTEOS10_bsq\<close> and \<^verbatim>\<open>polyTEOS10_stif\<close> the
  intervals round to the check values of the docstrings (\<open>rho = 1027.45140\<close>,
  \<open>a = 0.179646281\<close>, \<open>b = 0.765555368\<close>, \<open>r0 = 4.59763035\<close>, \<open>r = 1022.85377\<close>; and
  \<open>rho = 1027.45140\<close>, \<open>a = 0.179649406\<close>, \<open>b = 0.765554495\<close>, \<open>r1 = 1.00447333\<close>,
  \<open>rdot = 1022.87574\<close>).  For \<^verbatim>\<open>polyTEOS10_55t\<close> and \<^verbatim>\<open>polyTEOS10_75t\<close> only \<open>v0\<close> does:
  \<open>specvol\<close> and \<open>delta\<close> are more than \<open>0.000005\<close> away from the documented
  \<open>9.732820466e-04\<close> and \<open>9.776150635e-04\<close> (\<open>9.732819628e-04\<close> and \<open>9.776149797e-04\<close> for
  the 75-term form), \<open>alpha\<close> more than \<open>0.00001\<close> away from \<open>1.748553121e-04\<close>
  (\<open>1.748439401e-04\<close>) and \<open>beta\<close> more than \<open>0.000003\<close> away from \<open>7.450974025e-04\<close>
  (\<open>7.451213159e-04\<close>): the outputs of the code differ from the documented ones in the third
  significant figure.  The two specific-volume evaluators set \<^verbatim>\<open>deltaS = 32.\<close>, as the two
  density evaluators do.
\<close>

theorem check_point_values:
  "(\<exists>rho a b r0 r.
     polyTEOS10_bsq (Fin 30) (Fin 10) (Fin 1000) = Inr (rho, a, b, r0, r) \<and>
     encl 1027.4514011 1027.4514012 rho \<and>
     encl 0.179646281329 0.17964628133 a \<and>
     encl 0.765555368 0.7655553681 b \<and>
     encl 4.5976303508 4.59763035081 r0 \<and>
     encl 1022.8537708207 1022.8537708208 r) \<and>
   (\<exists>rho a b r1 rdot.
     polyTEOS10_stif (Fin 30) (Fin 10) (Fin 1000) = Inr (rho, a, b, r1, rdot) \<and>
     encl 1027.4514038 1027.451404 rho \<and>
     encl 0.179649406 0.1796494061 a \<and>
     encl 0.7655544951 0.7655544952 b \<and>
     encl 1.00447333497 1.00447333498 r1 \<and>
     encl 1022.8757380822 1022.8757380823 rdot) \<and>
   (\<exists>specvol alpha beta v0 delta.
     polyTEOS10_55t (Fin 30) (Fin 10) (Fin 1000) = Inr (specvol, alpha, beta, v0, delta) \<and>
     encl 0.00096751071 0.00096751072 specvol \<and>
     encl 0.00019316638 0.00019316642 alpha \<and>
     encl 0.00074177884 0.00074177888 beta \<and>
     encl (- 0.000004333016905) (- 0.000004333016903) v0 \<and>
     encl 0.0009718437277 0.0009718437278 delta \<and>
     \<not> encl (0.0009732820466 - 0.000005) (0.0009732820466 + 0.000005) specvol \<and>
     \<not> encl (0.0001748553121 - 0.00001) (0.0001748553121 + 0.00001) alpha \<and>
     \<not> encl (0.0007450974025 - 0.000003) (0.0007450974025 + 0.000003) beta \<and>
     \<not> encl (0.0009776150635 - 0.000005) (0.0009776150635 + 0.000005) delta) \<and>
   (\<exists>specvol alpha beta v0 delta.
     polyTEOS10_75t (Fin 30) (Fin 10) (Fin 1000) = Inr (specvol, alpha, beta, v0, delta) \<and>
     encl 0.00096751047 0.00096751048 specvol \<and>
     encl 0.00019316479 0.00019316482 alpha \<and>
     encl 0.0007417912 0.00074179123 beta \<and>
     encl (- 0.000004333016905) (- 0.000004333016903) v0 \<and>
     encl 0.0009718434913 0.0009718434914 delta \<and>
     \<not> encl (0.0009732819628 - 0.000005) (0.0009732819628 + 0.000005) specvol \<and>
     \<not> encl (0.0001748439401 - 0.00001) (0.0001748439401 + 0.00001) alpha \<and>
     \<not> encl (0.0007451213159 - 0.000003) (0.0007451213159 + 0.000003) beta \<and>
     \<not> encl (0.0009776149797 - 0.000005) (0.0009776149797 + 0.000005) delta)"
proof -
  note b = encl_disjoint
  from v55_check obtain specvol alpha beta v0 delta where
    a: "polyTEOS10_55t (Fin 30) (Fin 10) (Fin 1000) = Inr (specvol, alpha, beta, v0, delta)"
      "encl 0.00096751071 0.00096751072 specvol" "encl 0.00019316638 0.00019316642 alpha"
      "encl 0.00074177884 0.00074177888 beta" "encl (- 0.000004333016905) (- 0.000004333016903) v0"
      "encl 0.0009718437277 0.0009718437278 delta"
    by blast
  have 1: "\<exists>specvol alpha beta v0 delta.
     polyTEOS10_55t (Fin 30) (Fin 10) (Fin 1000) = Inr (specvol, alpha, beta, v0, delta) \<and>
     encl 0.00096751071 0.00096751072 specvol \<and>
     encl 0.00019316638 0.00019316642 alpha \<and>
     encl 0.00074177884 0.00074177888 beta \<and>
     encl (- 0.000004333016905) (- 0.000004333016903) v0 \<and>
     encl 0.0009718437277 0.0009718437278 delta \<and>
     \<not> encl (0.0009732820466 - 0.000005) (0.0009732820466 + 0.000005) specvol \<and>
     \<not> encl (0.0001748553121 - 0.00001) (0.0001748553121 + 0.00001) alpha \<and>
     \<not> encl (0.0007450974025 - 0.000003) (0.0007450974025 + 0.000003) beta \<and>
     \<not> encl (0.0009776150635 - 0.000005) (0.0009776150635 + 0.000005) delta"
    apply (intro exI conjI)
            apply (rule a)+
       apply (rule b [OF a(2)], simp)
      apply (rule b [OF a(3)], simp)
     apply (rule b [OF a(4)], simp)
    apply (rule b [OF a(6)], simp)
    done
  from v75_check obtain specvol alpha beta v0 delta where
    c: "polyTEOS10_75t (Fin 30) (Fin 10) (Fin 1000) = Inr (specvol, alpha, beta, v0, delta)"
      "encl 0.00096751047 0.00096751048 specvol" "encl 0.00019316479 0.00019316482 alpha"
      "encl 0.0007417912 0.00074179123 beta" "encl (- 0.000004333016905) (- 0.000004333016903) v0"
      "encl 0.0009718434913 0.0009718434914 delta"
    by blast
  have 2: "\<exists>specvol alpha beta v0 delta.
     polyTEOS10_75t (Fin 30) (Fin 10) (Fin 1000) = Inr (specvol, alpha, beta, v0, delta) \<and>
     encl 0.00096751047 0.00096751048 specvol \<and>
     encl 0.00019316479 0.00019316482 alpha \<and>
     encl 0.0007417912 0.00074179123 beta \<and>
     encl (- 0.000004333016905) (- 0.000004333016903) v0 \<and>
     encl 0.0009718434913 0.0009718434914 delta \<and>
     \<not> encl (0.0009732819628 - 0.000005) (0.0009732819628 + 0.000005) specvol \<and>
     \<not> encl (0.0001748439401 - 0.00001) (0.0001748439401 + 0.00001) alpha \<and>
     \<not> encl (0.0007451213159 - 0.000003) (0.0007451213159 + 0.000003) beta \<and>
     \<not> encl (0.0009776149797 - 0.000005) (0.0009776149797 + 0.000005) delta"
    apply (intro exI conjI)
            apply (rule c)+
       apply (rule b [OF c(2)], simp)
      apply (rule b [OF c(3)], simp)
     apply (rule b [OF c(4)], simp)
    apply (rule b [OF c(6)], simp)
    done
  show ?thesis
    apply (intro conjI)
       apply (rule bsq_check)
      apply (rule stif_check)
     apply (rule 1)
    apply (rule 2)
    done
qed


end
